(* ===== verification/Prelude.thy ===== *)
theory Prelude
  imports Complex_Main "HOL-Library.Multiset"
begin

text \<open>
  Shared vocabulary of the development. The parser of \<^verbatim>\<open>src/src/index.ts\<close> is a
  sequence of steps each of which may throw; a thrown exception is the left summand of a
  sum type and a normal return the right one. This theory holds the combinators that
  sequence such steps (\<open>bind_result\<close>), that run a throwing check over every element of a
  list in order (\<open>for_each_check\<close>, a \<^verbatim>\<open>for\<close> loop whose body may throw) and that
  thread a state through such a loop (\<open>fold_result\<close>), with the lemmas that the component
  theories use to reason about them. The collection \<open>parser_simps\<close> gathers the
  evaluation rules of the model, so that a concrete QR string is evaluated by
  \<open>simp add: parser_simps\<close>.
\<close>

named_theorems parser_simps "rules that evaluate the parser model on concrete inputs"

subsection \<open>Lists\<close>

lemma Suc_length_tl: "xs \<noteq> [] \<Longrightarrow> Suc (length (tl xs)) = length xs"
  by (cases xs) auto

subsection \<open>Sequencing throwing steps\<close>

definition bind_result :: "'e + 'a \<Rightarrow> ('a \<Rightarrow> 'e + 'b) \<Rightarrow> 'e + 'b" where
  "bind_result r f = (case r of Inl e \<Rightarrow> Inl e | Inr x \<Rightarrow> f x)"

lemma bind_result_Inl [simp]: "bind_result (Inl e) f = Inl e"
  by (simp add: bind_result_def)

lemma bind_result_Inr [simp]: "bind_result (Inr x) f = f x"
  by (simp add: bind_result_def)

lemma bind_result_eq_Inr:
  "bind_result r f = Inr y \<longleftrightarrow> (\<exists>x. r = Inr x \<and> f x = Inr y)"
  by (cases r) auto

lemma bind_result_assoc:
  "bind_result (bind_result r f) g = bind_result r (\<lambda>x. bind_result (f x) g)"
  by (cases r) auto

lemma bind_result_eq_Inl:
  "bind_result r f = Inl e \<longleftrightarrow> r = Inl e \<or> (\<exists>x. r = Inr x \<and> f x = Inl e)"
  by (cases r) auto

subsection \<open>A loop whose body may throw\<close>

fun for_each_check :: "('a \<Rightarrow> 'e + unit) \<Rightarrow> 'a list \<Rightarrow> 'e + unit" where
  "for_each_check f [] = Inr ()"
| "for_each_check f (x # xs) = bind_result (f x) (\<lambda>_. for_each_check f xs)"

lemma for_each_check_Inr_iff [simp]:
  "for_each_check f xs = Inr u \<longleftrightarrow> (\<forall>x\<in>set xs. f x = Inr ())"
  by (induction xs) (auto simp: bind_result_eq_Inr)

lemma for_each_check_all_ok:
  "\<forall>x\<in>set xs. f x = Inr () \<Longrightarrow> for_each_check f xs = Inr ()"
  by simp

lemma for_each_check_append:
  "for_each_check f (xs @ ys) = bind_result (for_each_check f xs) (\<lambda>_. for_each_check f ys)"
  by (induction xs) (simp_all add: bind_result_assoc)

text \<open>The loop throws the error of the first element whose check fails.\<close>

lemma for_each_check_first_error:
  assumes "\<forall>y\<in>set ys. f y = Inr ()" and "f x = Inl e"
  shows "for_each_check f (ys @ x # zs) = Inl e"
  using assms by (simp add: for_each_check_append for_each_check_all_ok)

lemma for_each_check_Inl_iff:
  "for_each_check f xs = Inl e \<longleftrightarrow>
     (\<exists>ys x zs. xs = ys @ x # zs \<and> (\<forall>y\<in>set ys. f y = Inr ()) \<and> f x = Inl e)"
proof
  assume "for_each_check f xs = Inl e"
  then show "\<exists>ys x zs. xs = ys @ x # zs \<and> (\<forall>y\<in>set ys. f y = Inr ()) \<and> f x = Inl e"
  proof (induction xs)
    case Nil
    then show ?case by simp
  next
    case (Cons a xs)
    show ?case
    proof (cases "f a")
      case (Inl e')
      with Cons.prems have "f a = Inl e" by simp
      then show ?thesis by (intro exI [of _ "[]"]) auto
    next
      case (Inr u)
      with Cons.prems have "for_each_check f xs = Inl e" by simp
      with Cons.IH obtain ys x zs where
        "xs = ys @ x # zs" "\<forall>y\<in>set ys. f y = Inr ()" "f x = Inl e" by blast
      with Inr show ?thesis by (intro exI [of _ "a # ys"]) auto
    qed
  qed
next
  assume "\<exists>ys x zs. xs = ys @ x # zs \<and> (\<forall>y\<in>set ys. f y = Inr ()) \<and> f x = Inl e"
  then show "for_each_check f xs = Inl e"
    by (auto intro: for_each_check_first_error)
qed

subsection \<open>A loop that threads a state and may throw\<close>

fun fold_result :: "('a \<Rightarrow> 's \<Rightarrow> 'e + 's) \<Rightarrow> 'a list \<Rightarrow> 's \<Rightarrow> 'e + 's" where
  "fold_result f [] s = Inr s"
| "fold_result f (x # xs) s = bind_result (f x s) (fold_result f xs)"

lemma fold_result_append:
  "fold_result f (xs @ ys) s = bind_result (fold_result f xs s) (fold_result f ys)"
  by (induction xs arbitrary: s) (simp_all add: bind_result_def split: sum.split)

lemma fold_result_cong:
  "(\<And>x. x \<in> set xs \<Longrightarrow> f x = g x) \<Longrightarrow> fold_result f xs s = fold_result g xs s"
  by (induction xs arbitrary: s) (simp_all add: bind_result_def split: sum.split)

text \<open>A thrown error comes from one step of the loop.\<close>

lemma fold_result_Inl:
  "fold_result f xs s = Inl e \<Longrightarrow> \<exists>x\<in>set xs. \<exists>s'. f x s' = Inl e"
  by (induction xs arbitrary: s) (auto simp: bind_result_eq_Inl)

text \<open>A loop whose every step succeeds is an ordinary fold.\<close>

lemma fold_result_total:
  assumes "\<And>x s. x \<in> set xs \<Longrightarrow> f x s = Inr (g x s)"
  shows "fold_result f xs s = Inr (fold g xs s)"
  using assms by (induction xs arbitrary: s) auto

text \<open>A property that every step of the loop keeps holds of its result.\<close>

lemma fold_result_invariant:
  assumes "\<And>x s s'. x \<in> set xs \<Longrightarrow> P s \<Longrightarrow> f x s = Inr s' \<Longrightarrow> P s'"
    and "P s" and "fold_result f xs s = Inr s'"
  shows "P s'"
  using assms by (induction xs arbitrary: s) (auto simp: bind_result_eq_Inr)

text \<open>A counting loop \<^verbatim>\<open>for (i = start; i <= n; i++)\<close> whose body may throw is the
  loop over the indices from the start to \<open>n\<close>: any function with the loop's unfolding
  equation computes it.\<close>

lemma counter_loop_fold:
  assumes step: "\<And>i r. g i r = (if i \<le> n then bind_result (f i r) (g (Suc i)) else Inr r)"
  shows "g i r = fold_result f [i..<Suc n] r"
proof (induction "Suc n - i" arbitrary: i r rule: less_induct)
  case less
  show ?case
  proof (cases "i \<le> n")
    case True
    then have "Suc n - Suc i < Suc n - i" by arith
    then have "\<And>x. g (Suc i) x = fold_result f [Suc i..<Suc n] x"
      using less by blast
    then have IH: "g (Suc i) = fold_result f [Suc i..<Suc n]"
      by (rule ext)
    have "[i..<Suc n] = i # [Suc i..<Suc n]" using True by (simp add: upt_conv_Cons)
    with True IH show ?thesis
      by (subst step) simp
  next
    case False
    then show ?thesis by (subst step) simp
  qed
qed

lemmas [parser_simps] = bind_result_Inl bind_result_Inr

end
