(* ===== verification/JsNumber.thy ===== *)
theory JsNumber
  imports JsString
begin

text \<open>
  The conversion \<^verbatim>\<open>Number(s)\<close> of a string to a number, which the parser uses for every
  numeric field (\<^verbatim>\<open>src/src/index.ts\<close> lines 253 and 292) and tests with \<^verbatim>\<open>isNaN\<close>
  (lines 254 and 293). It follows ECMAScript's StringToNumber: white space around the
  literal is ignored, an empty or blank string is 0, \<^verbatim>\<open>0x\<close>/\<^verbatim>\<open>0o\<close>/\<^verbatim>\<open>0b\<close>
  prefixes give hexadecimal, octal and binary integers, a decimal literal has an
  optional sign, digits with an optional fraction and an optional exponent, and
  \<^verbatim>\<open>Infinity\<close> may be signed; anything else is NaN.

  A JavaScript number is a double. The model keeps the exact rational value of the
  literal (\<open>Num q\<close>), which the runtime rounds to the nearest double; the parser never
  computes with the numbers it reads, only stores them, so the rounding is left out. The
  rounding cannot turn a literal into NaN, so the error behaviour is exact.
\<close>

datatype js_number = Num rat | PosInfinity | NegInfinity | NaN

definition is_nan :: "js_number \<Rightarrow> bool" where
  "is_nan x \<longleftrightarrow> x = NaN"

subsection \<open>White space (StrWhiteSpaceChar in the Latin-1 range)\<close>

definition is_str_whitespace :: "char \<Rightarrow> bool" where
  "is_str_whitespace c \<longleftrightarrow> (of_char c :: nat) \<in> {9, 10, 11, 12, 13, 32, 160}"

definition trim_ws :: "string \<Rightarrow> string" where
  "trim_ws s = rev (dropWhile is_str_whitespace (rev (dropWhile is_str_whitespace s)))"

subsection \<open>Non-decimal integer literals\<close>

definition hex_digit_value :: "char \<Rightarrow> nat option" where
  "hex_digit_value c =
     (let n = (of_char c :: nat) in
      if 48 \<le> n \<and> n \<le> 57 then Some (n - 48)
      else if 97 \<le> n \<and> n \<le> 102 then Some (n - 87)
      else if 65 \<le> n \<and> n \<le> 70 then Some (n - 55)
      else None)"

definition radix_digit :: "nat \<Rightarrow> char \<Rightarrow> nat option" where
  "radix_digit b c =
     (case hex_digit_value c of Some d \<Rightarrow> if d < b then Some d else None | None \<Rightarrow> None)"

fun radix_acc :: "nat \<Rightarrow> nat \<Rightarrow> string \<Rightarrow> nat option" where
  "radix_acc b n [] = Some n"
| "radix_acc b n (c # cs) =
     (case radix_digit b c of None \<Rightarrow> None | Some d \<Rightarrow> radix_acc b (b * n + d) cs)"

definition non_decimal_radix :: "char \<Rightarrow> nat option" where
  "non_decimal_radix c =
     (if c = CHR ''x'' \<or> c = CHR ''X'' then Some 16
      else if c = CHR ''o'' \<or> c = CHR ''O'' then Some 8
      else if c = CHR ''b'' \<or> c = CHR ''B'' then Some 2
      else None)"

subsection \<open>Decimal literals\<close>

definition decimal_value :: "string \<Rightarrow> int \<Rightarrow> rat" where
  "decimal_value ds e = of_int (int (digits_to_nat ds)) * 10 powi e"

definition exponent_value :: "string \<Rightarrow> int option" where
  "exponent_value s =
     (let (sg, ds) = (case s of
                        [] \<Rightarrow> (1, [])
                      | c # r \<Rightarrow> if c = CHR ''+'' then (1, r)
                                 else if c = CHR ''-'' then (-1, r) else (1, s))
      in if ds \<noteq> [] \<and> list_all is_ascii_digit ds
         then Some (sg * int (digits_to_nat ds)) else None)"

text \<open>
  StrUnsignedDecimalLiteral without \<^verbatim>\<open>Infinity\<close>: integer digits, an optional point
  with fraction digits, an optional exponent; at least one digit before or after the
  point.
\<close>

definition unsigned_decimal_value :: "string \<Rightarrow> rat option" where
  "unsigned_decimal_value s =
     (let ip = takeWhile is_ascii_digit s;
          r1 = dropWhile is_ascii_digit s;
          (fp, r2) = (case r1 of
                        [] \<Rightarrow> ([], [])
                      | c # r \<Rightarrow> if c = CHR ''.''
                                 then (takeWhile is_ascii_digit r, dropWhile is_ascii_digit r)
                                 else ([], r1));
          ex = (case r2 of
                  [] \<Rightarrow> Some 0
                | c # r \<Rightarrow> if c = CHR ''e'' \<or> c = CHR ''E'' then exponent_value r else None)
      in if ip = [] \<and> fp = [] then None
         else map_option (\<lambda>e. decimal_value (ip @ fp) (e - int (length fp))) ex)"

definition str_decimal_literal :: "string \<Rightarrow> js_number" where
  "str_decimal_literal s =
     (let (neg, u) = (case s of
                        [] \<Rightarrow> (False, [])
                      | c # r \<Rightarrow> if c = CHR ''-'' then (True, r)
                                 else if c = CHR ''+'' then (False, r) else (False, s))
      in if u = ''Infinity'' then (if neg then NegInfinity else PosInfinity)
         else (case unsigned_decimal_value u of
                 None \<Rightarrow> NaN
               | Some q \<Rightarrow> Num (if neg then - q else q)))"

subsection \<open>StringToNumber\<close>

definition string_to_number :: "string \<Rightarrow> js_number" where
  "string_to_number s =
     (let t = trim_ws s in
      if t = [] then Num 0
      else (case t of
              c0 # c1 # r \<Rightarrow>
                (case (if c0 = CHR ''0'' then non_decimal_radix c1 else None) of
                   Some b \<Rightarrow> (if r = [] then NaN
                              else (case radix_acc b 0 r of
                                      None \<Rightarrow> NaN
                                    | Some n \<Rightarrow> Num (of_int (int n))))
                 | None \<Rightarrow> str_decimal_literal t)
            | _ \<Rightarrow> str_decimal_literal t))"

subsection \<open>The decimal format of the specification\<close>

text \<open>The text of a decimal in the format of the specification: a sign (none, minus or plus),
  the integer digits, and the fraction digits after a point when there are any.\<close>

definition decimal_text :: "string \<Rightarrow> string \<Rightarrow> string \<Rightarrow> string" where
  "decimal_text sign ip fp = sign @ ip @ (if fp = [] then [] else CHR ''.'' # fp)"

subsection \<open>Lemmas: decimal literals\<close>

lemma digit_not_whitespace: "is_ascii_digit c \<Longrightarrow> \<not> is_str_whitespace c"
  by (auto simp: is_ascii_digit_def is_str_whitespace_def)

lemma trim_ws_id:
  assumes "s \<noteq> []" and "\<not> is_str_whitespace (hd s)" and "\<not> is_str_whitespace (last s)"
  shows "trim_ws s = s"
proof -
  have "dropWhile is_str_whitespace s = s"
    using assms(1,2) by (cases s) auto
  moreover have "dropWhile is_str_whitespace (rev s) = rev s"
    using assms(1,3) by (cases "rev s") (auto simp: last_rev [symmetric])
  ultimately show ?thesis by (simp add: trim_ws_def)
qed

lemma takeWhile_digits_append:
  "list_all is_ascii_digit ds \<Longrightarrow> (r = [] \<or> \<not> is_ascii_digit (hd r)) \<Longrightarrow>
     takeWhile is_ascii_digit (ds @ r) = ds \<and> dropWhile is_ascii_digit (ds @ r) = r"
  by (cases r) (auto simp: list_all_iff)

lemma dot_not_digit: "\<not> is_ascii_digit CHR ''.''"
  by (simp add: is_ascii_digit_def)

lemma unsigned_decimal_value_text:
  assumes "ip \<noteq> []" and "list_all is_ascii_digit ip" and "list_all is_ascii_digit fp"
  shows "unsigned_decimal_value (ip @ (if fp = [] then [] else CHR ''.'' # fp)) =
           Some (of_int (int (digits_to_nat (ip @ fp))) / 10 ^ length fp)"
proof (cases "fp = []")
  case True
  have t: "takeWhile is_ascii_digit ip = ip" "dropWhile is_ascii_digit ip = []"
    using assms(2) by (simp_all add: list_all_iff)
  with True assms(1) show ?thesis
    by (simp add: unsigned_decimal_value_def decimal_value_def t)
next
  case False
  have ip: "takeWhile is_ascii_digit (ip @ CHR ''.'' # fp) = ip"
           "dropWhile is_ascii_digit (ip @ CHR ''.'' # fp) = CHR ''.'' # fp"
    using takeWhile_digits_append [OF assms(2), of "CHR ''.'' # fp"] by (simp_all add: dot_not_digit)
  have f: "takeWhile is_ascii_digit fp = fp" "dropWhile is_ascii_digit fp = []"
    using assms(3) by (simp_all add: list_all_iff)
  have "(10::rat) powi (- int (length fp)) = 1 / 10 ^ length fp"
    by (simp add: power_int_minus divide_inverse)
  with False assms(1) show ?thesis
    by (simp add: unsigned_decimal_value_def decimal_value_def divide_inverse ip f)
qed

lemma non_decimal_radix_digit_dot:
  "is_ascii_digit c \<or> c = CHR ''.'' \<Longrightarrow> non_decimal_radix c = None"
  by (auto simp: non_decimal_radix_def is_ascii_digit_def)

lemma no_radix_prefix:
  "hd s \<noteq> CHR ''0'' \<or> (\<forall>c\<in>set (tl s). non_decimal_radix c = None) \<Longrightarrow>
     (case s of c0 # c1 # r \<Rightarrow> (if c0 = CHR ''0'' then non_decimal_radix c1 else None)
      | _ \<Rightarrow> None) = None"
  by (cases s rule: remdups_adj.cases) auto

lemma string_to_number_decimal_branch:
  assumes "trim_ws s = s" and "s \<noteq> []"
    and "(case s of c0 # c1 # r \<Rightarrow> (if c0 = CHR ''0'' then non_decimal_radix c1 else None)
          | _ \<Rightarrow> None) = None"
  shows "string_to_number s = str_decimal_literal s"
  using assms by (cases s rule: remdups_adj.cases) (auto simp: string_to_number_def split: if_splits)

text \<open>The specification's decimal format: \<open>Number\<close> maps the text of an
  optional sign, a non-empty run of digits and an optional point followed by digits (the
  "standard decimal textual representation" of the specification, section 5) to the
  rational number it denotes. This is the exact value of the model; JavaScript rounds it to
  the nearest double (and to \<^verbatim>\<open>Infinity\<close> past the double range), which never
  produces NaN.\<close>

lemma string_to_number_decimal:
  assumes "sign \<in> {[], ''-'', ''+''}" and "ip \<noteq> []"
    and "list_all is_ascii_digit ip" and "list_all is_ascii_digit fp"
  shows "string_to_number (decimal_text sign ip fp) =
           Num ((if sign = ''-'' then -1 else 1) * of_int (int (digits_to_nat (ip @ fp))) / 10 ^ length fp)"
proof -
  define u where "u = ip @ (if fp = [] then [] else CHR ''.'' # fp)"
  have u_chars: "\<forall>c\<in>set u. is_ascii_digit c \<or> c = CHR ''.''"
    using assms(3,4) by (auto simp: list_all_iff u_def)
  have u_hd: "u \<noteq> [] \<and> is_ascii_digit (hd u)"
    using assms(2,3) by (cases ip) (auto simp: u_def)
  have u_last: "is_ascii_digit (last u)"
    using assms(2,3,4) by (auto simp: list_all_iff u_def)
  have sign_char: "\<forall>c\<in>set sign. \<not> is_str_whitespace c \<and> c \<noteq> CHR ''0''"
    using assms(1) by (auto simp: is_str_whitespace_def)
  have trim: "trim_ws (sign @ u) = sign @ u"
    using u_hd u_last sign_char digit_not_whitespace
    by (intro trim_ws_id) (auto simp: hd_append)
  have no_radix: "(case sign @ u of c0 # c1 # r \<Rightarrow>
                     (if c0 = CHR ''0'' then non_decimal_radix c1 else None) | _ \<Rightarrow> None) = None"
  proof (rule no_radix_prefix)
    show "hd (sign @ u) \<noteq> CHR ''0'' \<or> (\<forall>c\<in>set (tl (sign @ u)). non_decimal_radix c = None)"
    proof (cases "sign = []")
      case True
      then have "\<forall>c\<in>set (tl (sign @ u)). non_decimal_radix c = None"
        using u_chars non_decimal_radix_digit_dot by (metis append_Nil list.set_sel(2) tl_Nil)
      then show ?thesis ..
    next
      case False
      then have "hd (sign @ u) \<noteq> CHR ''0''" using assms(1) by auto
      then show ?thesis ..
    qed
  qed
  have "string_to_number (sign @ u) = str_decimal_literal (sign @ u)"
    using trim no_radix u_hd by (intro string_to_number_decimal_branch) auto
  moreover have "u \<noteq> ''Infinity''"
    using u_hd by (auto simp: is_ascii_digit_def)
  moreover have "hd u \<noteq> CHR ''-'' \<and> hd u \<noteq> CHR ''+''"
    using u_hd by (auto simp: is_ascii_digit_def)
  ultimately show ?thesis
    using assms(1) u_hd unsigned_decimal_value_text [OF assms(2-4), folded u_def]
    by (cases u) (auto simp: str_decimal_literal_def decimal_text_def u_def [symmetric])
qed
subsection \<open>Lemmas: non-decimal literals and blank text\<close>

lemma hex_digit_value_less: "hex_digit_value c = Some d \<Longrightarrow> d < 16"
  by (auto simp: hex_digit_value_def Let_def split: if_splits)

lemma radix_acc_digits:
  "list_all (\<lambda>c. radix_digit b c \<noteq> None) cs \<Longrightarrow>
     radix_acc b n cs = Some (foldl (\<lambda>n c. b * n + the (radix_digit b c)) n cs)"
  by (induction cs arbitrary: n) auto

lemma radix_digit_16: "radix_digit 16 c = hex_digit_value c"
  by (cases "hex_digit_value c") (auto simp: radix_digit_def dest: hex_digit_value_less)

lemma hex_digit_not_whitespace: "hex_digit_value c \<noteq> None \<Longrightarrow> \<not> is_str_whitespace c"
  by (auto simp: hex_digit_value_def is_str_whitespace_def Let_def split: if_splits)

text \<open>C27: \<^verbatim>\<open>Number\<close> reads \<^verbatim>\<open>0x\<close> followed by hexadecimal digits as the integer
  they denote in base 16, text that the specification's decimal format does not admit. The
  value is below \<open>2^53\<close>, where every integer is a double, so the equation holds of
  JavaScript's doubles as well as of the model's exact values.\<close>

theorem string_to_number_hex:
  assumes "hs \<noteq> []" and "list_all (\<lambda>c. hex_digit_value c \<noteq> None) hs"
    and "foldl (\<lambda>n c. 16 * n + the (hex_digit_value c)) 0 hs < 2 ^ 53"
  shows "string_to_number (''0x'' @ hs) =
           Num (of_int (int (foldl (\<lambda>n c. 16 * n + the (hex_digit_value c)) 0 hs)))"
proof -
  have "trim_ws (''0x'' @ hs) = ''0x'' @ hs"
    using assms hex_digit_not_whitespace
    by (intro trim_ws_id) (auto simp: is_str_whitespace_def list_all_iff)
  moreover have "radix_acc 16 0 hs = Some (foldl (\<lambda>n c. 16 * n + the (hex_digit_value c)) 0 hs)"
    using radix_acc_digits [of 16 hs 0] assms(2) by (simp add: radix_digit_16)
  ultimately show ?thesis
    using assms(1) by (simp add: string_to_number_def non_decimal_radix_def)
qed

theorem string_to_number_hex_witness: "string_to_number ''0x1F'' = Num 31"
  using string_to_number_hex [of "''1F''"]
  by (simp add: hex_digit_value_def)

text \<open>C28: \<^verbatim>\<open>Number\<close> reads text made of white space only, which passes the
  validator's non-empty check, as 0.\<close>

theorem string_to_number_blank: "list_all is_str_whitespace s \<Longrightarrow> string_to_number s = Num 0"
proof -
  assume "list_all is_str_whitespace s"
  then have t: "trim_ws s = []" by (auto simp: trim_ws_def list_all_iff dest: set_dropWhileD)
  show ?thesis by (simp add: string_to_number_def t)
qed

theorem string_to_number_blank_witness: "string_to_number [CHR '' '', CHR 0x09] = Num 0"
  using string_to_number_blank [of "[CHR '' '', CHR 0x09]"] by (simp add: is_str_whitespace_def)

end
