(* ===== verification/JsObject.thy ===== *)
theory JsObject
  imports JsNumber
begin

text \<open>
  The plain JavaScript object that \<^verbatim>\<open>extractDataDictionary\<close> fills
  (\<^verbatim>\<open>src/src/index.ts\<close> lines 171--176) and that every later step reads. Its own
  properties are an association list in insertion order (\<open>js_object\<close>), with
  values that are strings or \<^verbatim>\<open>undefined\<close> (\<open>js_value\<close>): a section without a colon
  destructures to a key with an undefined value (line 174).
  \<^item> \<open>obj_set\<close> is the assignment \<^verbatim>\<open>o[k] = v\<close>: an existing key keeps its place and takes
    the new value, a new key is appended; the key \<^verbatim>\<open>__proto__\<close> reaches the inherited
    accessor of \<^verbatim>\<open>Object.prototype\<close>, whose setter ignores a string or undefined, so the
    assignment does nothing;
  \<^item> \<open>obj_get\<close> is the read \<^verbatim>\<open>o[k]\<close>, \<^verbatim>\<open>undefined\<close> for an absent key (the keys the
    parser reads are none of \<^verbatim>\<open>Object.prototype\<close>'s);
  \<^item> \<open>own_keys\<close> is the order in which \<^verbatim>\<open>Object.keys\<close> and \<^verbatim>\<open>for ... in\<close> list the
    keys (OrdinaryOwnPropertyKeys): array indices (canonical decimal numbers below
    \<open>2^32 - 1\<close>) first in increasing numeric order, then the other keys in insertion order;
  \<^item> \<open>for_in_array_keys\<close> is what \<^verbatim>\<open>for (let x in arr)\<close> binds: the indices of the
    array as strings, not its elements (line 225);
  \<^item> \<open>to_number\<close> and \<open>js_truthy\<close> are \<^verbatim>\<open>Number(v)\<close> and the truth test of
    \<^verbatim>\<open>if (v)\<close> on such values.
\<close>

datatype js_value = JsString string | JsUndefined

type_synonym js_object = "(string \<times> js_value) list"

definition to_number :: "js_value \<Rightarrow> js_number" where
  "to_number v = (case v of JsString s \<Rightarrow> string_to_number s | JsUndefined \<Rightarrow> NaN)"

definition js_truthy :: "js_value \<Rightarrow> bool" where
  "js_truthy v = (case v of JsString s \<Rightarrow> s \<noteq> [] | JsUndefined \<Rightarrow> False)"

subsection \<open>Property assignment and lookup\<close>

fun obj_put :: "js_object \<Rightarrow> string \<Rightarrow> js_value \<Rightarrow> js_object" where
  "obj_put [] k v = [(k, v)]"
| "obj_put ((k', v') # ps) k v =
     (if k' = k then (k, v) # ps else (k', v') # obj_put ps k v)"

definition obj_set :: "js_object \<Rightarrow> string \<Rightarrow> js_value \<Rightarrow> js_object" where
  "obj_set ob k v = (if k = ''__proto__'' then ob else obj_put ob k v)"

definition obj_get :: "js_object \<Rightarrow> string \<Rightarrow> js_value" where
  "obj_get ob k = (case map_of ob k of Some v \<Rightarrow> v | None \<Rightarrow> JsUndefined)"

subsection \<open>Key order\<close>

definition is_array_index :: "string \<Rightarrow> bool" where
  "is_array_index k \<longleftrightarrow>
     k \<noteq> [] \<and> list_all is_ascii_digit k \<and> (k = ''0'' \<or> hd k \<noteq> CHR ''0'')
     \<and> digits_to_nat k < 4294967295"

definition own_keys :: "js_object \<Rightarrow> string list" where
  "own_keys ob =
     (let ks = map fst ob
      in sort_key digits_to_nat (filter is_array_index ks) @ filter (\<lambda>k. \<not> is_array_index k) ks)"

definition for_in_array_keys :: "'a list \<Rightarrow> string list" where
  "for_in_array_keys xs = map nat_to_string [0..<length xs]"

subsection \<open>Lemmas: assignment keeps the keys unique and updates the lookup\<close>

lemma obj_put_keys:
  "map fst (obj_put ob k v) = (if k \<in> set (map fst ob) then map fst ob else map fst ob @ [k])"
  by (induction ob) (fastforce simp: image_iff)+

lemma set_keys_obj_put [simp]: "set (map fst (obj_put ob k v)) = insert k (set (map fst ob))"
  by (auto simp: obj_put_keys)

lemma distinct_obj_put:
  "distinct (map fst ob) \<Longrightarrow> distinct (map fst (obj_put ob k v))"
  by (simp add: obj_put_keys)

lemma map_of_obj_put [simp]: "map_of (obj_put ob k v) = (map_of ob)(k \<mapsto> v)"
  by (induction ob) (auto simp: fun_eq_iff)

lemma distinct_obj_set:
  "distinct (map fst ob) \<Longrightarrow> distinct (map fst (obj_set ob k v))"
  by (simp add: obj_set_def distinct_obj_put)

lemma obj_get_Nil [simp]: "obj_get [] k = JsUndefined"
  by (simp add: obj_get_def)

subsection \<open>Lemmas: the key order is a permutation of the keys\<close>

lemma mset_own_keys: "mset (own_keys ob) = mset (map fst ob)"
  by (simp add: own_keys_def Let_def multiset_partition [symmetric])

lemma set_own_keys [simp]: "set (own_keys ob) = set (map fst ob)"
  by (metis mset_own_keys set_mset_mset)

lemma distinct_own_keys:
  "distinct (map fst ob) \<Longrightarrow> distinct (own_keys ob)"
  by (simp add: mset_eq_imp_distinct_iff [OF mset_own_keys])

text \<open>Without numeric keys, the order is the insertion order.\<close>

lemma own_keys_no_index:
  "\<forall>k\<in>set (map fst ob). \<not> is_array_index k \<Longrightarrow> own_keys ob = map fst ob"
proof -
  assume "\<forall>k\<in>set (map fst ob). \<not> is_array_index k"
  then have "filter is_array_index (map fst ob) = []"
    and "filter (\<lambda>k. \<not> is_array_index k) (map fst ob) = map fst ob"
    by (simp_all add: filter_empty_conv)
  then show ?thesis by (simp add: own_keys_def)
qed

lemma is_array_index_Cons_letter:
  "\<not> is_ascii_digit c \<Longrightarrow> \<not> is_array_index (c # s)"
  by (simp add: is_array_index_def)

end
