(* ===== verification/InvoiceModel.thy ===== *)
theory InvoiceModel
  imports JsObject
begin

text \<open>
  The data the parser produces and throws.
  \<^item> \<open>parser_error\<close> is the exception hierarchy of
    \<^verbatim>\<open>src/src/exceptions/portugal_qrcode_data_parser.exception.ts\<close>: one constructor per
    subclass of \<^verbatim>\<open>PortugalQrCodeDataParserException\<close>, each carrying its message, and
    one more, \<open>TypeError\<close>, for the runtime error the JavaScript engine throws when the
    parser reads \<^verbatim>\<open>.length\<close> of \<^verbatim>\<open>undefined\<close> (index.ts lines 116 and 208).
    \<open>is_parser_exception\<close> is \<^verbatim>\<open>instanceof PortugalQrCodeDataParserException\<close>.
  \<^item> \<open>ITaxCountryRegion\<close> and \<open>IPortugalInvoice\<close> are the interfaces of
    \<^verbatim>\<open>src/src/interfaces/\<close>; a JavaScript \<^verbatim>\<open>number\<close> is a \<open>js_number\<close> and
    \<^verbatim>\<open>T | null\<close> is \<open>T option\<close>.
  \<^item> \<open>createEmptyTaxCountryRegion\<close> and \<open>createEmptyInvoice\<close> are the two
    factories of index.ts (lines 53--90).
\<close>

datatype parser_error =
    NoQrCodeDataException string
  | NoTaxCountryRegionException string
  | MissingRequiredParamException string
  | InvalidParamFormatException string
  | InvalidParamLengthException string
  | InvalidTaxCountryRegionElement string
  | TypeError string

definition is_parser_exception :: "parser_error \<Rightarrow> bool" where
  "is_parser_exception e = (case e of TypeError _ \<Rightarrow> False | _ \<Rightarrow> True)"

definition type_error_length :: parser_error where
  "type_error_length =
     TypeError (''Cannot read properties of undefined (reading '' @ [CHR 0x27] @ ''length''
                @ [CHR 0x27] @ '')'')"

record ITaxCountryRegion =
  taxCountryRegion :: "string option"
  taxableBaseExemptOfVAT :: "js_number option"
  taxableBaseOfVATAtReducedRate :: "js_number option"
  totalVATAtReducedRate :: "js_number option"
  taxableBaseOfVATAtAIntermediateRate :: "js_number option"
  totalVATAtIntermediateRate :: "js_number option"
  taxableBaseOfVATAtAStandardRate :: "js_number option"
  totalVATAtStandardRate :: "js_number option"

record IPortugalInvoice =
  remitentNif :: string
  clientNif :: string
  clientCountry :: string
  documentType :: string
  documentStatus :: string
  documentDate :: string
  documentId :: string
  ATCUD :: string
  taxCountryRegions :: "ITaxCountryRegion list"
  notTaxableInVAT :: "js_number option"
  stampDuty :: "js_number option"
  totalTaxes :: js_number
  totalDocumentWithTaxes :: js_number
  withholdingTaxes :: js_number
  hash :: string
  certificateNumber :: string
  otherInformation :: "string option"

definition createEmptyTaxCountryRegion :: ITaxCountryRegion where
  "createEmptyTaxCountryRegion =
     \<lparr>taxCountryRegion = None,
      taxableBaseExemptOfVAT = None,
      taxableBaseOfVATAtReducedRate = None,
      totalVATAtReducedRate = None,
      taxableBaseOfVATAtAIntermediateRate = None,
      totalVATAtIntermediateRate = None,
      taxableBaseOfVATAtAStandardRate = None,
      totalVATAtStandardRate = None\<rparr>"

definition createEmptyInvoice :: IPortugalInvoice where
  "createEmptyInvoice =
     \<lparr>remitentNif = [], clientNif = [], clientCountry = [], documentType = [],
      documentStatus = [], documentDate = [], documentId = [], ATCUD = [],
      taxCountryRegions = [],
      notTaxableInVAT = None,
      stampDuty = None,
      totalTaxes = Num 0,
      totalDocumentWithTaxes = Num 0,
      withholdingTaxes = Num 0,
      hash = [], certificateNumber = [],
      otherInformation = None\<rparr>"

text \<open>
  The string a property read gives where the code assigns it to a \<^verbatim>\<open>string\<close> field.
  The parser assigns only values that the validation step has already read the
  \<^verbatim>\<open>length\<close> of, so the \<^verbatim>\<open>undefined\<close> branch is never taken
  (\<open>QrParser.required_present\<close>).
\<close>

definition js_str :: "js_value \<Rightarrow> string" where
  "js_str v = (case v of JsString s \<Rightarrow> s | JsUndefined \<Rightarrow> [])"

lemma js_str_JsString [simp]: "js_str (JsString s) = s"
  by (simp add: js_str_def)

lemma is_parser_exception_simps [simp]:
  "\<not> is_parser_exception (TypeError m)"
  "is_parser_exception (NoQrCodeDataException m)"
  "is_parser_exception (MissingRequiredParamException m)"
  "is_parser_exception (InvalidParamFormatException m)"
  "is_parser_exception (InvalidParamLengthException m)"
  "is_parser_exception (NoTaxCountryRegionException m)"
  "is_parser_exception (InvalidTaxCountryRegionElement m)"
  by (simp_all add: is_parser_exception_def)

end
