(* ===== verification/Validator.thy ===== *)
theory Validator
  imports InvoiceModel
begin

text \<open>
  The structural validator: the static tables of \<^verbatim>\<open>PortugalQrCodeDataParser\<close>
  (\<^verbatim>\<open>src/src/index.ts\<close> lines 8--51) and \<^verbatim>\<open>validateQrDataDictionary\<close> (lines 187--215).
  The loop visits the keys of the dictionary in \<open>own_keys\<close> order; its body is
  \<open>validate_entry\<close>, which finds the maximum length of the key (\<open>entry_max_length\<close>:
  the index table for keys starting with \<^verbatim>\<open>I\<close>, \<^verbatim>\<open>J\<close> or \<^verbatim>\<open>K\<close>, whose index is the
  first run of digits anywhere in the key, the field table otherwise) and checks the
  value's length against it. A key the field table does not list has the maximum
  \<^verbatim>\<open>undefined\<close> (\<open>None\<close>), and \<^verbatim>\<open>length > undefined\<close> is false, so only its
  emptiness is checked.

  The lemmas show that the loop accepts exactly the dictionaries whose every entry
  satisfies the declarative contract \<open>valid_entry\<close>, that a rejected dictionary is
  rejected with the error of its first bad key in \<open>own_keys\<close> order, and what each table
  lookup gives.
\<close>

definition requiredElements :: "string list" where
  "requiredElements =
     [''A'', ''B'', ''C'', ''D'', ''E'', ''F'', ''G'', ''H'', ''N'', ''O'', ''Q'', ''R'']"

definition maxElementLength :: "(string \<times> nat) list" where
  "maxElementLength =
     [(''A'', 9), (''B'', 30), (''C'', 12), (''D'', 2), (''E'', 1), (''F'', 8),
      (''G'', 60), (''H'', 70), (''L'', 16), (''M'', 16), (''N'', 16), (''O'', 16),
      (''P'', 16), (''Q'', 4), (''R'', 4), (''S'', 65)]"

definition maxTaxCountryRegionLength :: "(string \<times> nat) list" where
  "maxTaxCountryRegionLength =
     [(''1'', 5), (''2'', 16), (''3'', 16), (''4'', 16), (''5'', 16), (''6'', 16),
      (''7'', 16), (''8'', 16)]"

definition is_region_key :: "string \<Rightarrow> bool" where
  "is_region_key key \<longleftrightarrow>
     starts_with ''I'' key \<or> starts_with ''J'' key \<or> starts_with ''K'' key"

text \<open>Lines 189--206: the maximum length of a key, or the format error it raises.\<close>

definition entry_max_length :: "string \<Rightarrow> parser_error + nat option" where
  "entry_max_length key =
     (if is_region_key key then
        (case first_digit_run key of
           None \<Rightarrow> Inl (InvalidParamFormatException
                          ''Found a tax country region element without index'')
         | Some ds \<Rightarrow>
             (let index = digits_to_nat ds in
              if index < 1 \<or> index > 8
              then Inl (InvalidParamFormatException
                          ''Tax country region elements must be between 1 and 8'')
              else Inr (map_of maxTaxCountryRegionLength (nat_to_string index))))
      else Inr (map_of maxElementLength key))"

text \<open>Lines 208--213: \<^verbatim>\<open>length > undefined\<close> is false; reading \<^verbatim>\<open>length\<close> of an
  undefined value throws.\<close>

definition check_length :: "string \<Rightarrow> nat option \<Rightarrow> js_value \<Rightarrow> parser_error + unit" where
  "check_length key maxLength v =
     (case v of
        JsUndefined \<Rightarrow> Inl type_error_length
      | JsString s \<Rightarrow>
          (case maxLength of
             Some m \<Rightarrow> if length s > m
                       then Inl (InvalidParamLengthException
                                   (''Param '' @ key @ '' exceeds the max length of ''
                                    @ nat_to_string m))
                       else if length s = 0
                       then Inl (InvalidParamLengthException
                                   (''Param '' @ key @ '' has a length of 0 characters''))
                       else Inr ()
           | None \<Rightarrow> if length s = 0
                     then Inl (InvalidParamLengthException
                                 (''Param '' @ key @ '' has a length of 0 characters''))
                     else Inr ()))"

definition validate_entry :: "js_object \<Rightarrow> string \<Rightarrow> parser_error + unit" where
  "validate_entry d key =
     bind_result (entry_max_length key) (\<lambda>maxLength. check_length key maxLength (obj_get d key))"

definition validateQrDataDictionary :: "js_object \<Rightarrow> parser_error + unit" where
  "validateQrDataDictionary d = for_each_check (validate_entry d) (own_keys d)"

subsection \<open>The contract of one entry\<close>

text \<open>
  What the validator demands of a key and its value, stated without the tables' lookups:
  the value is a non-empty string; a key starting with \<^verbatim>\<open>I\<close>, \<^verbatim>\<open>J\<close> or
  \<^verbatim>\<open>K\<close> carries an index from 1 to 8 and a value of at most 5 characters for index 1
  and 16 otherwise; any other key listed in the field table respects its maximum.
\<close>

definition valid_entry :: "js_object \<Rightarrow> string \<Rightarrow> bool" where
  "valid_entry d key =
     (case obj_get d key of
        JsUndefined \<Rightarrow> False
      | JsString s \<Rightarrow>
          s \<noteq> [] \<and>
          (if is_region_key key
           then (case first_digit_run key of
                   None \<Rightarrow> False
                 | Some ds \<Rightarrow> 1 \<le> digits_to_nat ds \<and> digits_to_nat ds \<le> 8
                              \<and> length s \<le> (if digits_to_nat ds = 1 then 5 else 16))
           else (case map_of maxElementLength key of None \<Rightarrow> True | Some m \<Rightarrow> length s \<le> m)))"

text \<open>The errors the validator throws.\<close>

definition validation_error :: "parser_error \<Rightarrow> bool" where
  "validation_error e \<longleftrightarrow>
     e = InvalidParamFormatException ''Found a tax country region element without index''
     \<or> e = InvalidParamFormatException ''Tax country region elements must be between 1 and 8''
     \<or> e = type_error_length \<or> (\<exists>m. e = InvalidParamLengthException m)"

text \<open>The contract in words: a non-empty string value, an index from 1 to 8 for a region key
  with the length bound of that index, the length bound of the field table otherwise.\<close>

lemma valid_entry_iff:
  "valid_entry d key \<longleftrightarrow>
     (\<exists>s. obj_get d key = JsString s \<and> s \<noteq> [] \<and>
        (if is_region_key key
         then (\<exists>ds. first_digit_run key = Some ds \<and> 1 \<le> digits_to_nat ds \<and> digits_to_nat ds \<le> 8
                    \<and> length s \<le> (if digits_to_nat ds = 1 then 5 else 16))
         else (\<forall>m. map_of maxElementLength key = Some m \<longrightarrow> length s \<le> m)))"
  by (auto simp: valid_entry_def split: js_value.splits option.splits)

lemma region_max_length:
  "1 \<le> i \<Longrightarrow> i \<le> 8 \<Longrightarrow>
     map_of maxTaxCountryRegionLength (nat_to_string i) = Some (if i = 1 then 5 else 16)"
proof -
  assume "1 \<le> i" "i \<le> 8"
  then have "i \<in> {1, 2, 3, 4, 5, 6, 7, 8}" by auto
  then show ?thesis
    by (auto simp: maxTaxCountryRegionLength_def nat_to_string.simps char_of_eq_iff)
qed

lemma entry_max_length_region:
  "is_region_key key \<Longrightarrow>
     entry_max_length key =
       (case first_digit_run key of
          None \<Rightarrow> Inl (InvalidParamFormatException ''Found a tax country region element without index'')
        | Some ds \<Rightarrow>
            if 1 \<le> digits_to_nat ds \<and> digits_to_nat ds \<le> 8
            then Inr (Some (if digits_to_nat ds = 1 then 5 else 16))
            else Inl (InvalidParamFormatException ''Tax country region elements must be between 1 and 8''))"
  by (auto simp: entry_max_length_def region_max_length Let_def split: option.split)

lemma entry_max_length_field:
  "\<not> is_region_key key \<Longrightarrow> entry_max_length key = Inr (map_of maxElementLength key)"
  by (simp add: entry_max_length_def)

lemma check_length_ok_iff:
  "check_length key m v = Inr () \<longleftrightarrow>
     (\<exists>s. v = JsString s \<and> s \<noteq> [] \<and> (\<forall>n. m = Some n \<longrightarrow> length s \<le> n))"
  by (auto simp: check_length_def not_less split: js_value.splits option.splits)

lemma validate_entry_ok_iff:
  "validate_entry d key = Inr () \<longleftrightarrow> valid_entry d key"
proof (cases "is_region_key key")
  case True
  then show ?thesis
    by (auto simp: validate_entry_def entry_max_length_region valid_entry_iff check_length_ok_iff
             split: option.splits)
next
  case False
  then show ?thesis
    by (simp add: validate_entry_def entry_max_length_field valid_entry_iff check_length_ok_iff)
qed

subsection \<open>Region keys\<close>

lemma check_length_not_format: "check_length key m v \<noteq> Inl (InvalidParamFormatException msg)"
  by (auto simp: check_length_def type_error_length_def split: js_value.splits option.splits)

text \<open>C23: a key starting with \<^verbatim>\<open>I\<close>, \<^verbatim>\<open>J\<close> or \<^verbatim>\<open>K\<close> is rejected with the
  error "without index" exactly when it has no digit, and with the error "between 1 and
  8" exactly when its first run of digits denotes a number outside that range.\<close>

theorem validate_entry_region_index:
  assumes "is_region_key key"
  shows "(validate_entry d key =
            Inl (InvalidParamFormatException ''Found a tax country region element without index'')
          \<longleftrightarrow> first_digit_run key = None)
       \<and> (validate_entry d key =
            Inl (InvalidParamFormatException ''Tax country region elements must be between 1 and 8'')
          \<longleftrightarrow> (\<exists>ds. first_digit_run key = Some ds \<and> (digits_to_nat ds < 1 \<or> 8 < digits_to_nat ds)))"
  using assms
  by (auto simp: validate_entry_def entry_max_length_def Let_def check_length_not_format
           split: option.splits)

theorem validate_entry_region_index_witness:
  "validate_entry [] ''J9'' =
     Inl (InvalidParamFormatException ''Tax country region elements must be between 1 and 8'')"
proof -
  have k: "is_region_key ''J9''" by (simp add: is_region_key_def starts_with_def)
  have "\<exists>ds. first_digit_run ''J9'' = Some ds \<and> (digits_to_nat ds < 1 \<or> 8 < digits_to_nat ds)"
    by (simp add: is_ascii_digit_def digits_to_nat_def digit_value_def)
  then show ?thesis using validate_entry_region_index [OF k, of "[]"] by blast
qed

subsection \<open>The loop\<close>

text \<open>C21: the validator accepts exactly the dictionaries whose every entry meets the contract
  \<open>valid_entry\<close>. The contract reads the index of a region key as its first digit run,
  so keys such as \<^verbatim>\<open>IX3\<close> and \<^verbatim>\<open>I01\<close> are accepted (the witness).\<close>

theorem validateQrDataDictionary_ok_iff:
  "validateQrDataDictionary d = Inr () \<longleftrightarrow> list_all (valid_entry d) (map fst d)"
  by (simp add: validateQrDataDictionary_def validate_entry_ok_iff list_all_iff)

theorem validateQrDataDictionary_ok_iff_witness:
  "validateQrDataDictionary [(''IX3'', JsString ''1234567890123456''), (''I01'', JsString ''PT'')] = Inr ()"
  by (subst validateQrDataDictionary_ok_iff) code_simp
text \<open>C22: the validator rejects a dictionary with the error of its first key, in property
  order, that breaks the contract: the keys before it are valid. Property order puts
  integer-like keys first, so in the witness the empty key \<^verbatim>\<open>5\<close> is reported although
  the over-long \<^verbatim>\<open>A\<close> was inserted before it.\<close>

theorem validateQrDataDictionary_Inl_iff:
  "validateQrDataDictionary d = Inl e \<longleftrightarrow>
     (\<exists>ks k ks'. own_keys d = ks @ k # ks' \<and> list_all (valid_entry d) ks
                 \<and> validate_entry d k = Inl e)"
  by (simp add: validateQrDataDictionary_def for_each_check_Inl_iff validate_entry_ok_iff list_all_iff)

theorem validateQrDataDictionary_Inl_iff_witness:
  "validateQrDataDictionary [(''A'', JsString ''1234567890''), (''5'', JsString [])] =
     Inl (InvalidParamLengthException ''Param 5 has a length of 0 characters'')"
  apply (subst validateQrDataDictionary_Inl_iff)
  apply (rule exI [of _ "[]"], rule exI [of _ "''5''"], rule exI [of _ "[''A'']"])
  apply (simp add: own_keys_def is_array_index_def is_ascii_digit_def digits_to_nat_def digit_value_def
     validate_entry_def entry_max_length_def is_region_key_def starts_with_def maxElementLength_def
     obj_get_def check_length_def)
  done

lemma validate_entry_exceeds:
  assumes "obj_get d key = JsString s" and "entry_max_length key = Inr (Some m)"
    and "m < length s"
  shows "validate_entry d key =
           Inl (InvalidParamLengthException
                  (''Param '' @ key @ '' exceeds the max length of '' @ nat_to_string m))"
  using assms by (simp add: validate_entry_def check_length_def)

lemma validate_entry_empty:
  assumes "obj_get d key = JsString []" and "entry_max_length key = Inr m"
  shows "validate_entry d key =
           Inl (InvalidParamLengthException (''Param '' @ key @ '' has a length of 0 characters''))"
  using assms by (simp add: validate_entry_def check_length_def split: option.split)

lemma validate_entry_undefined:
  assumes "obj_get d key = JsUndefined" and "entry_max_length key = Inr m"
  shows "validate_entry d key = Inl type_error_length"
  using assms by (simp add: validate_entry_def check_length_def)

lemma validate_entry_Inl: "validate_entry d k = Inl e \<Longrightarrow> validation_error e"
  by (auto simp: validate_entry_def entry_max_length_def check_length_def validation_error_def
                 bind_result_eq_Inl Let_def split: if_splits option.splits js_value.splits)

lemma validateQrDataDictionary_Inl: "validateQrDataDictionary d = Inl e \<Longrightarrow> validation_error e"
  by (auto simp: validateQrDataDictionary_def for_each_check_Inl_iff dest: validate_entry_Inl)

end
