(* ===== verification/Tokenizer.thy ===== *)
theory Tokenizer
  imports Validator
begin

text \<open>
  The tokenizer \<^verbatim>\<open>extractDataDictionary\<close> (\<^verbatim>\<open>src/src/index.ts\<close> lines 160--181): the
  payload must contain a \<^verbatim>\<open>*\<close>; it is split on \<^verbatim>\<open>*\<close> into sections; the first
  section that does not split on \<^verbatim>\<open>:\<close> into exactly two parts is looked for with
  \<^verbatim>\<open>find\<close>, and the format error is thrown only if that section is truthy, that is
  non-empty; then every section is destructured into \<^verbatim>\<open>[key, value]\<close>
  (\<open>section_entry\<close>: the text before the first colon and the text between the first and
  the second colon, \<^verbatim>\<open>undefined\<close> when there is no colon) and stored into a fresh object
  in section order (\<open>build_dictionary\<close>); the object is validated and returned.

  The lemmas: the dictionary's keys stay unique (the invariant of \<open>obj_set\<close>), and a lookup
  in it gives the value of the last section with that key, as a map updated section by
  section would (a refinement of the object by the last-wins map); a section with exactly
  one colon is its key and value; the format errors are thrown where the code throws them.
\<close>

definition section_entry :: "string \<Rightarrow> string \<times> js_value" where
  "section_entry section =
     (let parts = js_split CHR '':'' section
      in (hd parts, if 2 \<le> length parts then JsString (parts ! 1) else JsUndefined))"

definition store_section :: "string \<Rightarrow> js_object \<Rightarrow> js_object" where
  "store_section section d = (case section_entry section of (k, v) \<Rightarrow> obj_set d k v)"

definition build_dictionary :: "string list \<Rightarrow> js_object" where
  "build_dictionary qrDataSections = fold store_section qrDataSections []"

definition is_invalid_section :: "string \<Rightarrow> bool" where
  "is_invalid_section x \<longleftrightarrow> length (js_split CHR '':'' x) \<noteq> 2"

definition extractDataDictionary :: "string \<Rightarrow> parser_error + js_object" where
  "extractDataDictionary qrData =
     (if CHR ''*'' \<notin> set qrData
      then Inl (InvalidParamFormatException ''Missing * separator in the qr data string'')
      else
        (let qrDataSections = js_split CHR ''*'' qrData;
             invalidSection = find is_invalid_section qrDataSections
         in if (case invalidSection of Some x \<Rightarrow> js_truthy (JsString x) | None \<Rightarrow> False)
            then Inl (InvalidParamFormatException
                        ''Not all sections of the qr data has 1 separator (:)'')
            else
              (let qrDataDictionary = build_dictionary qrDataSections
               in bind_result (validateQrDataDictionary qrDataDictionary)
                    (\<lambda>_. Inr qrDataDictionary))))"

text \<open>An entry whose key is not \<^verbatim>\<open>__proto__\<close>: an assignment to that key changes the
  prototype of the object and adds no own property.\<close>

definition not_proto :: "string \<times> js_value \<Rightarrow> bool" where
  "not_proto e \<longleftrightarrow> fst e \<noteq> ''__proto__''"

subsection \<open>Sections\<close>

lemma is_invalid_section_iff: "is_invalid_section x \<longleftrightarrow> count_list x CHR '':'' \<noteq> 1"
  by (simp add: is_invalid_section_def js_split_length)

lemma section_entry_pair:
  "CHR '':'' \<notin> set k \<Longrightarrow> CHR '':'' \<notin> set v \<Longrightarrow> section_entry (k @ CHR '':'' # v) = (k, JsString v)"
  by (simp add: section_entry_def js_split_append_sep js_split_free)

lemma section_entry_no_colon:
  "CHR '':'' \<notin> set s \<Longrightarrow> section_entry s = (s, JsUndefined)"
  by (simp add: section_entry_def js_split_free)

text \<open>The section that \<^verbatim>\<open>find\<close> returns: the first with other than one colon.\<close>

lemma first_invalid_section:
  "qs = pre @ sec # post \<Longrightarrow> \<forall>p\<in>set pre. count_list p CHR '':'' = 1 \<Longrightarrow>
     count_list sec CHR '':'' \<noteq> 1 \<Longrightarrow> find is_invalid_section qs = Some sec"
  by (induction pre arbitrary: qs) (auto simp: is_invalid_section_iff)

text \<open>A section written as key, colon, value is read back as that entry.\<close>

lemma section_entry_pair_text:
  "CHR '':'' \<notin> set k \<Longrightarrow> CHR '':'' \<notin> set v \<Longrightarrow> section_entry (k @ CHR '':'' # v) = (k, JsString v)"
  by (simp add: section_entry_def js_split_append_sep js_split_free)

subsection \<open>The dictionary: unique keys, last value wins\<close>

lemma distinct_fold_store_section:
  "distinct (map fst d) \<Longrightarrow> distinct (map fst (fold store_section secs d))"
  by (induction secs arbitrary: d)
     (auto simp: store_section_def distinct_obj_set split: prod.split)

lemma distinct_build_dictionary: "distinct (map fst (build_dictionary secs))"
  by (simp add: build_dictionary_def distinct_fold_store_section)

lemma map_of_store_section:
  "map_of (store_section s d) = map_of (filter not_proto [section_entry s] @ d)"
  by (auto simp: store_section_def obj_set_def not_proto_def split: prod.split)

lemma map_of_fold_store_section:
  "map_of (fold store_section secs d) = map_of (rev (filter not_proto (map section_entry secs)) @ d)"
proof (induction secs arbitrary: d)
  case Nil
  then show ?case by simp
next
  case (Cons s secs)
  have "map_of (fold store_section secs (store_section s d))
        = map_of (rev (filter not_proto (map section_entry secs)) @ store_section s d)"
    by (rule Cons.IH)
  also have "\<dots> = map_of (store_section s d) ++ map_of (rev (filter not_proto (map section_entry secs)))"
    by simp
  also have "\<dots> = map_of (rev (filter not_proto (map section_entry (s # secs))) @ d)"
    by (simp add: map_of_store_section)
  finally show ?case by simp
qed

text \<open>A lookup in the dictionary gives the value of the last section with that key.\<close>

lemma map_of_build_dictionary:
  "map_of (build_dictionary secs) = map_of (rev (filter not_proto (map section_entry secs)))"
  by (simp add: build_dictionary_def map_of_fold_store_section)

lemma keys_fold_store_section:
  "set (map fst (fold store_section secs d))
     = set (map fst d) \<union> set (map fst (filter not_proto (map section_entry secs)))"
proof -
  have "set (map fst (fold store_section secs d)) = dom (map_of (fold store_section secs d))"
    by (simp add: dom_map_of_conv_image_fst)
  also have "\<dots> = dom (map_of (rev (filter not_proto (map section_entry secs)) @ d))"
    by (simp only: map_of_fold_store_section)
  also have "\<dots> = set (map fst d) \<union> set (map fst (filter not_proto (map section_entry secs)))"
    by (simp add: dom_map_of_conv_image_fst image_Un Un_commute)
  finally show ?thesis .
qed

lemma keys_build_dictionary:
  "set (map fst (build_dictionary secs)) = set (map fst (filter not_proto (map section_entry secs)))"
  unfolding build_dictionary_def using keys_fold_store_section [of secs "[]"] by simp

lemma map_of_filter_not_proto_find:
  "map_of (filter not_proto (map f ys)) k =
     (if k = ''__proto__'' then None else map_option (\<lambda>s. snd (f s)) (find (\<lambda>s. fst (f s) = k) ys))"
  by (induction ys) (auto simp: not_proto_def)

text \<open>C24: refinement of the tokenizer's dictionary by the last-wins reading of the sections:
  a lookup of a key other than \<^verbatim>\<open>__proto__\<close> gives the value of the last section
  whose key it is, and \<^verbatim>\<open>undefined\<close> when no section has that key.\<close>

theorem build_dictionary_lookup:
  "obj_get (build_dictionary secs) k =
     (if k = ''__proto__'' then JsUndefined
      else case find (\<lambda>s. fst (section_entry s) = k) (rev secs) of
             None \<Rightarrow> JsUndefined
           | Some s \<Rightarrow> snd (section_entry s))"
  by (simp add: obj_get_def map_of_build_dictionary rev_filter rev_map map_of_filter_not_proto_find
           split: option.split)

text \<open>C25: the dictionary built from any list of sections has no duplicate key and no
  \<^verbatim>\<open>__proto__\<close> key.\<close>

theorem build_dictionary_keys_invariant:
  "distinct (map fst (build_dictionary secs)) \<and> ''__proto__'' \<notin> set (map fst (build_dictionary secs))"
  using distinct_build_dictionary [of secs] keys_build_dictionary [of secs]
  by (auto simp: not_proto_def)

subsection \<open>The errors of the tokenizer\<close>

lemma extractDataDictionary_Inl:
  "extractDataDictionary qrData = Inl e \<Longrightarrow>
     e = InvalidParamFormatException ''Missing * separator in the qr data string''
     \<or> e = InvalidParamFormatException ''Not all sections of the qr data has 1 separator (:)''
     \<or> validation_error e"
  by (auto simp: extractDataDictionary_def Let_def bind_result_eq_Inl split: if_splits
           dest: validateQrDataDictionary_Inl)

end
