(* ===== verification/Regions.thy ===== *)
theory Regions
  imports InvoiceModel
begin

text \<open>
  The jurisdiction extractor: \<^verbatim>\<open>getTaxCountryRegions\<close> (\<^verbatim>\<open>src/src/index.ts\<close> lines
  222--238) and \<^verbatim>\<open>getTaxCountryRegionDetails\<close> (lines 246--284). The outer loop is
  \<^verbatim>\<open>for (let region in possibleRegions)\<close>, which binds \<^verbatim>\<open>region\<close> to the array's
  indices \<^verbatim>\<open>"0"\<close>, \<^verbatim>\<open>"1"\<close>, \<^verbatim>\<open>"2"\<close>, not to its letters (\<open>for_in_array_keys\<close>); its
  body \<open>region_step\<close> skips a region whose key \<^verbatim>\<open>region + "1"\<close> is undefined, and
  otherwise fills a fresh \<open>ITaxCountryRegion\<close> with the detail loop and appends it. The
  detail loop \<open>region_detail_loop\<close> is the counter \<^verbatim>\<open>for (let i = 2; i <= 8; i++)\<close>,
  a \<^theory_text>\<open>function\<close> that terminates by the measure \<open>9 - i\<close>; its body
  \<open>region_detail_step\<close> skips an undefined
  sub-field, throws on a value that \<^verbatim>\<open>Number\<close> turns into NaN, and assigns the number
  to the field that the \<^verbatim>\<open>switch\<close> names (\<open>set_region_detail\<close>, whose \<^verbatim>\<open>default\<close>
  branch throws \<open>InvalidTaxCountryRegionElement\<close>). The object mutated in place by the
  detail loop is passed and returned as a value.

  The lemmas: the keys the extractor reads are \<^verbatim>\<open>"01"\<close>..\<^verbatim>\<open>"08"\<close>,
  \<^verbatim>\<open>"11"\<close>..\<^verbatim>\<open>"18"\<close>, \<^verbatim>\<open>"21"\<close>..\<^verbatim>\<open>"28"\<close>, so the \<^verbatim>\<open>I\<close>, \<^verbatim>\<open>J\<close>,
  \<^verbatim>\<open>K\<close> entries of the dictionary have no effect on its result; the \<^verbatim>\<open>default\<close>
  branch is unreachable; a dictionary without the three marker keys gives no region; the
  counter loop terminates and visits 2 to 8 in order; the extractor meets the contract of
  the specification's positional mapping (\<open>region_details_spec\<close>, \<open>marker_regions\<close>)
  and throws the error of the first non-numeric sub-field; the regions it returns hold no
  NaN (\<open>region_ok\<close>).
\<close>

definition set_region_detail ::
  "nat \<Rightarrow> js_number \<Rightarrow> ITaxCountryRegion \<Rightarrow> parser_error + ITaxCountryRegion" where
  "set_region_detail i taxDetail regionDetails =
     (if i = 2 then Inr (regionDetails\<lparr>taxableBaseExemptOfVAT := Some taxDetail\<rparr>)
      else if i = 3 then Inr (regionDetails\<lparr>taxableBaseOfVATAtReducedRate := Some taxDetail\<rparr>)
      else if i = 4 then Inr (regionDetails\<lparr>totalVATAtReducedRate := Some taxDetail\<rparr>)
      else if i = 5 then Inr (regionDetails\<lparr>taxableBaseOfVATAtAIntermediateRate := Some taxDetail\<rparr>)
      else if i = 6 then Inr (regionDetails\<lparr>totalVATAtIntermediateRate := Some taxDetail\<rparr>)
      else if i = 7 then Inr (regionDetails\<lparr>taxableBaseOfVATAtAStandardRate := Some taxDetail\<rparr>)
      else if i = 8 then Inr (regionDetails\<lparr>totalVATAtStandardRate := Some taxDetail\<rparr>)
      else Inl (InvalidTaxCountryRegionElement ''Invalid tax country region element''))"

definition region_detail_step ::
  "js_object \<Rightarrow> string \<Rightarrow> nat \<Rightarrow> ITaxCountryRegion \<Rightarrow> parser_error + ITaxCountryRegion" where
  "region_detail_step qrDataDictionary region i regionDetails =
     (let taxCountryRegionDetailKey = region @ nat_to_string i in
      if obj_get qrDataDictionary taxCountryRegionDetailKey = JsUndefined
      then Inr regionDetails
      else
        (let taxDetail = to_number (obj_get qrDataDictionary taxCountryRegionDetailKey) in
         if is_nan taxDetail
         then Inl (InvalidParamFormatException
                     (''A valid decimal number is required for param '' @ taxCountryRegionDetailKey))
         else set_region_detail i taxDetail regionDetails))"

text \<open>The loop \<^verbatim>\<open>for (let i = 2; i <= 8; i++)\<close> of lines 247--283: a counter that
  runs from \<open>i\<close> while \<open>i \<le> 8\<close>; it terminates because \<open>9 - i\<close> decreases.\<close>

function (domintros) region_detail_loop ::
  "js_object \<Rightarrow> string \<Rightarrow> nat \<Rightarrow> ITaxCountryRegion \<Rightarrow> parser_error + ITaxCountryRegion" where
  "region_detail_loop qrDataDictionary region i regionDetails =
     (if i \<le> 8
      then bind_result (region_detail_step qrDataDictionary region i regionDetails)
             (region_detail_loop qrDataDictionary region (Suc i))
      else Inr regionDetails)"
  by pat_completeness auto
termination
  by (relation "measure (\<lambda>(d, region, i, r). 9 - i)") auto

declare region_detail_loop.simps [simp del]

definition getTaxCountryRegionDetails ::
  "js_object \<Rightarrow> string \<Rightarrow> ITaxCountryRegion \<Rightarrow> parser_error + ITaxCountryRegion" where
  "getTaxCountryRegionDetails qrDataDictionary region regionDetails =
     region_detail_loop qrDataDictionary region 2 regionDetails"

definition possibleRegions :: "string list" where
  "possibleRegions = [''I'', ''J'', ''K'']"

definition region_step ::
  "js_object \<Rightarrow> string \<Rightarrow> ITaxCountryRegion list \<Rightarrow> parser_error + ITaxCountryRegion list" where
  "region_step qrDataDictionary region regions =
     (if obj_get qrDataDictionary (region @ ''1'') = JsUndefined then Inr regions
      else
        (let taxRegion = createEmptyTaxCountryRegion
               \<lparr>taxCountryRegion := Some (js_str (obj_get qrDataDictionary (region @ ''1'')))\<rparr>
         in bind_result (getTaxCountryRegionDetails qrDataDictionary region taxRegion)
              (\<lambda>taxRegion'. Inr (regions @ [taxRegion']))))"

definition getTaxCountryRegions :: "js_object \<Rightarrow> parser_error + ITaxCountryRegion list" where
  "getTaxCountryRegions qrDataDictionary =
     fold_result (region_step qrDataDictionary) (for_in_array_keys possibleRegions) []"

subsection \<open>The contract of the extractor\<close>

text \<open>The specification's positional mapping of the sub-field indices 2 to 8 to the fields of a
  region (\<open>update_detail\<close>), the value a sub-field key gives its field (its number when
  present, the old value when absent), the condition that a present sub-field is a number,
  the region that the detail loop should produce, and the list of regions, one per
  marker-carrying prefix. A key starting with a digit is one the extractor can read.\<close>

definition update_detail ::
  "nat \<Rightarrow> (js_number option \<Rightarrow> js_number option) \<Rightarrow> ITaxCountryRegion \<Rightarrow> ITaxCountryRegion" where
  "update_detail i g r =
     (if i = 2 then r\<lparr>taxableBaseExemptOfVAT := g (taxableBaseExemptOfVAT r)\<rparr>
      else if i = 3 then r\<lparr>taxableBaseOfVATAtReducedRate := g (taxableBaseOfVATAtReducedRate r)\<rparr>
      else if i = 4 then r\<lparr>totalVATAtReducedRate := g (totalVATAtReducedRate r)\<rparr>
      else if i = 5 then r\<lparr>taxableBaseOfVATAtAIntermediateRate := g (taxableBaseOfVATAtAIntermediateRate r)\<rparr>
      else if i = 6 then r\<lparr>totalVATAtIntermediateRate := g (totalVATAtIntermediateRate r)\<rparr>
      else if i = 7 then r\<lparr>taxableBaseOfVATAtAStandardRate := g (taxableBaseOfVATAtAStandardRate r)\<rparr>
      else if i = 8 then r\<lparr>totalVATAtStandardRate := g (totalVATAtStandardRate r)\<rparr>
      else r)"

definition detail_value :: "js_object \<Rightarrow> string \<Rightarrow> nat \<Rightarrow> js_number option \<Rightarrow> js_number option" where
  "detail_value d region i old =
     (case obj_get d (region @ nat_to_string i) of JsUndefined \<Rightarrow> old | v \<Rightarrow> Some (to_number v))"

definition detail_ok :: "js_object \<Rightarrow> string \<Rightarrow> nat \<Rightarrow> bool" where
  "detail_ok d region i \<longleftrightarrow>
     obj_get d (region @ nat_to_string i) = JsUndefined
     \<or> \<not> is_nan (to_number (obj_get d (region @ nat_to_string i)))"

definition region_details_spec :: "js_object \<Rightarrow> string \<Rightarrow> ITaxCountryRegion \<Rightarrow> ITaxCountryRegion" where
  "region_details_spec d region r =
     r\<lparr>taxableBaseExemptOfVAT := detail_value d region 2 (taxableBaseExemptOfVAT r),
       taxableBaseOfVATAtReducedRate := detail_value d region 3 (taxableBaseOfVATAtReducedRate r),
       totalVATAtReducedRate := detail_value d region 4 (totalVATAtReducedRate r),
       taxableBaseOfVATAtAIntermediateRate := detail_value d region 5 (taxableBaseOfVATAtAIntermediateRate r),
       totalVATAtIntermediateRate := detail_value d region 6 (totalVATAtIntermediateRate r),
       taxableBaseOfVATAtAStandardRate := detail_value d region 7 (taxableBaseOfVATAtAStandardRate r),
       totalVATAtStandardRate := detail_value d region 8 (totalVATAtStandardRate r)\<rparr>"

definition marker_regions :: "js_object \<Rightarrow> string list \<Rightarrow> ITaxCountryRegion list" where
  "marker_regions d regs =
     [region_details_spec d reg
        (createEmptyTaxCountryRegion\<lparr>taxCountryRegion := Some (js_str (obj_get d (reg @ ''1'')))\<rparr>).
      reg \<leftarrow> regs, obj_get d (reg @ ''1'') \<noteq> JsUndefined]"

text \<open>A region whose code is set and none of whose sub-fields is NaN.\<close>

definition num_ok :: "js_number option \<Rightarrow> bool" where
  "num_ok x \<longleftrightarrow> x \<noteq> Some NaN"

definition region_ok :: "ITaxCountryRegion \<Rightarrow> bool" where
  "region_ok r \<longleftrightarrow>
     taxCountryRegion r \<noteq> None
     \<and> list_all num_ok
         [taxableBaseExemptOfVAT r, taxableBaseOfVATAtReducedRate r, totalVATAtReducedRate r,
          taxableBaseOfVATAtAIntermediateRate r, totalVATAtIntermediateRate r,
          taxableBaseOfVATAtAStandardRate r, totalVATAtStandardRate r]"

definition starts_with_digit :: "string \<Rightarrow> bool" where
  "starts_with_digit k \<longleftrightarrow> k \<noteq> [] \<and> is_ascii_digit (hd k)"

subsection \<open>The counter loop\<close>

text \<open>The loop visits the indices from its start to 8 in increasing order.\<close>

lemma region_detail_loop_fold:
  "region_detail_loop d region i r = fold_result (region_detail_step d region) [i..<9] r"
proof -
  have "region_detail_loop d region i r = fold_result (region_detail_step d region) [i..<Suc 8] r"
    by (rule counter_loop_fold [where n = 8]) (rule region_detail_loop.simps)
  then show ?thesis by simp
qed

lemma getTaxCountryRegionDetails_fold:
  "getTaxCountryRegionDetails d region r = fold_result (region_detail_step d region) [2..<9] r"
  by (simp add: getTaxCountryRegionDetails_def region_detail_loop_fold)

subsection \<open>Which keys the extractor reads\<close>

lemma for_in_possibleRegions: "for_in_array_keys possibleRegions = [''0'', ''1'', ''2'']"
  by (simp add: for_in_array_keys_def possibleRegions_def upt_rec nat_to_string_eval)

lemma region_detail_step_cong:
  "\<forall>k. starts_with_digit k \<longrightarrow> obj_get d k = obj_get d' k \<Longrightarrow> starts_with_digit region \<Longrightarrow>
     region_detail_step d region i t = region_detail_step d' region i t"
  by (simp add: region_detail_step_def Let_def starts_with_digit_def)

lemma getTaxCountryRegionDetails_cong:
  assumes "\<forall>k. starts_with_digit k \<longrightarrow> obj_get d k = obj_get d' k" and "starts_with_digit region"
  shows "getTaxCountryRegionDetails d region t = getTaxCountryRegionDetails d' region t"
proof -
  have "region_detail_step d region = region_detail_step d' region"
    using region_detail_step_cong [OF assms] by (simp add: fun_eq_iff)
  then show ?thesis by (simp add: getTaxCountryRegionDetails_fold)
qed

lemma region_step_cong:
  assumes "\<forall>k. starts_with_digit k \<longrightarrow> obj_get d k = obj_get d' k" and "starts_with_digit region"
  shows "region_step d region = region_step d' region"
proof -
  have "obj_get d (region @ ''1'') = obj_get d' (region @ ''1'')"
    using assms by (simp add: starts_with_digit_def)
  with getTaxCountryRegionDetails_cong [OF assms] show ?thesis
    by (simp add: region_step_def fun_eq_iff)
qed

text \<open>Two dictionaries that agree on the keys starting with a digit give the same regions.\<close>

lemma getTaxCountryRegions_cong:
  assumes "\<forall>k. starts_with_digit k \<longrightarrow> obj_get d k = obj_get d' k"
  shows "getTaxCountryRegions d = getTaxCountryRegions d'"
proof -
  have "\<And>r. r \<in> set [''0'', ''1'', ''2''] \<Longrightarrow> starts_with_digit r"
    by (auto simp: starts_with_digit_def is_ascii_digit_def)
  then have "\<And>r. r \<in> set [''0'', ''1'', ''2''] \<Longrightarrow> region_step d r = region_step d' r"
    using region_step_cong [OF assms] by blast
  then show ?thesis
    unfolding getTaxCountryRegions_def for_in_possibleRegions by (rule fold_result_cong)
qed

text \<open>An empty dictionary gives no region.\<close>

lemma getTaxCountryRegions_Nil: "getTaxCountryRegions [] = Inr []"
  by (simp add: getTaxCountryRegions_def for_in_possibleRegions region_step_def)

subsection \<open>The extractor meets its contract\<close>

lemma update_detail_id: "update_detail i (\<lambda>x. x) r = r"
  by (simp add: update_detail_def)

lemma set_region_detail_update:
  assumes "2 \<le> i" and "i \<le> 8"
  shows "set_region_detail i x r = Inr (update_detail i (\<lambda>_. Some x) r)"
proof -
  have "i = 2 \<or> i = 3 \<or> i = 4 \<or> i = 5 \<or> i = 6 \<or> i = 7 \<or> i = 8" using assms by auto
  then show ?thesis by (elim disjE) (simp_all add: set_region_detail_def update_detail_def)
qed

lemma region_detail_step_ok:
  assumes "2 \<le> i" and "i \<le> 8" and "detail_ok d region i"
  shows "region_detail_step d region i r = Inr (update_detail i (detail_value d region i) r)"
proof (cases "obj_get d (region @ nat_to_string i)")
  case JsUndefined
  then have "detail_value d region i = (\<lambda>x. x)"
    by (simp add: fun_eq_iff detail_value_def)
  with JsUndefined show ?thesis
    by (simp add: region_detail_step_def update_detail_id)
next
  case (JsString s)
  then have "detail_value d region i = (\<lambda>_. Some (to_number (JsString s)))"
    by (simp add: fun_eq_iff detail_value_def)
  with JsString assms show ?thesis
    by (simp add: region_detail_step_def detail_ok_def set_region_detail_update)
qed

lemma region_detail_step_nan:
  assumes "\<not> detail_ok d region i"
  shows "region_detail_step d region i r =
           Inl (InvalidParamFormatException
                  (''A valid decimal number is required for param '' @ region @ nat_to_string i))"
  using assms by (simp add: region_detail_step_def detail_ok_def)


lemma getTaxCountryRegionDetails_total:
  assumes "list_all (detail_ok d region) [2..<9]"
  shows "getTaxCountryRegionDetails d region r = Inr (region_details_spec d region r)"
proof -
  have "getTaxCountryRegionDetails d region r =
          Inr (fold (\<lambda>i. update_detail i (detail_value d region i)) [2..<9] r)"
    unfolding getTaxCountryRegionDetails_fold
    using assms by (intro fold_result_total region_detail_step_ok) (auto simp: list_all_iff)
  also have "\<dots> = Inr (region_details_spec d region r)"
    by (simp add: upt_rec update_detail_def region_details_spec_def)
  finally show ?thesis .
qed



text \<open>C19: the detail loop throws the format error naming the key of the first sub-field, in
  index order, that is present and not a number.\<close>

theorem getTaxCountryRegionDetails_first_nan:
  assumes "2 \<le> i" and "i \<le> 8" and "list_all (detail_ok d region) [2..<i]"
    and "\<not> detail_ok d region i"
  shows "getTaxCountryRegionDetails d region r =
           Inl (InvalidParamFormatException
                  (''A valid decimal number is required for param '' @ region @ nat_to_string i))"
proof -
  have "[2..<9] = [2..<i] @ [i..<9]"
    using upt_add_eq_append [of 2 i "9 - i"] assms(1,2) by simp
  moreover have "[i..<9] = i # [Suc i..<9]"
    using assms(2) by (intro upt_conv_Cons) auto
  ultimately have split: "[2..<9] = [2..<i] @ i # [Suc i..<9]" by simp
  have "fold_result (region_detail_step d region) [2..<i] r =
          Inr (fold (\<lambda>i. update_detail i (detail_value d region i)) [2..<i] r)"
    using assms(2,3) by (intro fold_result_total region_detail_step_ok) (auto simp: list_all_iff)
  moreover have "getTaxCountryRegionDetails d region r =
                  fold_result (region_detail_step d region) [2..<Suc 8] r"
    unfolding getTaxCountryRegionDetails_def
    by (rule counter_loop_fold [where n = 8]) (rule region_detail_loop.simps)
  then have "getTaxCountryRegionDetails d region r =
               fold_result (region_detail_step d region) [2..<9] r" by simp
  ultimately show ?thesis
    unfolding split fold_result_append
    by (simp add: region_detail_step_nan [OF assms(4)])
qed



theorem getTaxCountryRegionDetails_first_nan_witness:
  "getTaxCountryRegionDetails [(''02'', JsString ''1''), (''03'', JsString ''abc'')] ''0''
     createEmptyTaxCountryRegion =
   Inl (InvalidParamFormatException ''A valid decimal number is required for param 03'')"
proof -
  let ?d = "[(''02'', JsString ''1''), (''03'', JsString ''abc'')]"
  have h1: "list_all (detail_ok ?d ''0'') [2..<3]" by code_simp
  have h2: "\<not> detail_ok ?d ''0'' 3" by code_simp
  show ?thesis
    using getTaxCountryRegionDetails_first_nan [of 3 ?d "''0''", OF _ _ h1 h2]
    by (simp add: nat_to_string_eval)
qed

text \<open>C18: refinement of the extractor by its contract: when every present sub-field of a
  region with a marker is a number, the extractor returns one region per prefix
  \<^verbatim>\<open>"0"\<close>, \<^verbatim>\<open>"1"\<close>, \<^verbatim>\<open>"2"\<close> (the indices that \<^verbatim>\<open>for ... in\<close> binds) whose
  marker is present, in that order, with the region code of the marker and each sub-field
  set by the positional mapping. The letters \<^verbatim>\<open>I\<close>, \<^verbatim>\<open>J\<close>, \<^verbatim>\<open>K\<close> of the
  specification play no part: in the witness the block \<^verbatim>\<open>I1\<close> is ignored and the keys
  \<^verbatim>\<open>01\<close>, \<^verbatim>\<open>02\<close> make a region.\<close>

theorem getTaxCountryRegions_spec:
  assumes "list_all (\<lambda>reg. obj_get d (reg @ ''1'') \<noteq> JsUndefined \<longrightarrow> list_all (detail_ok d reg) [2..<9])
             [''0'', ''1'', ''2'']"
  shows "getTaxCountryRegions d = Inr (marker_regions d [''0'', ''1'', ''2''])"
  using assms
  by (simp add: getTaxCountryRegions_def for_in_possibleRegions region_step_def
                getTaxCountryRegionDetails_total marker_regions_def)

theorem getTaxCountryRegions_spec_witness:
  "getTaxCountryRegions [(''I1'', JsString ''PT''), (''01'', JsString ''PT''), (''02'', JsString ''10.5'')] =
     Inr [createEmptyTaxCountryRegion
            \<lparr>taxCountryRegion := Some ''PT'', taxableBaseExemptOfVAT := Some (Num (21 / 2))\<rparr>]"
proof -
  let ?d = "[(''I1'', JsString ''PT''), (''01'', JsString ''PT''), (''02'', JsString ''10.5'')]"
  have h: "list_all (\<lambda>reg. obj_get ?d (reg @ ''1'') \<noteq> JsUndefined \<longrightarrow> list_all (detail_ok ?d reg) [2..<9])
             [''0'', ''1'', ''2'']"
    by code_simp
  have m: "marker_regions ?d [''0'', ''1'', ''2''] =
             [createEmptyTaxCountryRegion
                \<lparr>taxCountryRegion := Some ''PT'', taxableBaseExemptOfVAT := Some (Num (21 / 2))\<rparr>]"
    by code_simp
  show ?thesis using getTaxCountryRegions_spec [OF h] m by simp
qed

subsection \<open>The extractor produces regions without NaN\<close>

lemma region_detail_step_ok_inv:
  "region_ok r \<Longrightarrow> region_detail_step d region i r = Inr r' \<Longrightarrow> region_ok r'"
  by (auto simp: region_detail_step_def set_region_detail_def region_ok_def num_ok_def is_nan_def
           Let_def split: if_splits)

lemma getTaxCountryRegionDetails_ok:
  assumes "region_ok r" and "getTaxCountryRegionDetails d region r = Inr r'"
  shows "region_ok r'"
proof (rule fold_result_invariant
         [where P = region_ok and f = "region_detail_step d region" and xs = "[2..<9]" and s = r])
  show "fold_result (region_detail_step d region) [2..<9] r = Inr r'"
    using assms(2) by (simp add: getTaxCountryRegionDetails_fold)
qed (use assms(1) region_detail_step_ok_inv in blast)+

lemma region_step_ok:
  assumes "list_all region_ok rs" and "region_step d region rs = Inr rs'"
  shows "list_all region_ok rs'"
proof (cases "obj_get d (region @ ''1'') = JsUndefined")
  case True
  with assms show ?thesis by (simp add: region_step_def)
next
  case False
  let ?t = "createEmptyTaxCountryRegion\<lparr>taxCountryRegion := Some (js_str (obj_get d (region @ ''1'')))\<rparr>"
  from False assms(2) obtain t' where
    t': "getTaxCountryRegionDetails d region ?t = Inr t'" and rs': "rs' = rs @ [t']"
    by (auto simp: region_step_def bind_result_eq_Inr)
  have "region_ok ?t" by (simp add: region_ok_def createEmptyTaxCountryRegion_def num_ok_def)
  then have "region_ok t'" using t' by (rule getTaxCountryRegionDetails_ok)
  with assms(1) rs' show ?thesis by simp
qed

lemma getTaxCountryRegions_ok:
  assumes "getTaxCountryRegions d = Inr rs"
  shows "list_all region_ok rs"
proof (rule fold_result_invariant
         [where P = "list_all region_ok" and f = "region_step d"
            and xs = "for_in_array_keys possibleRegions" and s = "[]"])
  show "fold_result (region_step d) (for_in_array_keys possibleRegions) [] = Inr rs"
    using assms by (simp add: getTaxCountryRegions_def)
qed (use region_step_ok in auto)


lemma getTaxCountryRegions_Inr_ex:
  assumes "list_all (\<lambda>reg. obj_get d (reg @ ''1'') \<noteq> JsUndefined \<longrightarrow> list_all (detail_ok d reg) [2..<9])
             [''0'', ''1'', ''2'']"
  shows "\<exists>rs. getTaxCountryRegions d = Inr rs"
  using assms
  by (simp add: getTaxCountryRegions_def for_in_possibleRegions region_step_def
                getTaxCountryRegionDetails_total)

end
