(* ===== verification/QrParser.thy ===== *)
theory QrParser
  imports Tokenizer Regions
begin

text \<open>
  The entry point \<^verbatim>\<open>parseData\<close> (\<^verbatim>\<open>src/src/index.ts\<close> lines 102--154) and the
  decimal coercion \<^verbatim>\<open>tryToParseDecimal\<close> (lines 291--298). \<open>parseData\<close> rejects the
  empty string, tokenizes and validates (\<open>extractDataDictionary\<close>), collects the missing
  required keys in the order of \<open>requiredElements\<close> (\<open>missing_keys\<close>), then looks for
  the first of \<^verbatim>\<open>I1\<close>, \<^verbatim>\<open>J1\<close>, \<^verbatim>\<open>K1\<close> among the keys and reads its
  \<^verbatim>\<open>length\<close> (\<open>tax_region_marker\<close>; \<^verbatim>\<open>find\<close> returns \<^verbatim>\<open>undefined\<close> when there
  is none, and reading \<^verbatim>\<open>length\<close> of it throws a \<open>TypeError\<close>), and finally fills the
  invoice (\<open>assemble_invoice\<close>) in the order of lines 121--151: the string fields A to H,
  the regions, the optional decimals L and M, the required decimals N and O, the optional
  P, the strings Q and R, the optional S. An optional field is set only when its value is
  truthy (\<open>set_optional_decimal\<close>).

  Besides the definitions of the code, the theory names what the properties speak of: the
  dictionary of a payload (\<open>payload_dictionary\<close>, \<open>payload_get\<close>), the keys its
  sections name (\<open>section_keys\<close>), the payload that encodes a list of entries
  (\<open>payload_of\<close>), a value that \<^verbatim>\<open>tryToParseDecimal\<close> accepts (\<open>decimal_ok\<close>) and
  an invoice without NaN (\<open>invoice_ok\<close>). The lemmas give the result of each branch,
  what a successful assembly returns, that it keeps \<open>invoice_ok\<close>, and when each step
  of the parser is sure to succeed.
\<close>

definition tryToParseDecimal :: "js_value \<Rightarrow> parser_error + js_number" where
  "tryToParseDecimal taxValue =
     (let decimalNumber = to_number taxValue in
      if is_nan decimalNumber then Inl (InvalidParamFormatException ''Expected decimal value'')
      else Inr decimalNumber)"

definition missing_keys :: "js_object \<Rightarrow> string list" where
  "missing_keys qrDataDictionary =
     filter (\<lambda>x. x \<notin> set (own_keys qrDataDictionary)) requiredElements"

definition tax_region_marker :: "js_object \<Rightarrow> string option" where
  "tax_region_marker qrDataDictionary =
     find (\<lambda>x. x \<in> set [''I1'', ''J1'', ''K1'']) (own_keys qrDataDictionary)"

definition set_optional_decimal ::
  "js_value \<Rightarrow> (js_number \<Rightarrow> IPortugalInvoice \<Rightarrow> IPortugalInvoice) \<Rightarrow> IPortugalInvoice
     \<Rightarrow> parser_error + IPortugalInvoice" where
  "set_optional_decimal v upd invoice =
     (if js_truthy v then bind_result (tryToParseDecimal v) (\<lambda>x. Inr (upd x invoice))
      else Inr invoice)"

definition assemble_invoice :: "js_object \<Rightarrow> parser_error + IPortugalInvoice" where
  "assemble_invoice qrDataDictionary =
     (let get = obj_get qrDataDictionary;
          invoice = createEmptyInvoice
            \<lparr>remitentNif := js_str (get ''A''), clientNif := js_str (get ''B''),
             clientCountry := js_str (get ''C''), documentType := js_str (get ''D''),
             documentStatus := js_str (get ''E''), documentDate := js_str (get ''F''),
             documentId := js_str (get ''G''), ATCUD := js_str (get ''H'')\<rparr>
      in bind_result (getTaxCountryRegions qrDataDictionary) (\<lambda>regions.
         bind_result (set_optional_decimal (get ''L'') (\<lambda>x i. i\<lparr>notTaxableInVAT := Some x\<rparr>)
                        (invoice\<lparr>taxCountryRegions := regions\<rparr>)) (\<lambda>invoice.
         bind_result (set_optional_decimal (get ''M'') (\<lambda>x i. i\<lparr>stampDuty := Some x\<rparr>) invoice)
           (\<lambda>invoice.
         bind_result (tryToParseDecimal (get ''N'')) (\<lambda>totalTaxes'.
         bind_result (tryToParseDecimal (get ''O'')) (\<lambda>totalDocumentWithTaxes'.
         bind_result (set_optional_decimal (get ''P'') (\<lambda>x i. i\<lparr>withholdingTaxes := x\<rparr>)
                        (invoice\<lparr>totalTaxes := totalTaxes',
                                 totalDocumentWithTaxes := totalDocumentWithTaxes'\<rparr>)) (\<lambda>invoice.
         let invoice = invoice\<lparr>hash := js_str (get ''Q''), certificateNumber := js_str (get ''R'')\<rparr>
         in Inr (if js_truthy (get ''S'') then invoice\<lparr>otherInformation := Some (js_str (get ''S''))\<rparr>
                 else invoice))))))))"

text \<open>Lines 110--153: what \<^verbatim>\<open>parseData\<close> does with the validated dictionary.\<close>

definition check_and_assemble :: "js_object \<Rightarrow> parser_error + IPortugalInvoice" where
  "check_and_assemble qrDataDictionary =
     (let missingKeys = missing_keys qrDataDictionary in
      if missingKeys \<noteq> []
      then Inl (MissingRequiredParamException
                  (''Missing the required params: '' @ js_join '', '' missingKeys))
      else (case tax_region_marker qrDataDictionary of
              None \<Rightarrow> Inl type_error_length
            | Some marker \<Rightarrow>
                if \<not> 0 < length marker
                then Inl (NoTaxCountryRegionException
                            ''A ticket must have at least one tax country region'')
                else assemble_invoice qrDataDictionary))"

definition parseData :: "string \<Rightarrow> parser_error + IPortugalInvoice" where
  "parseData qrData =
     (if qrData = []
      then Inl (NoQrCodeDataException ''No qr code data string passed to the parser'')
      else bind_result (extractDataDictionary qrData) check_and_assemble)"

text \<open>What an optional decimal field holds after the assembler: its number when the
  dictionary value is truthy, nothing otherwise.\<close>

definition opt_decimal :: "js_value \<Rightarrow> js_number option" where
  "opt_decimal v = (if js_truthy v then Some (to_number v) else None)"

text \<open>The keys that the sections of a payload name.\<close>

definition section_keys :: "string \<Rightarrow> string set" where
  "section_keys qrData = fst ` section_entry ` set (js_split CHR ''*'' qrData)"

text \<open>The string fields of the invoice and the codes they are read from (lines 121--128,
  146--147), and the value that a payload gives a code.\<close>

definition string_fields :: "(string \<times> (IPortugalInvoice \<Rightarrow> string)) list" where
  "string_fields =
     [(''A'', remitentNif), (''B'', clientNif), (''C'', clientCountry), (''D'', documentType),
      (''E'', documentStatus), (''F'', documentDate), (''G'', documentId), (''H'', ATCUD),
      (''Q'', hash), (''R'', certificateNumber)]"

text \<open>A value that \<^verbatim>\<open>tryToParseDecimal\<close> accepts.\<close>

definition decimal_ok :: "js_value \<Rightarrow> bool" where
  "decimal_ok v \<longleftrightarrow> \<not> is_nan (to_number v)"

text \<open>An invoice none of whose numeric fields is NaN.\<close>

definition invoice_ok :: "IPortugalInvoice \<Rightarrow> bool" where
  "invoice_ok invoice \<longleftrightarrow>
     \<not> is_nan (totalTaxes invoice) \<and> \<not> is_nan (totalDocumentWithTaxes invoice)
     \<and> \<not> is_nan (withholdingTaxes invoice)
     \<and> num_ok (notTaxableInVAT invoice) \<and> num_ok (stampDuty invoice)
     \<and> list_all region_ok (taxCountryRegions invoice)"

definition payload_dictionary :: "string \<Rightarrow> js_object" where
  "payload_dictionary qrData = build_dictionary (js_split CHR ''*'' qrData)"

definition payload_get :: "string \<Rightarrow> string \<Rightarrow> js_value" where
  "payload_get qrData k = obj_get (payload_dictionary qrData) k"

text \<open>The payload that encodes a list of entries: each entry as key, colon, value, joined
  with the separator.\<close>

definition payload_of :: "(string \<times> string) list \<Rightarrow> string" where
  "payload_of kvs = js_join ''*'' (map (\<lambda>(k, v). k @ CHR '':'' # v) kvs)"

subsection \<open>The branches of the parser\<close>

lemma tryToParseDecimal_Inl:
  "tryToParseDecimal v = Inl e \<Longrightarrow> e = InvalidParamFormatException ''Expected decimal value''"
  by (simp add: tryToParseDecimal_def Let_def split: if_splits)

lemma set_optional_decimal_Inl:
  "set_optional_decimal v upd invoice = Inl e \<Longrightarrow>
     e = InvalidParamFormatException ''Expected decimal value''"
  by (auto simp: set_optional_decimal_def bind_result_eq_Inl dest: tryToParseDecimal_Inl
           split: if_splits)

lemma set_region_detail_Inl:
  "set_region_detail i x t = Inl e \<Longrightarrow> i < 2 \<or> 8 < i"
  by (simp add: set_region_detail_def split: if_splits) arith

definition detail_error :: "parser_error \<Rightarrow> bool" where
  "detail_error e \<longleftrightarrow>
     (\<exists>k. e = InvalidParamFormatException (''A valid decimal number is required for param '' @ k))"

lemma region_detail_step_Inl:
  "i \<in> set [2..<9] \<Longrightarrow> region_detail_step d region i t = Inl e \<Longrightarrow> detail_error e"
  by (auto simp: region_detail_step_def detail_error_def Let_def split: if_splits
           dest: set_region_detail_Inl)

lemma getTaxCountryRegionDetails_Inl:
  "getTaxCountryRegionDetails d region t = Inl e \<Longrightarrow> detail_error e"
  unfolding getTaxCountryRegionDetails_fold
  by (blast dest: fold_result_Inl region_detail_step_Inl)

lemma getTaxCountryRegions_Inl:
  "getTaxCountryRegions d = Inl e \<Longrightarrow> detail_error e"
  unfolding getTaxCountryRegions_def
  by (auto simp: region_step_def bind_result_eq_Inl Let_def split: if_splits
           dest!: fold_result_Inl getTaxCountryRegionDetails_Inl)

text \<open>The errors the assembler can throw: only the two decimal-format errors.\<close>

lemma assemble_invoice_Inl:
  "assemble_invoice d = Inl e \<Longrightarrow>
     e = InvalidParamFormatException ''Expected decimal value'' \<or> detail_error e"
  unfolding assemble_invoice_def Let_def
  by (auto simp: bind_result_eq_Inl dest: getTaxCountryRegions_Inl set_optional_decimal_Inl
                 tryToParseDecimal_Inl)

subsection \<open>What a successful assembly returns\<close>

lemma set_optional_decimal_Inr:
  "set_optional_decimal v upd invoice = Inr invoice' \<Longrightarrow>
     invoice' = (case opt_decimal v of Some x \<Rightarrow> upd x invoice | None \<Rightarrow> invoice)"
  by (auto simp: set_optional_decimal_def opt_decimal_def tryToParseDecimal_def Let_def
                 bind_result_eq_Inr split: if_splits)

lemma tryToParseDecimal_Inr:
  "tryToParseDecimal v = Inr x \<Longrightarrow> x = to_number v"
  by (simp add: tryToParseDecimal_def Let_def split: if_splits)

lemma assemble_invoice_Inr:
  assumes "assemble_invoice d = Inr invoice"
  shows "\<exists>regions. getTaxCountryRegions d = Inr regions \<and>
           invoice = createEmptyInvoice
             \<lparr>remitentNif := js_str (obj_get d ''A''), clientNif := js_str (obj_get d ''B''),
              clientCountry := js_str (obj_get d ''C''), documentType := js_str (obj_get d ''D''),
              documentStatus := js_str (obj_get d ''E''), documentDate := js_str (obj_get d ''F''),
              documentId := js_str (obj_get d ''G''), ATCUD := js_str (obj_get d ''H''),
              taxCountryRegions := regions,
              notTaxableInVAT := opt_decimal (obj_get d ''L''),
              stampDuty := opt_decimal (obj_get d ''M''),
              totalTaxes := to_number (obj_get d ''N''),
              totalDocumentWithTaxes := to_number (obj_get d ''O''),
              withholdingTaxes := (case opt_decimal (obj_get d ''P'') of Some x \<Rightarrow> x | None \<Rightarrow> Num 0),
              hash := js_str (obj_get d ''Q''), certificateNumber := js_str (obj_get d ''R''),
              otherInformation := (if js_truthy (obj_get d ''S'') then Some (js_str (obj_get d ''S'')) else None)\<rparr>"
  using assms unfolding assemble_invoice_def Let_def
  by (auto simp: bind_result_eq_Inr createEmptyInvoice_def split: option.splits
           dest!: set_optional_decimal_Inr tryToParseDecimal_Inr)

text \<open>A successful assembly has read every numeric field it converts without NaN.\<close>

lemma set_optional_decimal_ok:
  "set_optional_decimal v upd invoice = Inr invoice' \<Longrightarrow> js_truthy v \<Longrightarrow> decimal_ok v"
  by (auto simp: set_optional_decimal_def tryToParseDecimal_def decimal_ok_def Let_def
                 bind_result_eq_Inr split: if_splits)

lemma tryToParseDecimal_ok: "tryToParseDecimal v = Inr x \<Longrightarrow> decimal_ok v"
  by (simp add: tryToParseDecimal_def decimal_ok_def Let_def split: if_splits)

lemma assemble_invoice_decimals:
  assumes "assemble_invoice d = Inr invoice"
  shows "decimal_ok (obj_get d ''N'') \<and> decimal_ok (obj_get d ''O'')
         \<and> (\<forall>k\<in>{''L'', ''M'', ''P''}. js_truthy (obj_get d k) \<longrightarrow> decimal_ok (obj_get d k))"
  using assms unfolding assemble_invoice_def Let_def
  by (auto simp: bind_result_eq_Inr dest!: set_optional_decimal_ok tryToParseDecimal_ok)

subsection \<open>The success path of the parser\<close>

lemma extractDataDictionary_Inr:
  "extractDataDictionary qrData = Inr d \<Longrightarrow>
     d = build_dictionary (js_split CHR ''*'' qrData) \<and> (\<forall>k\<in>set (map fst d). valid_entry d k)"
  by (auto simp: extractDataDictionary_def Let_def bind_result_eq_Inr validateQrDataDictionary_def
                 validate_entry_ok_iff
           split: if_splits)

lemma parseData_Inr:
  "parseData qrData = Inr invoice \<Longrightarrow>
     \<exists>d. extractDataDictionary qrData = Inr d \<and> missing_keys d = []
         \<and> (\<exists>m. tax_region_marker d = Some m) \<and> assemble_invoice d = Inr invoice"
  by (auto simp: parseData_def check_and_assemble_def bind_result_eq_Inr Let_def
           split: if_splits option.splits)

text \<open>After a successful check every required key holds a non-empty string within its
  maximum length.\<close>

lemma required_present:
  assumes "extractDataDictionary qrData = Inr d" and "missing_keys d = []"
    and "k \<in> set requiredElements"
  shows "\<exists>s. obj_get d k = JsString s \<and> s \<noteq> [] \<and>
              (\<forall>m. map_of maxElementLength k = Some m \<longrightarrow> length s \<le> m)"
proof -
  from assms(2,3) have "k \<in> set (map fst d)"
    by (auto simp: missing_keys_def filter_empty_conv)
  with extractDataDictionary_Inr [OF assms(1)] have "valid_entry d k" by blast
  moreover from assms(3) have "\<not> is_region_key k"
    by (auto simp: requiredElements_def is_region_key_def starts_with_def)
  ultimately show ?thesis by (simp add: valid_entry_iff)
qed

subsection \<open>Keys and errors of the checks\<close>

lemma required_not_proto: "k \<in> set requiredElements \<Longrightarrow> k \<noteq> ''__proto__''"
  by (auto simp: requiredElements_def)

lemma keys_extracted:
  assumes "extractDataDictionary qrData = Inr d" and "k \<noteq> ''__proto__''"
  shows "k \<in> set (own_keys d) \<longleftrightarrow> k \<in> section_keys qrData"
proof -
  have d: "d = build_dictionary (js_split CHR ''*'' qrData)"
    using extractDataDictionary_Inr [OF assms(1)] by blast
  have "set (own_keys d) = fst ` {e \<in> section_entry ` set (js_split CHR ''*'' qrData). not_proto e}"
    using keys_build_dictionary [of "js_split CHR ''*'' qrData"] by (simp add: d)
  then show ?thesis
    using assms(2) by (auto simp: section_keys_def not_proto_def)
qed

lemma tax_region_marker_length: "tax_region_marker d = Some x \<Longrightarrow> 0 < length x"
  by (auto simp: tax_region_marker_def find_Some_iff)

lemma check_and_assemble_Inl:
  "check_and_assemble d = Inl e \<Longrightarrow>
     (\<exists>m. e = MissingRequiredParamException m) \<or> e = type_error_length
     \<or> e = InvalidParamFormatException ''Expected decimal value'' \<or> detail_error e"
  by (auto simp: check_and_assemble_def Let_def split: if_splits option.splits
           dest: tax_region_marker_length assemble_invoice_Inl)

subsection \<open>Values of a successful parse\<close>

lemma string_fields_required: "(k, field) \<in> set string_fields \<Longrightarrow> k \<in> set requiredElements"
  by (auto simp: string_fields_def requiredElements_def)

lemma assemble_string_field:
  "assemble_invoice d = Inr invoice \<Longrightarrow> (k, field) \<in> set string_fields \<Longrightarrow>
     field invoice = js_str (obj_get d k)"
  by (auto simp: string_fields_def dest!: assemble_invoice_Inr)

lemma map_of_filter_not_proto:
  "k \<noteq> ''__proto__'' \<Longrightarrow> map_of (filter not_proto xs) k = map_of xs k"
  by (induction xs) (auto simp: not_proto_def)

lemma extracted_value:
  assumes "extractDataDictionary qrData = Inr d" and "k \<noteq> ''__proto__''"
  shows "obj_get d k = payload_get qrData k"
    and "k \<in> section_keys qrData \<Longrightarrow> \<exists>s. obj_get d k = JsString s \<and> s \<noteq> []"
    and "k \<notin> section_keys qrData \<Longrightarrow> obj_get d k = JsUndefined"
proof -
  have d: "d = build_dictionary (js_split CHR ''*'' qrData)" and v: "\<forall>k\<in>set (map fst d). valid_entry d k"
    using extractDataDictionary_Inr [OF assms(1)] by blast+
  show "obj_get d k = payload_get qrData k" by (simp add: d payload_get_def payload_dictionary_def)
  show "k \<in> section_keys qrData \<Longrightarrow> \<exists>s. obj_get d k = JsString s \<and> s \<noteq> []"
    using keys_extracted [OF assms] v by (auto simp: valid_entry_iff)
  show "obj_get d k = JsUndefined" if "k \<notin> section_keys qrData"
  proof -
    have "map_of d k = None"
      using that keys_extracted [OF assms] by (simp add: map_of_eq_None_iff)
    then show ?thesis by (simp add: obj_get_def)
  qed
qed

subsection \<open>Invariants and progress of the assembler\<close>

lemma opt_decimal_ok: "(js_truthy v \<longrightarrow> decimal_ok v) \<Longrightarrow> num_ok (opt_decimal v)"
  by (simp add: opt_decimal_def num_ok_def decimal_ok_def is_nan_def)

lemma assemble_invoice_ok:
  assumes "assemble_invoice d = Inr invoice"
  shows "invoice_ok invoice"
proof -
  obtain rs where rs: "getTaxCountryRegions d = Inr rs" and inv: "invoice =
           createEmptyInvoice
             \<lparr>remitentNif := js_str (obj_get d ''A''), clientNif := js_str (obj_get d ''B''),
              clientCountry := js_str (obj_get d ''C''), documentType := js_str (obj_get d ''D''),
              documentStatus := js_str (obj_get d ''E''), documentDate := js_str (obj_get d ''F''),
              documentId := js_str (obj_get d ''G''), ATCUD := js_str (obj_get d ''H''),
              taxCountryRegions := rs,
              notTaxableInVAT := opt_decimal (obj_get d ''L''),
              stampDuty := opt_decimal (obj_get d ''M''),
              totalTaxes := to_number (obj_get d ''N''),
              totalDocumentWithTaxes := to_number (obj_get d ''O''),
              withholdingTaxes := (case opt_decimal (obj_get d ''P'') of Some x \<Rightarrow> x | None \<Rightarrow> Num 0),
              hash := js_str (obj_get d ''Q''), certificateNumber := js_str (obj_get d ''R''),
              otherInformation := (if js_truthy (obj_get d ''S'') then Some (js_str (obj_get d ''S'')) else None)\<rparr>"
    using assemble_invoice_Inr [OF assms] by blast
  have dec: "decimal_ok (obj_get d ''N'')" "decimal_ok (obj_get d ''O'')"
    "\<And>k. k \<in> {''L'', ''M'', ''P''} \<Longrightarrow> js_truthy (obj_get d k) \<longrightarrow> decimal_ok (obj_get d k)"
    using assemble_invoice_decimals [OF assms] by blast+
  have "num_ok (opt_decimal (obj_get d ''L''))" "num_ok (opt_decimal (obj_get d ''M''))"
    "num_ok (opt_decimal (obj_get d ''P''))"
    using dec(3) by (simp_all add: opt_decimal_ok)
  with dec(1,2) getTaxCountryRegions_ok [OF rs] show ?thesis
    by (auto simp: inv invoice_ok_def createEmptyInvoice_def decimal_ok_def num_ok_def is_nan_def
             split: option.split)
qed

lemma extractDataDictionary_ok:
  assumes "CHR ''*'' \<in> set qrData"
    and "list_all (\<lambda>x. \<not> is_invalid_section x) (js_split CHR ''*'' qrData)"
    and "list_all (valid_entry (payload_dictionary qrData)) (map fst (payload_dictionary qrData))"
  shows "extractDataDictionary qrData = Inr (payload_dictionary qrData)"
proof -
  have "find is_invalid_section (js_split CHR ''*'' qrData) = None"
    using assms(2) by (simp add: find_None_iff list_all_iff)
  moreover have "validateQrDataDictionary (payload_dictionary qrData) = Inr ()"
    using assms(3) by (simp add: validateQrDataDictionary_def validate_entry_ok_iff list_all_iff)
  ultimately show ?thesis
    using assms(1) by (simp add: extractDataDictionary_def payload_dictionary_def)
qed

lemma assemble_invoice_Inr_ex:
  assumes "getTaxCountryRegions d = Inr rs"
    and "decimal_ok (obj_get d ''N'')" and "decimal_ok (obj_get d ''O'')"
    and "\<forall>k\<in>{''L'', ''M'', ''P''}. js_truthy (obj_get d k) \<longrightarrow> decimal_ok (obj_get d k)"
  shows "\<exists>invoice. assemble_invoice d = Inr invoice"
  using assms
  by (simp add: assemble_invoice_def Let_def set_optional_decimal_def tryToParseDecimal_def
                decimal_ok_def)

subsection \<open>Decimal coercion of the specification's decimal text\<close>

text \<open>C26: refinement of the specification's decimal coercion: \<^verbatim>\<open>tryToParseDecimal\<close>
  accepts every text in the specification's decimal format (an optional sign, a non-empty
  run of digits, an optional point followed by digits) and returns a number that is not
  NaN. NaN-ness does not depend on the model's exact values: rounding a decimal literal to
  a double, or overflowing it to \<^verbatim>\<open>Infinity\<close>, never gives NaN.\<close>

theorem tryToParseDecimal_decimal_text:
  assumes "sign \<in> {[], ''-'', ''+''}" and "ip \<noteq> []"
    and "list_all is_ascii_digit ip" and "list_all is_ascii_digit fp"
  shows "\<exists>x. tryToParseDecimal (JsString (decimal_text sign ip fp)) = Inr x \<and> \<not> is_nan x"
  using string_to_number_decimal [OF assms]
  by (simp add: tryToParseDecimal_def to_number_def is_nan_def)

theorem tryToParseDecimal_decimal_text_witness:
  "\<exists>x. tryToParseDecimal (JsString ''-12.50'') = Inr x \<and> \<not> is_nan x"
  using tryToParseDecimal_decimal_text [of "''-''" "''12''" "''50''"]
  by (simp add: decimal_text_def is_ascii_digit_def)

end
