(* ===== verification/Exceptions.thy ===== *)
theory Exceptions
  imports InvoiceModel
begin

text \<open>
  The exception classes of \<^verbatim>\<open>src/src/exceptions/portugal_qrcode_data_parser.exception.ts\<close>
  as objects of the JavaScript runtime. A class is a \<open>js_class\<close>; \<open>super_class\<close> is the
  \<^verbatim>\<open>extends\<close> clause of each declaration (the runtime's \<^verbatim>\<open>Error\<close>, \<^verbatim>\<open>TypeError\<close>
  and \<^verbatim>\<open>Object\<close> included), and \<open>instance_of_class c d\<close>, the closure of that relation,
  is what \<^verbatim>\<open>x instanceof D\<close> answers for an object whose prototype is \<open>c\<close>'s.

  The constructor of \<^verbatim>\<open>PortugalQrCodeDataParserException\<close> (lines 3--14) calls
  \<^verbatim>\<open>super(message)\<close>, whose result depends on how the class was compiled
  (\<open>super_mode\<close>): a native class gets the prototype of \<^verbatim>\<open>new.target\<close>, while a class
  compiled down to ES5 functions gets the object that \<^verbatim>\<open>Error\<close> returns, whose
  prototype is \<^verbatim>\<open>Error.prototype\<close>. The constructor then sets the prototype to that of
  \<^verbatim>\<open>new.target\<close>, with \<^verbatim>\<open>Object.setPrototypeOf\<close> when the runtime has it and with
  the \<^verbatim>\<open>__proto__\<close> setter otherwise. The six subclasses (lines 17--22) have the
  implicit constructor, which passes its arguments and \<^verbatim>\<open>new.target\<close> to it.

  The lemmas: without the restoration an ES5 build loses \<^verbatim>\<open>instanceof\<close>; with it, every
  exception the parser throws is an instance of its own class, of the base class and of
  \<^verbatim>\<open>Error\<close>, in every mode and on both branches.
\<close>

datatype js_class =
    ObjectClass
  | ErrorClass
  | TypeErrorClass
  | PortugalQrCodeDataParserException_cls
  | NoQrCodeDataException_cls
  | NoTaxCountryRegionException_cls
  | MissingRequiredParamException_cls
  | InvalidParamFormatException_cls
  | InvalidParamLengthException_cls
  | InvalidTaxCountryRegionElement_cls

definition super_class :: "js_class \<Rightarrow> js_class option" where
  "super_class c =
     (case c of
        ObjectClass \<Rightarrow> None
      | ErrorClass \<Rightarrow> Some ObjectClass
      | TypeErrorClass \<Rightarrow> Some ErrorClass
      | PortugalQrCodeDataParserException_cls \<Rightarrow> Some ErrorClass
      | _ \<Rightarrow> Some PortugalQrCodeDataParserException_cls)"

inductive instance_of_class :: "js_class \<Rightarrow> js_class \<Rightarrow> bool" where
  proto_self: "instance_of_class c c"
| proto_super: "super_class c = Some p \<Longrightarrow> instance_of_class p d \<Longrightarrow> instance_of_class c d"

code_pred instance_of_class .

record js_error =
  proto :: js_class
  message :: string

datatype super_mode = NativeClass | DownlevelES5

text \<open>\<^verbatim>\<open>super(message)\<close> in the base constructor.\<close>

definition error_super :: "super_mode \<Rightarrow> js_class \<Rightarrow> string \<Rightarrow> js_error" where
  "error_super mode newTarget msg =
     (case mode of
        NativeClass \<Rightarrow> \<lparr>proto = newTarget, message = msg\<rparr>
      | DownlevelES5 \<Rightarrow> \<lparr>proto = ErrorClass, message = msg\<rparr>)"

definition set_prototype_of :: "js_error \<Rightarrow> js_class \<Rightarrow> js_error" where
  "set_prototype_of obj p = obj\<lparr>proto := p\<rparr>"

definition assign_proto :: "js_error \<Rightarrow> js_class \<Rightarrow> js_error" where
  "assign_proto obj p = obj\<lparr>proto := p\<rparr>"

definition construct_exception :: "super_mode \<Rightarrow> bool \<Rightarrow> js_class \<Rightarrow> string \<Rightarrow> js_error" where
  "construct_exception mode hasSetPrototypeOf newTarget msg =
     (let this = error_super mode newTarget msg;
          actualProto = newTarget
      in if hasSetPrototypeOf then set_prototype_of this actualProto
         else assign_proto this actualProto)"

text \<open>The class of each error of the model and the object \<^verbatim>\<open>throw\<close> raises for it: the
  parser's \<^verbatim>\<open>new X(message)\<close>, or the engine's own \<^verbatim>\<open>TypeError\<close>.\<close>

definition error_class :: "parser_error \<Rightarrow> js_class" where
  "error_class e =
     (case e of
        NoQrCodeDataException _ \<Rightarrow> NoQrCodeDataException_cls
      | NoTaxCountryRegionException _ \<Rightarrow> NoTaxCountryRegionException_cls
      | MissingRequiredParamException _ \<Rightarrow> MissingRequiredParamException_cls
      | InvalidParamFormatException _ \<Rightarrow> InvalidParamFormatException_cls
      | InvalidParamLengthException _ \<Rightarrow> InvalidParamLengthException_cls
      | InvalidTaxCountryRegionElement _ \<Rightarrow> InvalidTaxCountryRegionElement_cls
      | TypeError _ \<Rightarrow> TypeErrorClass)"

definition error_message :: "parser_error \<Rightarrow> string" where
  "error_message e =
     (case e of
        NoQrCodeDataException m \<Rightarrow> m | NoTaxCountryRegionException m \<Rightarrow> m
      | MissingRequiredParamException m \<Rightarrow> m | InvalidParamFormatException m \<Rightarrow> m
      | InvalidParamLengthException m \<Rightarrow> m | InvalidTaxCountryRegionElement m \<Rightarrow> m
      | TypeError m \<Rightarrow> m)"

definition thrown_object :: "super_mode \<Rightarrow> bool \<Rightarrow> parser_error \<Rightarrow> js_error" where
  "thrown_object mode hasSetPrototypeOf e =
     (case e of
        TypeError m \<Rightarrow> \<lparr>proto = TypeErrorClass, message = m\<rparr>
      | _ \<Rightarrow> construct_exception mode hasSetPrototypeOf (error_class e) (error_message e))"

inductive_cases instance_of_classE: "instance_of_class c d"

subsection \<open>Why the constructor restores the prototype\<close>

text \<open>Compiled to ES5, \<^verbatim>\<open>super(message)\<close> alone leaves an object that is an \<^verbatim>\<open>Error\<close>
  but not a \<^verbatim>\<open>PortugalQrCodeDataParserException\<close>.\<close>

text \<open>The prototype chain of a runtime error never reaches the parser's classes.\<close>

lemma instance_of_runtime_chain:
  "instance_of_class c d \<Longrightarrow> c \<in> {TypeErrorClass, ErrorClass, ObjectClass} \<Longrightarrow>
     d \<in> {TypeErrorClass, ErrorClass, ObjectClass}"
  by (induction rule: instance_of_class.induct) (auto simp: super_class_def)

lemma error_super_es5_not_instance:
  "\<not> instance_of_class (proto (error_super DownlevelES5 c m)) PortugalQrCodeDataParserException_cls"
  using instance_of_runtime_chain [of ErrorClass PortugalQrCodeDataParserException_cls]
  by (auto simp: error_super_def)

subsection \<open>The objects the parser throws\<close>

lemma message_construct_exception: "message (construct_exception mode hs c m) = m"
  by (cases mode)
     (simp_all add: construct_exception_def Let_def set_prototype_of_def assign_proto_def
                    error_super_def)

lemma proto_thrown_object: "proto (thrown_object mode hs e) = error_class e"
  by (cases e) (simp_all add: thrown_object_def error_class_def construct_exception_def Let_def
                              set_prototype_of_def assign_proto_def)

lemma message_thrown_object: "message (thrown_object mode hs e) = error_message e"
  by (cases e) (simp_all add: thrown_object_def error_message_def message_construct_exception)

lemma instance_of_super:
  "super_class c = Some p \<Longrightarrow> instance_of_class p d \<Longrightarrow> instance_of_class c d"
  by (rule proto_super)

lemma instance_of_trans:
  "instance_of_class a b \<Longrightarrow> instance_of_class b c \<Longrightarrow> instance_of_class a c"
  by (induction rule: instance_of_class.induct) (auto intro: instance_of_super)

lemma instance_of_base_Error:
  "instance_of_class PortugalQrCodeDataParserException_cls ErrorClass"
  by (rule instance_of_super [of _ ErrorClass]) (simp_all add: super_class_def proto_self)

lemma instance_error_class_base:
  "is_parser_exception e \<Longrightarrow> instance_of_class (error_class e) PortugalQrCodeDataParserException_cls"
  by (cases e)
     (auto simp: error_class_def super_class_def intro: instance_of_super proto_self)

text \<open>An error's class extends \<^verbatim>\<open>PortugalQrCodeDataParserException\<close> exactly when
  the parser throws it, not the engine.\<close>

lemma error_class_instance_base_iff:
  "instance_of_class (error_class e) PortugalQrCodeDataParserException_cls \<longleftrightarrow> is_parser_exception e"
proof
  assume "instance_of_class (error_class e) PortugalQrCodeDataParserException_cls"
  then show "is_parser_exception e"
    using instance_of_runtime_chain [of TypeErrorClass PortugalQrCodeDataParserException_cls]
    by (cases e) (auto simp: error_class_def)
next
  assume "is_parser_exception e"
  then show "instance_of_class (error_class e) PortugalQrCodeDataParserException_cls"
    by (rule instance_error_class_base)
qed

text \<open>Every error's class extends \<^verbatim>\<open>Error\<close>.\<close>

lemma error_class_instance_Error: "instance_of_class (error_class e) ErrorClass"
proof (cases "is_parser_exception e")
  case True
  then have "instance_of_class (error_class e) PortugalQrCodeDataParserException_cls"
    by (rule instance_error_class_base)
  then show ?thesis using instance_of_base_Error by (rule instance_of_trans)
next
  case False
  then show ?thesis
    by (cases e) (simp_all add: error_class_def instance_of_super [of _ ErrorClass]
                                super_class_def proto_self)
qed

text \<open>C20: every object the parser throws is an instance of the class of its error and of
  \<^verbatim>\<open>Error\<close>, carries the error's message, and is an instance of
  \<^verbatim>\<open>PortugalQrCodeDataParserException\<close> exactly when it is not the engine's
  \<^verbatim>\<open>TypeError\<close>; this holds for native and ES5 builds and on both branches of the
  prototype restoration, so the \<^verbatim>\<open>toThrow(Class)\<close> checks of the tests can succeed.\<close>

theorem thrown_object_instanceof:
  "instance_of_class (proto (thrown_object mode hs e)) (error_class e)
   \<and> instance_of_class (proto (thrown_object mode hs e)) ErrorClass
   \<and> (instance_of_class (proto (thrown_object mode hs e)) PortugalQrCodeDataParserException_cls
        \<longleftrightarrow> is_parser_exception e)
   \<and> message (thrown_object mode hs e) = error_message e"
proof -
  have p: "proto (thrown_object mode hs e) = error_class e"
    by (cases e) (simp_all add: thrown_object_def error_class_def construct_exception_def Let_def
                                set_prototype_of_def assign_proto_def)
  show ?thesis
    by (simp add: p message_thrown_object proto_self error_class_instance_Error
                  error_class_instance_base_iff)
qed

end
