(* ===== verification/Dist.thy ===== *)
theory Dist
  imports QrParser Exceptions
begin

text \<open>
  The compiled module that the package ships, \<^verbatim>\<open>src/dist/index.js\<close> (class
  \<^verbatim>\<open>PortugalQrCodeDataParser\<close>) and
  \<^verbatim>\<open>src/dist/exceptions/portugal_qrcode_data_parser.exception.js\<close>, modelled from the
  JavaScript as it stands, method by method, with the same runtime (\<open>JsString\<close>,
  \<open>JsNumber\<close>, \<open>JsObject\<close>) and the same data (\<open>InvoiceModel\<close>). The compiled
  methods are \<^verbatim>\<open>static\<close> members; the three tables are assigned to the class after its
  body (lines 220--261), before any call. The exception classes are native ES2015 classes,
  so \<^verbatim>\<open>super(message)\<close> runs in the \<open>NativeClass\<close> mode; their \<^verbatim>\<open>extends\<close>
  clauses are \<open>dist_super_class\<close>.

  The lemmas show, bottom up, that each compiled method computes the function of the
  TypeScript method it was compiled from, so that every theorem about \<open>parseData\<close> holds of
  the shipped code.
\<close>

subsection \<open>Tables (lines 220--261)\<close>

definition dist_requiredElements :: "string list" where
  "dist_requiredElements =
     [''A'', ''B'', ''C'', ''D'', ''E'', ''F'', ''G'', ''H'', ''N'', ''O'', ''Q'', ''R'']"

definition dist_maxElementLength :: "(string \<times> nat) list" where
  "dist_maxElementLength =
     [(''A'', 9), (''B'', 30), (''C'', 12), (''D'', 2), (''E'', 1), (''F'', 8),
      (''G'', 60), (''H'', 70), (''L'', 16), (''M'', 16), (''N'', 16), (''O'', 16),
      (''P'', 16), (''Q'', 4), (''R'', 4), (''S'', 65)]"

definition dist_maxTaxCountryRegionLength :: "(string \<times> nat) list" where
  "dist_maxTaxCountryRegionLength =
     [(''1'', 5), (''2'', 16), (''3'', 16), (''4'', 16), (''5'', 16), (''6'', 16),
      (''7'', 16), (''8'', 16)]"

subsection \<open>Factories (lines 5--39)\<close>

definition dist_createEmptyTaxCountryRegion :: ITaxCountryRegion where
  "dist_createEmptyTaxCountryRegion =
     \<lparr>taxCountryRegion = None, taxableBaseExemptOfVAT = None,
      taxableBaseOfVATAtReducedRate = None, totalVATAtReducedRate = None,
      taxableBaseOfVATAtAIntermediateRate = None, totalVATAtIntermediateRate = None,
      taxableBaseOfVATAtAStandardRate = None, totalVATAtStandardRate = None\<rparr>"

definition dist_createEmptyInvoice :: IPortugalInvoice where
  "dist_createEmptyInvoice =
     \<lparr>remitentNif = [], clientNif = [], clientCountry = [], documentType = [],
      documentStatus = [], documentDate = [], documentId = [], ATCUD = [],
      taxCountryRegions = [], notTaxableInVAT = None, stampDuty = None,
      totalTaxes = Num 0, totalDocumentWithTaxes = Num 0, withholdingTaxes = Num 0,
      hash = [], certificateNumber = [], otherInformation = None\<rparr>"

subsection \<open>tryToParseDecimal (lines 211--217)\<close>

definition dist_tryToParseDecimal :: "js_value \<Rightarrow> parser_error + js_number" where
  "dist_tryToParseDecimal taxValue =
     (let decimalNumber = to_number taxValue in
      if is_nan decimalNumber then Inl (InvalidParamFormatException ''Expected decimal value'')
      else Inr decimalNumber)"

subsection \<open>validateQrDataDictionary (lines 117--141)\<close>

text \<open>The body of the \<^verbatim>\<open>for ... in\<close> loop for one key.\<close>

definition dist_validate_key :: "js_object \<Rightarrow> string \<Rightarrow> parser_error + unit" where
  "dist_validate_key qrDataDictionary key =
     bind_result
       (if starts_with ''I'' key \<or> starts_with ''J'' key \<or> starts_with ''K'' key then
          (case first_digit_run key of
             None \<Rightarrow> Inl (InvalidParamFormatException
                            ''Found a tax country region element without index'')
           | Some indexSearch \<Rightarrow>
               (let index = digits_to_nat indexSearch in
                if index < 1 \<or> index > 8
                then Inl (InvalidParamFormatException
                            ''Tax country region elements must be between 1 and 8'')
                else Inr (map_of dist_maxTaxCountryRegionLength (nat_to_string index))))
        else Inr (map_of dist_maxElementLength key))
       (\<lambda>maxLength.
          case obj_get qrDataDictionary key of
            JsUndefined \<Rightarrow> Inl type_error_length
          | JsString s \<Rightarrow>
              if (case maxLength of Some m \<Rightarrow> length s > m | None \<Rightarrow> False)
              then Inl (InvalidParamLengthException
                          (''Param '' @ key @ '' exceeds the max length of ''
                           @ nat_to_string (the maxLength)))
              else if length s = 0
              then Inl (InvalidParamLengthException
                          (''Param '' @ key @ '' has a length of 0 characters''))
              else Inr ())"

definition dist_validateQrDataDictionary :: "js_object \<Rightarrow> parser_error + unit" where
  "dist_validateQrDataDictionary qrDataDictionary =
     for_each_check (dist_validate_key qrDataDictionary) (own_keys qrDataDictionary)"

subsection \<open>extractDataDictionary (lines 96--112)\<close>

definition dist_extractDataDictionary :: "string \<Rightarrow> parser_error + js_object" where
  "dist_extractDataDictionary qrData =
     (if CHR ''*'' \<notin> set qrData
      then Inl (InvalidParamFormatException ''Missing * separator in the qr data string'')
      else
        (let qrDataSections = js_split CHR ''*'' qrData;
             invalidSection = find (\<lambda>x. length (js_split CHR '':'' x) \<noteq> 2) qrDataSections
         in if (case invalidSection of Some x \<Rightarrow> js_truthy (JsString x) | None \<Rightarrow> False)
            then Inl (InvalidParamFormatException
                        ''Not all sections of the qr data has 1 separator (:)'')
            else
              (let qrDataDictionary =
                     fold (\<lambda>section d. case section_entry section of (key, value) \<Rightarrow>
                             obj_set d key value) qrDataSections []
               in bind_result (dist_validateQrDataDictionary qrDataDictionary)
                    (\<lambda>_. Inr qrDataDictionary))))"

subsection \<open>getTaxCountryRegionDetails (lines 168--205)\<close>

definition dist_set_detail ::
  "nat \<Rightarrow> js_number \<Rightarrow> ITaxCountryRegion \<Rightarrow> parser_error + ITaxCountryRegion" where
  "dist_set_detail i taxDetail regionDetails =
     (if i = 2 then Inr (regionDetails\<lparr>taxableBaseExemptOfVAT := Some taxDetail\<rparr>)
      else if i = 3 then Inr (regionDetails\<lparr>taxableBaseOfVATAtReducedRate := Some taxDetail\<rparr>)
      else if i = 4 then Inr (regionDetails\<lparr>totalVATAtReducedRate := Some taxDetail\<rparr>)
      else if i = 5 then Inr (regionDetails\<lparr>taxableBaseOfVATAtAIntermediateRate := Some taxDetail\<rparr>)
      else if i = 6 then Inr (regionDetails\<lparr>totalVATAtIntermediateRate := Some taxDetail\<rparr>)
      else if i = 7 then Inr (regionDetails\<lparr>taxableBaseOfVATAtAStandardRate := Some taxDetail\<rparr>)
      else if i = 8 then Inr (regionDetails\<lparr>totalVATAtStandardRate := Some taxDetail\<rparr>)
      else Inl (InvalidTaxCountryRegionElement ''Invalid tax country region element''))"

function dist_detail_loop ::
  "js_object \<Rightarrow> string \<Rightarrow> nat \<Rightarrow> ITaxCountryRegion \<Rightarrow> parser_error + ITaxCountryRegion" where
  "dist_detail_loop qrDataDictionary region i regionDetails =
     (if i \<le> 8 then
        (let taxCountryRegionDetailKey = region @ nat_to_string i in
         if obj_get qrDataDictionary taxCountryRegionDetailKey = JsUndefined
         then dist_detail_loop qrDataDictionary region (Suc i) regionDetails
         else
           (let taxDetail = to_number (obj_get qrDataDictionary taxCountryRegionDetailKey) in
            if is_nan taxDetail
            then Inl (InvalidParamFormatException
                        (''A valid decimal number is required for param '' @ taxCountryRegionDetailKey))
            else bind_result (dist_set_detail i taxDetail regionDetails)
                   (dist_detail_loop qrDataDictionary region (Suc i))))
      else Inr regionDetails)"
  by pat_completeness auto
termination
  by (relation "measure (\<lambda>(d, region, i, r). 9 - i)") auto

declare dist_detail_loop.simps [simp del]

definition dist_getTaxCountryRegionDetails ::
  "js_object \<Rightarrow> string \<Rightarrow> ITaxCountryRegion \<Rightarrow> parser_error + ITaxCountryRegion" where
  "dist_getTaxCountryRegionDetails qrDataDictionary region regionDetails =
     dist_detail_loop qrDataDictionary region 2 regionDetails"

subsection \<open>getTaxCountryRegions (lines 147--161)\<close>

definition dist_getTaxCountryRegions :: "js_object \<Rightarrow> parser_error + ITaxCountryRegion list" where
  "dist_getTaxCountryRegions qrDataDictionary =
     fold_result
       (\<lambda>region regions.
          if obj_get qrDataDictionary (region @ ''1'') = JsUndefined then Inr regions
          else
            (let taxRegion = dist_createEmptyTaxCountryRegion
                   \<lparr>taxCountryRegion := Some (js_str (obj_get qrDataDictionary (region @ ''1'')))\<rparr>
             in bind_result (dist_getTaxCountryRegionDetails qrDataDictionary region taxRegion)
                  (\<lambda>taxRegion'. Inr (regions @ [taxRegion']))))
       (for_in_array_keys [''I'', ''J'', ''K'']) []"

subsection \<open>parseData (lines 50--91)\<close>

definition dist_optional_decimal ::
  "js_value \<Rightarrow> (js_number \<Rightarrow> IPortugalInvoice \<Rightarrow> IPortugalInvoice) \<Rightarrow> IPortugalInvoice
     \<Rightarrow> parser_error + IPortugalInvoice" where
  "dist_optional_decimal v upd invoice =
     (if js_truthy v then bind_result (dist_tryToParseDecimal v) (\<lambda>x. Inr (upd x invoice))
      else Inr invoice)"

definition dist_parseData :: "string \<Rightarrow> parser_error + IPortugalInvoice" where
  "dist_parseData qrData =
     (if qrData = []
      then Inl (NoQrCodeDataException ''No qr code data string passed to the parser'')
      else bind_result (dist_extractDataDictionary qrData) (\<lambda>qrDataDictionary.
        let qrDataKeys = own_keys qrDataDictionary;
            missingKeys = filter (\<lambda>x. x \<notin> set qrDataKeys) dist_requiredElements
        in if missingKeys \<noteq> []
           then Inl (MissingRequiredParamException
                       (''Missing the required params: '' @ js_join '', '' missingKeys))
           else (case find (\<lambda>x. x \<in> set [''I1'', ''J1'', ''K1'']) qrDataKeys of
                   None \<Rightarrow> Inl type_error_length
                 | Some marker \<Rightarrow>
                     if \<not> 0 < length marker
                     then Inl (NoTaxCountryRegionException
                                 ''A ticket must have at least one tax country region'')
                     else
                       (let get = obj_get qrDataDictionary;
                            invoice = dist_createEmptyInvoice
                              \<lparr>remitentNif := js_str (get ''A''), clientNif := js_str (get ''B''),
                               clientCountry := js_str (get ''C''), documentType := js_str (get ''D''),
                               documentStatus := js_str (get ''E''), documentDate := js_str (get ''F''),
                               documentId := js_str (get ''G''), ATCUD := js_str (get ''H'')\<rparr>
                        in bind_result (dist_getTaxCountryRegions qrDataDictionary) (\<lambda>regions.
                           bind_result (dist_optional_decimal (get ''L'')
                                          (\<lambda>x i. i\<lparr>notTaxableInVAT := Some x\<rparr>)
                                          (invoice\<lparr>taxCountryRegions := regions\<rparr>)) (\<lambda>invoice.
                           bind_result (dist_optional_decimal (get ''M'')
                                          (\<lambda>x i. i\<lparr>stampDuty := Some x\<rparr>) invoice) (\<lambda>invoice.
                           bind_result (dist_tryToParseDecimal (get ''N'')) (\<lambda>totalTaxes'.
                           bind_result (dist_tryToParseDecimal (get ''O'')) (\<lambda>totalDocumentWithTaxes'.
                           bind_result (dist_optional_decimal (get ''P'')
                                          (\<lambda>x i. i\<lparr>withholdingTaxes := x\<rparr>)
                                          (invoice\<lparr>totalTaxes := totalTaxes',
                                                   totalDocumentWithTaxes := totalDocumentWithTaxes'\<rparr>))
                             (\<lambda>invoice.
                           let invoice = invoice\<lparr>hash := js_str (get ''Q''),
                                                 certificateNumber := js_str (get ''R'')\<rparr>
                           in Inr (if js_truthy (get ''S'')
                                   then invoice\<lparr>otherInformation := Some (js_str (get ''S''))\<rparr>
                                   else invoice)))))))))))"

subsection \<open>The exception constructor (exception.js lines 4--16)\<close>

definition dist_construct_exception :: "bool \<Rightarrow> js_class \<Rightarrow> string \<Rightarrow> js_error" where
  "dist_construct_exception hasSetPrototypeOf newTarget msg =
     (let this = error_super NativeClass newTarget msg;
          actualProto = newTarget
      in if hasSetPrototypeOf then set_prototype_of this actualProto
         else assign_proto this actualProto)"

text \<open>The \<^verbatim>\<open>extends\<close> clauses of the compiled class declarations (exception.js
  lines 4 and 18--40); the runtime's classes keep their built-in parents.\<close>

definition dist_super_class :: "js_class \<Rightarrow> js_class option" where
  "dist_super_class c =
     (case c of
        ObjectClass \<Rightarrow> None
      | ErrorClass \<Rightarrow> Some ObjectClass
      | TypeErrorClass \<Rightarrow> Some ErrorClass
      | PortugalQrCodeDataParserException_cls \<Rightarrow> Some ErrorClass
      | NoQrCodeDataException_cls \<Rightarrow> Some PortugalQrCodeDataParserException_cls
      | NoTaxCountryRegionException_cls \<Rightarrow> Some PortugalQrCodeDataParserException_cls
      | MissingRequiredParamException_cls \<Rightarrow> Some PortugalQrCodeDataParserException_cls
      | InvalidParamFormatException_cls \<Rightarrow> Some PortugalQrCodeDataParserException_cls
      | InvalidParamLengthException_cls \<Rightarrow> Some PortugalQrCodeDataParserException_cls
      | InvalidTaxCountryRegionElement_cls \<Rightarrow> Some PortugalQrCodeDataParserException_cls)"

subsection \<open>The compiled methods compute the source's functions\<close>

lemma dist_tables:
  "dist_requiredElements = requiredElements"
  "dist_maxElementLength = maxElementLength"
  "dist_maxTaxCountryRegionLength = maxTaxCountryRegionLength"
  "dist_createEmptyTaxCountryRegion = createEmptyTaxCountryRegion"
  "dist_createEmptyInvoice = createEmptyInvoice"
  by (simp_all add: dist_requiredElements_def requiredElements_def dist_maxElementLength_def
                    maxElementLength_def dist_maxTaxCountryRegionLength_def
                    maxTaxCountryRegionLength_def dist_createEmptyTaxCountryRegion_def
                    createEmptyTaxCountryRegion_def dist_createEmptyInvoice_def
                    createEmptyInvoice_def)

lemma dist_tryToParseDecimal_eq: "dist_tryToParseDecimal = tryToParseDecimal"
  by (simp add: fun_eq_iff dist_tryToParseDecimal_def tryToParseDecimal_def)

lemma dist_validate_key_eq: "dist_validate_key d key = validate_entry d key"
  by (simp add: dist_validate_key_def validate_entry_def entry_max_length_def is_region_key_def
                check_length_def dist_tables Let_def
           split: option.split js_value.split)


lemma dist_validateQrDataDictionary_eq: "dist_validateQrDataDictionary = validateQrDataDictionary"
proof -
  have "dist_validate_key d = validate_entry d" for d
    by (rule ext) (rule dist_validate_key_eq)
  then show ?thesis
    by (intro ext) (simp add: dist_validateQrDataDictionary_def validateQrDataDictionary_def)
qed

lemma dist_extractDataDictionary_eq: "dist_extractDataDictionary = extractDataDictionary"
proof (rule ext)
  fix qrData
  have inv: "(\<lambda>x. length (js_split CHR '':'' x) \<noteq> 2) = is_invalid_section"
    by (rule ext) (simp add: is_invalid_section_def)
  show "dist_extractDataDictionary qrData = extractDataDictionary qrData"
    unfolding dist_extractDataDictionary_def extractDataDictionary_def build_dictionary_def
      store_section_def [abs_def] inv dist_validateQrDataDictionary_eq ..
qed

lemma dist_set_detail_eq: "dist_set_detail = set_region_detail"
  by (intro ext) (simp add: dist_set_detail_def set_region_detail_def)

lemma dist_detail_loop_eq: "dist_detail_loop d region i r = region_detail_loop d region i r"
proof (induction d region i r rule: dist_detail_loop.induct)
  case (1 d region i r)
  show ?case
    using "1.IH"
    by (subst dist_detail_loop.simps, subst region_detail_loop.simps)
       (auto simp: region_detail_step_def dist_set_detail_eq Let_def bind_result_def
             split: sum.split)
qed

lemma dist_getTaxCountryRegions_eq: "dist_getTaxCountryRegions = getTaxCountryRegions"
proof -
  have det: "dist_getTaxCountryRegionDetails = getTaxCountryRegionDetails"
    by (intro ext) (simp add: dist_getTaxCountryRegionDetails_def getTaxCountryRegionDetails_def
                              dist_detail_loop_eq)
  show ?thesis
    unfolding dist_getTaxCountryRegions_def getTaxCountryRegions_def region_step_def [abs_def]
      possibleRegions_def dist_tables det ..
qed

lemma dist_optional_decimal_eq: "dist_optional_decimal = set_optional_decimal"
  by (intro ext) (simp add: dist_optional_decimal_def set_optional_decimal_def dist_tryToParseDecimal_eq)

text \<open>The shipped module computes what the TypeScript source computes: the compiled
  \<^verbatim>\<open>parseData\<close> is the function \<open>parseData\<close> of the model on every input, and the
  compiled exception constructor is the source's constructor in the native-class mode, and
  the compiled class declarations give every exception class the parent it has in the
  source.\<close>

lemma dist_module_eq:
  "dist_parseData = parseData
   \<and> dist_construct_exception hs c m = construct_exception NativeClass hs c m
   \<and> dist_super_class = super_class"
proof (intro conjI)
  show "dist_parseData = parseData"
    unfolding dist_parseData_def dist_tables dist_extractDataDictionary_eq
      dist_getTaxCountryRegions_eq dist_optional_decimal_eq dist_tryToParseDecimal_eq
      parseData_def check_and_assemble_def [abs_def] missing_keys_def tax_region_marker_def
      assemble_invoice_def Let_def
    by (rule refl)
  show "dist_construct_exception hs c m = construct_exception NativeClass hs c m"
    by (simp add: dist_construct_exception_def construct_exception_def)
  show "dist_super_class = super_class"
    by (rule ext) (simp add: dist_super_class_def super_class_def split: js_class.split)
qed

end
