(* ===== verification/TestSuite.thy ===== *)
theory TestSuite
  imports QrParser Exceptions "HOL-Library.Sublist"
begin

text \<open>
  The repository's test suite, \<^verbatim>\<open>src/test/portugal_invoice.test.ts\<close>, run against the
  model. Each \<^verbatim>\<open>it\<close> block is a \<open>jest_test\<close>: its title, the payload it passes to
  \<^verbatim>\<open>PortugalInvoiceQrParser.parseData\<close> (the default export of \<^verbatim>\<open>src/src/index.ts\<close>)
  and the matchers of its \<^verbatim>\<open>expect\<close> statements. \<open>call_parseData\<close> is the closure
  \<^verbatim>\<open>() => parseData(qrData)\<close> that \<^verbatim>\<open>expect\<close> runs: the object it throws
  (\<open>thrown_object\<close> of \<open>Exceptions\<close>), or nothing when it returns. \<open>to_throw\<close> is the
  semantics of Jest's matchers: \<^verbatim>\<open>toThrow(Class)\<close> holds when the thrown object is an
  \<^verbatim>\<open>instanceof\<close> the class, \<^verbatim>\<open>toThrow(string)\<close> when its message contains the
  string, \<^verbatim>\<open>not.toThrow(Class)\<close> when no instance of the class is thrown.
\<close>

datatype matcher =
    ToThrowClass js_class
  | ToThrowMessage string
  | NotToThrowClass js_class

record jest_test =
  test_title :: string
  test_input :: string
  test_matchers :: "matcher list"

definition call_parseData :: "super_mode \<Rightarrow> bool \<Rightarrow> string \<Rightarrow> js_error option" where
  "call_parseData mode hasSetPrototypeOf qrData =
     (case parseData qrData of
        Inl e \<Rightarrow> Some (thrown_object mode hasSetPrototypeOf e)
      | Inr _ \<Rightarrow> None)"

definition to_throw :: "js_error option \<Rightarrow> matcher \<Rightarrow> bool" where
  "to_throw thrown m =
     (case m of
        ToThrowClass c \<Rightarrow>
          (case thrown of None \<Rightarrow> False | Some x \<Rightarrow> instance_of_class (proto x) c)
      | ToThrowMessage s \<Rightarrow>
          (case thrown of None \<Rightarrow> False | Some x \<Rightarrow> sublist s (message x))
      | NotToThrowClass c \<Rightarrow>
          (case thrown of None \<Rightarrow> True | Some x \<Rightarrow> \<not> instance_of_class (proto x) c))"

text \<open>A test passes when every \<^verbatim>\<open>expect\<close> of it holds; each \<^verbatim>\<open>expect\<close> calls the
  parser afresh, and the parser is a function of its input.\<close>

definition test_passes :: "super_mode \<Rightarrow> bool \<Rightarrow> jest_test \<Rightarrow> bool" where
  "test_passes mode hasSetPrototypeOf t =
     list_all (to_throw (call_parseData mode hasSetPrototypeOf (test_input t))) (test_matchers t)"

text \<open>The twenty \<^verbatim>\<open>it\<close> blocks of the test file, in order (lines 11--227).\<close>

definition portugal_invoice_tests :: "jest_test list" where
  \<open>portugal_invoice_tests = [
    \<lparr>test_title = ''Should throw exception when no data is passed'',
     test_input = [],
     test_matchers = [ToThrowClass NoQrCodeDataException_cls]\<rparr>,
    \<lparr>test_title = ''Should throw exception when no "*" separator is found'',
     test_input = ''Abcd'',
     test_matchers = [ToThrowClass InvalidParamFormatException_cls, ToThrowMessage ''Missing * separator in the qr data string'']\<rparr>,
    \<lparr>test_title = ''Should throw exception when there's a section with no ":"'',
     test_input = ''AB*C:D'',
     test_matchers = [ToThrowClass InvalidParamFormatException_cls, ToThrowMessage ''Not all sections of the qr data has 1 separator (:)'']\<rparr>,
    \<lparr>test_title = ''Should throw exception when there's a section with more than one ":"'',
     test_input = ''A:B*C:D:E'',
     test_matchers = [ToThrowClass InvalidParamFormatException_cls, ToThrowMessage ''Not all sections of the qr data has 1 separator (:)'']\<rparr>,
    \<lparr>test_title = ''Should throw exception when "A" parameter is missing'',
     test_input = ''B:999999990*C:PT*D:FS*E:N*F:20210420*G:FS12344567891234/123456*H:0*I1:PT*N:3.97*O:30.31*Q:zrVG*R:9999'',
     test_matchers = [ToThrowClass MissingRequiredParamException_cls, ToThrowMessage ''Missing the required params: A'']\<rparr>,
    \<lparr>test_title = ''Should throw exception when "B" parameter is missing'',
     test_input = ''A:123456789*C:PT*D:FS*E:N*F:20210420*G:FS12344567891234/123456*H:0*I1:PT*N:3.97*O:30.31*Q:zrVG*R:9999'',
     test_matchers = [ToThrowClass MissingRequiredParamException_cls, ToThrowMessage ''Missing the required params: B'']\<rparr>,
    \<lparr>test_title = ''Should throw exception when "C" parameter is missing'',
     test_input = ''A:123456789*B:999999990*D:FS*E:N*F:20210420*G:FS12344567891234/123456*H:0*I1:PT*N:3.97*O:30.31*Q:zrVG*R:9999'',
     test_matchers = [ToThrowClass MissingRequiredParamException_cls, ToThrowMessage ''Missing the required params: C'']\<rparr>,
    \<lparr>test_title = ''Should throw exception when "D" parameter is missing'',
     test_input = ''A:123456789*B:999999990*C:PT*E:N*F:20210420*G:FS12344567891234/123456*H:0*I1:PT*N:3.97*O:30.31*Q:zrVG*R:9999'',
     test_matchers = [ToThrowClass MissingRequiredParamException_cls, ToThrowMessage ''Missing the required params: D'']\<rparr>,
    \<lparr>test_title = ''Should throw exception when "E" parameter is missing'',
     test_input = ''A:123456789*B:999999990*C:PT*D:FS*F:20210420*G:FS12344567891234/123456*H:0*I1:PT*N:3.97*O:30.31*Q:zrVG*R:9999'',
     test_matchers = [ToThrowClass MissingRequiredParamException_cls, ToThrowMessage ''Missing the required params: E'']\<rparr>,
    \<lparr>test_title = ''Should throw exception when "F" parameter is missing'',
     test_input = ''A:123456789*B:999999990*C:PT*D:FS*E:N*G:FS12344567891234/123456*H:0*I1:PT*N:3.97*O:30.31*Q:zrVG*R:9999'',
     test_matchers = [ToThrowClass MissingRequiredParamException_cls, ToThrowMessage ''Missing the required params: F'']\<rparr>,
    \<lparr>test_title = ''Should throw exception when "G" parameter is missing'',
     test_input = ''A:123456789*B:999999990*C:PT*D:FS*E:N*F:20210420*H:0*I1:PT*N:3.97*O:30.31*Q:zrVG*R:9999'',
     test_matchers = [ToThrowClass MissingRequiredParamException_cls, ToThrowMessage ''Missing the required params: G'']\<rparr>,
    \<lparr>test_title = ''Should throw exception when "H" parameter is missing'',
     test_input = ''A:123456789*B:999999990*C:PT*D:FS*E:N*F:20210420*G:FS12344567891234/123456*I1:PT*N:3.97*O:30.31*Q:zrVG*R:9999'',
     test_matchers = [ToThrowClass MissingRequiredParamException_cls, ToThrowMessage ''Missing the required params: H'']\<rparr>,
    \<lparr>test_title = ''Should throw exception when "N" parameter is missing'',
     test_input = ''A:123456789*B:999999990*C:PT*D:FS*E:N*F:20210420*G:FS12344567891234/123456*H:0*I1:PT*O:30.31*Q:zrVG*R:9999'',
     test_matchers = [ToThrowClass MissingRequiredParamException_cls, ToThrowMessage ''Missing the required params: N'']\<rparr>,
    \<lparr>test_title = ''Should throw exception when "O" parameter is missing'',
     test_input = ''A:123456789*B:999999990*C:PT*D:FS*E:N*F:20210420*G:FS12344567891234/123456*H:0*I1:PT*N:3.97*Q:zrVG*R:9999'',
     test_matchers = [ToThrowClass MissingRequiredParamException_cls, ToThrowMessage ''Missing the required params: O'']\<rparr>,
    \<lparr>test_title = ''Should throw exception when "Q" parameter is missing'',
     test_input = ''A:123456789*B:999999990*C:PT*D:FS*E:N*F:20210420*G:FS12344567891234/123456*H:0*I1:PT*N:3.97*O:30.31*R:9999'',
     test_matchers = [ToThrowClass MissingRequiredParamException_cls, ToThrowMessage ''Missing the required params: Q'']\<rparr>,
    \<lparr>test_title = ''Should throw exception when "R" parameter is missing'',
     test_input = ''A:123456789*B:999999990*C:PT*D:FS*E:N*F:20210420*G:FS12344567891234/123456*H:0*I1:PT*N:3.97*O:30.31*Q:zrVG'',
     test_matchers = [ToThrowClass MissingRequiredParamException_cls, ToThrowMessage ''Missing the required params: R'']\<rparr>,
    \<lparr>test_title = ''Should throw exception when "A", "B", and "C" params are missing'',
     test_input = ''D:FS*E:N*F:20210420*G:FS12344567891234/123456*H:0*I1:PT*N:3.97*O:30.31*Q:zrVG*R:9999'',
     test_matchers = [ToThrowClass MissingRequiredParamException_cls, ToThrowMessage ''Missing the required params: A, B, C'']\<rparr>,
    \<lparr>test_title = ''Should throw exception when an invalid decimal is passed'',
     test_input = ''A:123456789*B:999999990*C:PT*D:FS*E:N*F:20210420*G:FS12344567891234/123456*H:0*I1:PT*N:3.a97*O:30.31*Q:zrVG*R:9999'',
     test_matchers = [ToThrowClass InvalidParamFormatException_cls, ToThrowMessage ''Expected decimal value'']\<rparr>,
    \<lparr>test_title = ''Should throw exception when the max length is exceeded for a param'',
     test_input = ''A:123456789121234*B:999999990*C:PT*D:FS*E:N*F:20210420*G:FS12344567891234/123456124124*H:0*I1:PT*N:3.97*O:30.31*Q:zrVG*R:9999'',
     test_matchers = [ToThrowClass InvalidParamLengthException_cls, ToThrowMessage ''Param A exceeds the max length of 9'']\<rparr>,
    \<lparr>test_title = ''Should process the qr data without problem when a valid string is passed'',
     test_input = ''A:123456789*B:999999990*C:PT*D:FS*E:N*F:20210420*G:FS12344567891234/123456*H:0*I1:PT*N:3.97*O:30.31*Q:zrVG*R:9999'',
     test_matchers = [NotToThrowClass PortugalQrCodeDataParserException_cls]\<rparr>]\<close>

subsection \<open>What the parser returns on the test inputs\<close>

lemma portugal_invoice_test_results:
  "parseData [] = Inl (NoQrCodeDataException ''No qr code data string passed to the parser'')"
  "parseData ''Abcd'' = Inl (InvalidParamFormatException ''Missing * separator in the qr data string'')"
  "parseData ''AB*C:D'' = Inl (InvalidParamFormatException ''Not all sections of the qr data has 1 separator (:)'')"
  "parseData ''A:B*C:D:E'' = Inl (InvalidParamFormatException ''Not all sections of the qr data has 1 separator (:)'')"
  "parseData ''B:999999990*C:PT*D:FS*E:N*F:20210420*G:FS12344567891234/123456*H:0*I1:PT*N:3.97*O:30.31*Q:zrVG*R:9999'' = Inl (MissingRequiredParamException ''Missing the required params: A'')"
  "parseData ''A:123456789*C:PT*D:FS*E:N*F:20210420*G:FS12344567891234/123456*H:0*I1:PT*N:3.97*O:30.31*Q:zrVG*R:9999'' = Inl (MissingRequiredParamException ''Missing the required params: B'')"
  "parseData ''A:123456789*B:999999990*D:FS*E:N*F:20210420*G:FS12344567891234/123456*H:0*I1:PT*N:3.97*O:30.31*Q:zrVG*R:9999'' = Inl (MissingRequiredParamException ''Missing the required params: C'')"
  "parseData ''A:123456789*B:999999990*C:PT*E:N*F:20210420*G:FS12344567891234/123456*H:0*I1:PT*N:3.97*O:30.31*Q:zrVG*R:9999'' = Inl (MissingRequiredParamException ''Missing the required params: D'')"
  "parseData ''A:123456789*B:999999990*C:PT*D:FS*F:20210420*G:FS12344567891234/123456*H:0*I1:PT*N:3.97*O:30.31*Q:zrVG*R:9999'' = Inl (MissingRequiredParamException ''Missing the required params: E'')"
  "parseData ''A:123456789*B:999999990*C:PT*D:FS*E:N*G:FS12344567891234/123456*H:0*I1:PT*N:3.97*O:30.31*Q:zrVG*R:9999'' = Inl (MissingRequiredParamException ''Missing the required params: F'')"
  "parseData ''A:123456789*B:999999990*C:PT*D:FS*E:N*F:20210420*H:0*I1:PT*N:3.97*O:30.31*Q:zrVG*R:9999'' = Inl (MissingRequiredParamException ''Missing the required params: G'')"
  "parseData ''A:123456789*B:999999990*C:PT*D:FS*E:N*F:20210420*G:FS12344567891234/123456*I1:PT*N:3.97*O:30.31*Q:zrVG*R:9999'' = Inl (MissingRequiredParamException ''Missing the required params: H'')"
  "parseData ''A:123456789*B:999999990*C:PT*D:FS*E:N*F:20210420*G:FS12344567891234/123456*H:0*I1:PT*O:30.31*Q:zrVG*R:9999'' = Inl (MissingRequiredParamException ''Missing the required params: N'')"
  "parseData ''A:123456789*B:999999990*C:PT*D:FS*E:N*F:20210420*G:FS12344567891234/123456*H:0*I1:PT*N:3.97*Q:zrVG*R:9999'' = Inl (MissingRequiredParamException ''Missing the required params: O'')"
  "parseData ''A:123456789*B:999999990*C:PT*D:FS*E:N*F:20210420*G:FS12344567891234/123456*H:0*I1:PT*N:3.97*O:30.31*R:9999'' = Inl (MissingRequiredParamException ''Missing the required params: Q'')"
  "parseData ''A:123456789*B:999999990*C:PT*D:FS*E:N*F:20210420*G:FS12344567891234/123456*H:0*I1:PT*N:3.97*O:30.31*Q:zrVG'' = Inl (MissingRequiredParamException ''Missing the required params: R'')"
  "parseData ''D:FS*E:N*F:20210420*G:FS12344567891234/123456*H:0*I1:PT*N:3.97*O:30.31*Q:zrVG*R:9999'' = Inl (MissingRequiredParamException ''Missing the required params: A, B, C'')"
  "parseData ''A:123456789*B:999999990*C:PT*D:FS*E:N*F:20210420*G:FS12344567891234/123456*H:0*I1:PT*N:3.a97*O:30.31*Q:zrVG*R:9999'' = Inl (InvalidParamFormatException ''Expected decimal value'')"
  "parseData ''A:123456789121234*B:999999990*C:PT*D:FS*E:N*F:20210420*G:FS12344567891234/123456124124*H:0*I1:PT*N:3.97*O:30.31*Q:zrVG*R:9999'' = Inl (InvalidParamLengthException ''Param A exceeds the max length of 9'')"
  "parseData ''A:123456789*B:999999990*C:PT*D:FS*E:N*F:20210420*G:FS12344567891234/123456*H:0*I1:PT*N:3.97*O:30.31*Q:zrVG*R:9999'' =
     Inr (createEmptyInvoice
       \<lparr>remitentNif := ''123456789'', clientNif := ''999999990'', clientCountry := ''PT'',
        documentType := ''FS'', documentStatus := ''N'', documentDate := ''20210420'',
        documentId := ''FS12344567891234/123456'', ATCUD := ''0'',
        totalTaxes := Num (397 / 100), totalDocumentWithTaxes := Num (3031 / 100),
        hash := ''zrVG'', certificateNumber := ''9999''\<rparr>)"
  by code_simp+

subsection \<open>The matchers on the parser\<close>

text \<open>Every test of \<^verbatim>\<open>src/test/portugal_invoice.test.ts\<close> passes against the
  model, whether the exception classes are native or compiled to ES5 and whichever branch of
  the prototype restoration runs: each failing input throws an instance of the expected class
  whose message contains the expected text, and the well-formed payload throws nothing.\<close>

lemma portugal_invoice_tests_pass: "list_all (test_passes mode hs) portugal_invoice_tests"
  by (simp add: portugal_invoice_tests_def test_passes_def call_parseData_def to_throw_def
                portugal_invoice_test_results proto_thrown_object message_thrown_object
                error_class_def error_message_def proto_self)

end
