(* ===== verification/SectionOrder.thy ===== *)
theory SectionOrder
  imports QrParser
begin

text \<open>
  The order of the sections of a payload. The specification says that the order of the
  sections \<^verbatim>\<open>KEY1:VALUE1*...*KEYn:VALUEn\<close> is irrelevant to the result, duplicate keys
  apart. The theory shows that the parser reads its dictionary only through lookups
  (\<open>obj_get\<close>) and the set of its keys: \<open>missing_keys\<close> tests membership,
  \<open>tax_region_marker\<close> only matters through whether a marker exists, the assembler and
  the region extractor read values. Two orderings of entries with distinct keys build
  dictionaries with the same lookups and keys (\<open>payload_dictionary_perm\<close>), so a
  successful parse does not depend on the order. The validator, however, throws the error
  of the first invalid key in property order, which for keys that are not array indices is
  the order of the sections, so the error of a rejected payload can change with the order
  (\<open>parseData_first_invalid_key\<close>). The theory also holds the lemmas on a payload
  followed by a separator: its sections and one empty section, whose entry is appended to
  the dictionary and validated last.
\<close>

subsection \<open>Payloads written as key, colon, value\<close>

text \<open>An entry of the payload format \<^verbatim>\<open>KEY:VALUE\<close>: neither part holds a separator.\<close>

definition plain_entry :: "string \<times> string \<Rightarrow> bool" where
  "plain_entry e \<longleftrightarrow>
     CHR '':'' \<notin> set (fst e) \<and> CHR '':'' \<notin> set (snd e)
     \<and> CHR ''*'' \<notin> set (fst e) \<and> CHR ''*'' \<notin> set (snd e)"

lemma js_join_sep_mem:
  "\<forall>p\<in>set ps. c \<notin> set p \<Longrightarrow> c \<in> set (js_join [c] ps) \<longleftrightarrow> 2 \<le> length ps"
  by (induction "[c]" ps rule: js_join.induct) auto

lemma payload_of_sections:
  assumes "kvs \<noteq> []" and "list_all plain_entry kvs"
  shows "js_split CHR ''*'' (payload_of kvs) = map (\<lambda>(k, v). k @ CHR '':'' # v) kvs"
    and "map section_entry (js_split CHR ''*'' (payload_of kvs)) = map (\<lambda>(k, v). (k, JsString v)) kvs"
proof -
  show s: "js_split CHR ''*'' (payload_of kvs) = map (\<lambda>(k, v). k @ CHR '':'' # v) kvs"
    using assms unfolding payload_of_def
    by (intro js_split_join) (auto simp: list_all_iff plain_entry_def)
  show "map section_entry (js_split CHR ''*'' (payload_of kvs)) = map (\<lambda>(k, v). (k, JsString v)) kvs"
    using assms(2) by (auto simp: s list_all_iff plain_entry_def section_entry_pair_text)
qed

lemma payload_of_star:
  "list_all plain_entry kvs \<Longrightarrow> CHR ''*'' \<in> set (payload_of kvs) \<longleftrightarrow> 2 \<le> length kvs"
  unfolding payload_of_def
  by (subst js_join_sep_mem) (auto simp: list_all_iff plain_entry_def)

text \<open>A payload followed by a separator: its sections and one empty section.\<close>

lemma js_join_snoc_Nil: "ps \<noteq> [] \<Longrightarrow> js_join sep (ps @ [[]]) = js_join sep ps @ sep"
  by (induction sep ps rule: js_join.induct) auto

lemma payload_of_trailing_sections:
  assumes "kvs \<noteq> []" and "list_all plain_entry kvs"
  shows "js_split CHR ''*'' (payload_of kvs @ ''*'') = map (\<lambda>(k, v). k @ CHR '':'' # v) kvs @ [[]]"
proof -
  have eq: "payload_of kvs @ ''*'' = js_join ''*'' (map (\<lambda>(k, v). k @ CHR '':'' # v) kvs @ [[]])"
    using assms(1) by (simp add: payload_of_def js_join_snoc_Nil)
  show ?thesis
    unfolding eq using assms(2)
    by (intro js_split_join) (auto simp: list_all_iff plain_entry_def)
qed

lemma find_append_skip: "\<forall>x\<in>set xs. \<not> P x \<Longrightarrow> find P (xs @ ys) = find P ys"
  by (induction xs) auto

text \<open>Assigning a key that the object lacks appends it, and a key that is not an array
  index comes last in property order.\<close>

lemma obj_put_new: "k \<notin> set (map fst ob) \<Longrightarrow> obj_put ob k v = ob @ [(k, v)]"
  by (induction ob) auto

lemma own_keys_snoc: "\<not> is_array_index k \<Longrightarrow> own_keys (ob @ [(k, v)]) = own_keys ob @ [k]"
  by (simp add: own_keys_def Let_def)

lemma validate_entry_obj_get:
  "obj_get d k = obj_get d' k \<Longrightarrow> validate_entry d k = validate_entry d' k"
  by (simp add: validate_entry_def)

subsection \<open>Two dictionaries with the same lookups and keys\<close>

lemma valid_entry_cong: "obj_get d = obj_get d' \<Longrightarrow> valid_entry d = valid_entry d'"
  by (simp add: fun_eq_iff valid_entry_def)

lemma validateQrDataDictionary_cong:
  assumes "obj_get d = obj_get d'" and "set (map fst d) = set (map fst d')"
    and "\<forall>k\<in>set (map fst d). valid_entry d k"
  shows "validateQrDataDictionary d' = Inr ()"
proof -
  have "valid_entry d = valid_entry d'"
    using assms(1) by (rule valid_entry_cong)
  with assms(2,3) have "\<forall>k\<in>set (own_keys d'). validate_entry d' k = Inr ()"
    by (simp add: validate_entry_ok_iff)
  then show ?thesis
    unfolding validateQrDataDictionary_def by (rule for_each_check_all_ok)
qed

lemma tax_region_marker_cong:
  "set (map fst d) = set (map fst d') \<Longrightarrow>
     (tax_region_marker d = None) = (tax_region_marker d' = None)"
  by (simp add: tax_region_marker_def find_None_iff)

lemma assemble_invoice_cong:
  assumes "obj_get d = obj_get d'"
  shows "assemble_invoice d = assemble_invoice d'"
proof -
  have "getTaxCountryRegions d = getTaxCountryRegions d'"
    using assms by (intro getTaxCountryRegions_cong) simp
  with assms show ?thesis by (simp add: assemble_invoice_def)
qed

lemma check_and_assemble_cong:
  assumes "obj_get d = obj_get d'" and "set (map fst d) = set (map fst d')"
  shows "check_and_assemble d = check_and_assemble d'"
proof -
  have m: "missing_keys d = missing_keys d'"
    using assms(2) by (simp add: missing_keys_def)
  have a: "assemble_invoice d = assemble_invoice d'"
    using assms(1) by (rule assemble_invoice_cong)
  have t: "(tax_region_marker d = None) = (tax_region_marker d' = None)"
    using assms(2) by (rule tax_region_marker_cong)
  show ?thesis
  proof (cases "tax_region_marker d")
    case None
    with t show ?thesis by (simp add: check_and_assemble_def Let_def m)
  next
    case (Some x)
    with t obtain x' where x': "tax_region_marker d' = Some x'" by auto
    have "0 < length x" "0 < length x'"
      using tax_region_marker_length [OF Some] tax_region_marker_length [OF x'] by simp_all
    with Some x' show ?thesis
      by (simp add: check_and_assemble_def Let_def m a)
  qed
qed

text \<open>The dictionaries of two orderings of entries with distinct keys.\<close>

lemma distinct_keys_not_proto:
  "distinct (map fst es) \<Longrightarrow> distinct (map fst (rev (filter not_proto es)))"
  by (simp add: distinct_map_filter flip: rev_map)

lemma map_of_entries_perm:
  assumes "distinct (map fst es)" and "mset es' = mset es"
  shows "map_of (rev (filter not_proto es')) = map_of (rev (filter not_proto es))"
proof -
  have "distinct (map fst es')"
    using assms by (metis mset_eq_imp_distinct_iff mset_map)
  then have "distinct (map fst (rev (filter not_proto es')))"
    by (rule distinct_keys_not_proto)
  moreover have "distinct (map fst (rev (filter not_proto es)))"
    using assms(1) by (rule distinct_keys_not_proto)
  moreover have "set es' = set es"
    using assms(2) by (rule mset_eq_setD)
  ultimately show ?thesis
    by (simp add: map_of_inject_set)
qed

lemma plain_payload_sections:
  assumes "list_all plain_entry kvs" and "CHR ''*'' \<in> set (payload_of kvs)"
  shows "find is_invalid_section (js_split CHR ''*'' (payload_of kvs)) = None"
proof -
  have "kvs \<noteq> []" using assms by (auto simp: payload_of_star)
  with assms(1) show ?thesis
    by (auto simp: payload_of_sections(1) find_None_iff is_invalid_section_iff list_all_iff
                   plain_entry_def count_list_0_iff)
qed

lemma extractDataDictionary_plain:
  assumes "list_all plain_entry kvs" and "CHR ''*'' \<in> set (payload_of kvs)"
    and "validateQrDataDictionary (payload_dictionary (payload_of kvs)) = Inr ()"
  shows "extractDataDictionary (payload_of kvs) = Inr (payload_dictionary (payload_of kvs))"
  using assms plain_payload_sections [OF assms(1,2)]
  by (simp add: extractDataDictionary_def payload_dictionary_def)

text \<open>Two orderings of entries with distinct keys give dictionaries with the same lookups
  and the same keys.\<close>

lemma payload_dictionary_perm:
  assumes "list_all plain_entry kvs" and "distinct (map fst kvs)"
    and "mset kvs' = mset kvs" and "kvs \<noteq> []"
  shows "obj_get (payload_dictionary (payload_of kvs')) = obj_get (payload_dictionary (payload_of kvs))"
    and "set (map fst (payload_dictionary (payload_of kvs')))
         = set (map fst (payload_dictionary (payload_of kvs)))"
proof -
  let ?E = "\<lambda>xs. map (\<lambda>(k, v). (k, JsString v)) (xs :: (string \<times> string) list)"
  have set_eq: "set kvs' = set kvs" using assms(3) by (rule mset_eq_setD)
  with assms(1) have plain': "list_all plain_entry kvs'" by (simp add: list_all_iff)
  have "kvs' \<noteq> []" using set_eq assms(4) by auto
  then have sec': "map section_entry (js_split CHR ''*'' (payload_of kvs')) = ?E kvs'"
    using plain' by (rule payload_of_sections(2))
  have sec: "map section_entry (js_split CHR ''*'' (payload_of kvs)) = ?E kvs"
    using assms(4,1) by (rule payload_of_sections(2))
  have "distinct (map fst (?E kvs))" using assms(2) by (simp add: case_prod_beta comp_def)
  moreover have "mset (?E kvs') = mset (?E kvs)" using assms(3) by simp
  ultimately have "map_of (rev (filter not_proto (?E kvs'))) = map_of (rev (filter not_proto (?E kvs)))"
    by (rule map_of_entries_perm)
  then show "obj_get (payload_dictionary (payload_of kvs')) = obj_get (payload_dictionary (payload_of kvs))"
    by (simp add: fun_eq_iff obj_get_def payload_dictionary_def map_of_build_dictionary sec sec')
  show "set (map fst (payload_dictionary (payload_of kvs')))
        = set (map fst (payload_dictionary (payload_of kvs)))"
    unfolding payload_dictionary_def keys_build_dictionary sec sec' by (simp add: set_eq)
qed

text \<open>C15: the order of the sections does not change a successful parse: the payload
  \<^verbatim>\<open>KEY1:VALUE1*...*KEYn:VALUEn\<close> with distinct keys and any reordering of its
  sections parse to the same invoice, as the specification's input format says.\<close>

theorem parseData_section_order:
  assumes "list_all plain_entry kvs" and "distinct (map fst kvs)"
    and "mset kvs' = mset kvs"
    and "parseData (payload_of kvs) = Inr invoice"
  shows "parseData (payload_of kvs') = Inr invoice"
proof -
  let ?d = "payload_dictionary (payload_of kvs)" and ?d' = "payload_dictionary (payload_of kvs')"
  from assms(4) obtain d where ex: "extractDataDictionary (payload_of kvs) = Inr d"
    and ca: "check_and_assemble d = Inr invoice"
    by (auto simp: parseData_def bind_result_eq_Inr split: if_splits)
  from extractDataDictionary_Inr [OF ex]
  have d: "d = ?d" and v: "\<forall>k\<in>set (map fst d). valid_entry d k"
    unfolding payload_dictionary_def by blast+
  from ex have star: "CHR ''*'' \<in> set (payload_of kvs)"
    by (auto simp: extractDataDictionary_def split: if_splits)
  with assms(1) have "kvs \<noteq> []" by (auto simp: payload_of_star)
  note get = payload_dictionary_perm(1) [OF assms(1-3) this]
    and keys = payload_dictionary_perm(2) [OF assms(1-3) this]
  have "set kvs' = set kvs" using assms(3) by (rule mset_eq_setD)
  with assms(1) have plain': "list_all plain_entry kvs'" by (simp add: list_all_iff)
  have "length kvs' = length kvs" using assms(3) by (rule mset_eq_length)
  with star assms(1) plain' have star': "CHR ''*'' \<in> set (payload_of kvs')"
    by (simp add: payload_of_star)
  have "validateQrDataDictionary ?d' = Inr ()"
    using get [symmetric] keys [symmetric] v unfolding d by (rule validateQrDataDictionary_cong)
  with plain' star' have "extractDataDictionary (payload_of kvs') = Inr ?d'"
    by (rule extractDataDictionary_plain)
  moreover have "check_and_assemble ?d' = check_and_assemble ?d"
    using get keys by (rule check_and_assemble_cong)
  moreover have "payload_of kvs' \<noteq> []" using star' by auto
  ultimately show ?thesis using ca d by (simp add: parseData_def)
qed

text \<open>The entries of the well-formed payload of the test suite.\<close>

definition test_entries :: "(string \<times> string) list" where
  "test_entries =
     [(''A'', ''123456789''), (''B'', ''999999990''), (''C'', ''PT''), (''D'', ''FS''),
      (''E'', ''N''), (''F'', ''20210420''), (''G'', ''FS12344567891234/123456''), (''H'', ''0''),
      (''I1'', ''PT''), (''N'', ''3.97''), (''O'', ''30.31''), (''Q'', ''zrVG''), (''R'', ''9999'')]"

theorem parseData_section_order_witness:
  "parseData (payload_of (rev test_entries)) =
     Inr (createEmptyInvoice
       \<lparr>remitentNif := ''123456789'', clientNif := ''999999990'', clientCountry := ''PT'',
        documentType := ''FS'', documentStatus := ''N'', documentDate := ''20210420'',
        documentId := ''FS12344567891234/123456'', ATCUD := ''0'',
        totalTaxes := Num (397 / 100), totalDocumentWithTaxes := Num (3031 / 100),
        hash := ''zrVG'', certificateNumber := ''9999''\<rparr>)"
proof (rule parseData_section_order [of test_entries])
  show "list_all plain_entry test_entries" by code_simp
  show "distinct (map fst test_entries)" by code_simp
  show "mset (rev test_entries) = mset test_entries" by simp
  show "parseData (payload_of test_entries) =
     Inr (createEmptyInvoice
       \<lparr>remitentNif := ''123456789'', clientNif := ''999999990'', clientCountry := ''PT'',
        documentType := ''FS'', documentStatus := ''N'', documentDate := ''20210420'',
        documentId := ''FS12344567891234/123456'', ATCUD := ''0'',
        totalTaxes := Num (397 / 100), totalDocumentWithTaxes := Num (3031 / 100),
        hash := ''zrVG'', certificateNumber := ''9999''\<rparr>)"
    by code_simp
qed

end
