(* ===== verification/Spec2Isabelle.thy ===== *)
theory Spec2Isabelle
  imports QrParser Exceptions Dist TestSuite SectionOrder
begin

text \<open>
  A verification development of \<^verbatim>\<open>ts-ptinvoice\<close>, the parser that turns the text of a
  Portuguese invoice QR code into an \<^verbatim>\<open>IPortugalInvoice\<close> record
  (\<^verbatim>\<open>src/src/index.ts\<close>, class \<^verbatim>\<open>PortugalQrCodeDataParser\<close>, which the tests import
  as \<^verbatim>\<open>PortugalInvoiceQrParser\<close>). The program is one synchronous call,
  \<^verbatim>\<open>parseData\<close>, which rejects an empty argument, tokenizes it with
  \<^verbatim>\<open>extractDataDictionary\<close> (split on \<^verbatim>\<open>*\<close> then \<^verbatim>\<open>:\<close>, store into a plain
  object, then \<^verbatim>\<open>validateQrDataDictionary\<close>), checks the required codes and the region
  marker, and assembles the invoice, calling \<^verbatim>\<open>getTaxCountryRegions\<close>,
  \<^verbatim>\<open>getTaxCountryRegionDetails\<close> and \<^verbatim>\<open>tryToParseDecimal\<close>. Every \<^verbatim>\<open>throw\<close> is
  a left value of \<open>parser_error + 'a\<close>, and the object thrown is built by the exception
  classes. The package ships the compiled \<^verbatim>\<open>src/dist/\<close>, modelled beside the source.

  \<^bold>\<open>Theories.\<close>
  \<^item> \<open>Prelude\<close>: \<open>bind_result\<close> (sequencing of throwing steps), \<open>for_each_check\<close> (a
    \<^verbatim>\<open>for\<close> loop whose body may throw), \<open>fold_result\<close> (a loop threading a state),
    with their lemmas, among them that a property every step keeps holds of the result.
  \<^item> \<open>JsString\<close>, \<open>JsNumber\<close>, \<open>JsObject\<close>: the parts of the JavaScript runtime that
    the parser relies on: \<^verbatim>\<open>split\<close>, \<^verbatim>\<open>join\<close>, \<^verbatim>\<open>startsWith\<close>,
    \<^verbatim>\<open>match(/\d+/)\<close>, number printing; \<^verbatim>\<open>Number(string)\<close> after ECMAScript's
    StringToNumber (\<open>string_to_number\<close>); a plain object as an association list with
    the assignment, lookup, \<^verbatim>\<open>__proto__\<close> and property-order rules
    (\<open>obj_set\<close>, \<open>obj_get\<close>, \<open>own_keys\<close>), and \<^verbatim>\<open>for ... in\<close> over an array
    (\<open>for_in_array_keys\<close>).
  \<^item> \<open>InvoiceModel\<close>: the errors (\<open>parser_error\<close>, one constructor per exception class
    and one for the engine's \<open>TypeError\<close>), the two interfaces as records, the factories.
  \<^item> \<open>Exceptions\<close>: the classes of
    \<^verbatim>\<open>src/src/exceptions/portugal_qrcode_data_parser.exception.ts\<close>, \<^verbatim>\<open>instanceof\<close>
    as an inductive relation over the \<^verbatim>\<open>extends\<close> chain, and the constructor that calls
    \<^verbatim>\<open>super(message)\<close> and restores the prototype, on both of its branches and for a
    native or an ES5 build (\<open>construct_exception\<close>, \<open>thrown_object\<close>).
  \<^item> \<open>Validator\<close>: \<^verbatim>\<open>requiredElements\<close>, the two length tables, and
    \<^verbatim>\<open>validateQrDataDictionary\<close> (lines 187--215) as \<open>validate_entry\<close> over
    \<open>own_keys\<close>; \<open>valid_entry\<close> is the executable contract of one entry.
  \<^item> \<open>Tokenizer\<close>: \<^verbatim>\<open>extractDataDictionary\<close> (lines 160--181):
    \<open>section_entry\<close>, \<open>store_section\<close>, \<open>build_dictionary\<close>, \<open>is_invalid_section\<close>.
  \<^item> \<open>Regions\<close>: \<^verbatim>\<open>getTaxCountryRegions\<close> (a fold over the keys the \<^verbatim>\<open>for ... in\<close>
    binds) and \<^verbatim>\<open>getTaxCountryRegionDetails\<close>, whose counter loop
    \<^verbatim>\<open>for (let i = 2; i <= 8; i++)\<close> is \<open>region_detail_loop\<close>, a \<^theory_text>\<open>function\<close>
    with the measure \<open>9 - i\<close>; the contract \<open>region_details_spec\<close> of the specification's
    positional mapping.
  \<^item> \<open>QrParser\<close>: \<^verbatim>\<open>tryToParseDecimal\<close>, the required-field and marker checks
    (\<open>missing_keys\<close>, \<open>tax_region_marker\<close>, \<open>check_and_assemble\<close>), the assembler
    (\<open>assemble_invoice\<close>, statements in code order) and \<open>parseData\<close>; the lemmas on
    each branch, on a successful parse and on the progress of the assembler.
  \<^item> \<open>Dist\<close>: every method and table of \<^verbatim>\<open>src/dist/index.js\<close> and the exception
    constructor and class declarations of the compiled exceptions module, modelled from the
    JavaScript, with the proof that they compute the source's functions and hierarchy.
  \<^item> \<open>TestSuite\<close>: \<^verbatim>\<open>src/test/portugal_invoice.test.ts\<close> as a list of
    \<open>jest_test\<close> records (title, payload, matchers), the closure that \<^verbatim>\<open>expect\<close>
    runs (\<open>call_parseData\<close>, the thrown object or nothing) and the semantics of Jest's
    \<^verbatim>\<open>toThrow(Class)\<close>, \<^verbatim>\<open>toThrow(text)\<close> and \<^verbatim>\<open>not.toThrow(Class)\<close>
    (\<open>to_throw\<close>): \<^verbatim>\<open>instanceof\<close> over the prototype chain, substring of the message.
  \<^item> \<open>SectionOrder\<close>: that the parser reads its dictionary only through lookups and
    its key set (congruence lemmas for the validator, the marker check and the assembler),
    and that two orderings of entries with distinct keys build such equal dictionaries.
  \<^item> this theory: payloads of the tests and the properties of \<open>parseData\<close>.

  \<^bold>\<open>What is proved.\<close> The errors of \<open>parseData\<close> on each branch (missing separator,
  bad section, empty section, a trailing separator after any payload that passes the
  validator, missing codes, no region marker, first invalid key in property order,
  non-numeric field) and the two documented exceptions that are never thrown; the values of
  every field of a successful parse (string fields, length bounds, optional fields,
  regions) and that it holds no NaN (an invariant of the assembler's state, kept by each
  step of the loops); that every well-formed payload is parsed (progress); that reordering
  the sections of a payload with distinct keys keeps a successful parse; the tokenizer's
  dictionary as the last-wins reading of the sections, its key invariant and the
  encode/tokenize round trip; the validator's acceptance as a contract and its first error;
  the extractor against its contract and its first error; that the decimal coercion
  accepts the specification's decimal text, and what \<^verbatim>\<open>Number\<close> makes of hexadecimal
  and blank text; \<^verbatim>\<open>instanceof\<close> of every thrown object. Lemmas that are not among the
  properties show that the shipped \<^verbatim>\<open>dist/\<close> code computes the source's functions
  (\<open>Dist.dist_module_eq\<close>) and that the twenty tests of the test suite pass against the
  model (\<open>TestSuite.portugal_invoice_tests_pass\<close>).

  \<^bold>\<open>Loops and fuel.\<close> The \<^verbatim>\<open>for ... of\<close> and \<^verbatim>\<open>for ... in\<close> loops run over finite
  lists and are folds; the counter loop is a \<^theory_text>\<open>function\<close> whose termination is
  proved with the measure \<open>9 - i\<close>, and any function with its unfolding equation is the
  fold over 2..8 (\<open>counter_loop_fold\<close>). No definition needs fuel.

  \<^bold>\<open>Findings\<close> shown by the theorems: \<^verbatim>\<open>for (let region in possibleRegions)\<close>
  binds the indices, so no region is read from \<^verbatim>\<open>I\<close>, \<^verbatim>\<open>J\<close>, \<^verbatim>\<open>K\<close> blocks,
  keys \<^verbatim>\<open>01\<close>..\<^verbatim>\<open>28\<close> create regions, and a region code is not length-bounded; a
  payload without a marker throws a \<open>TypeError\<close>, which the \<^verbatim>\<open>@throws\<close> comment does
  not declare; an empty section (a trailing \<^verbatim>\<open>*\<close> included) escapes the format check;
  numeric fields accept blank and hexadecimal text; region keys such as \<^verbatim>\<open>IX3\<close> pass;
  the order of the sections, which the specification calls irrelevant, decides which
  validation error is thrown.

  \<^bold>\<open>Not modelled.\<close> The rounding of a numeric literal to a double: the model keeps its
  exact rational value, with no overflow to \<^verbatim>\<open>Infinity\<close> and no \<^verbatim>\<open>-0\<close>. The parser
  stores numbers and never computes with them, and rounding never produces NaN, so every
  error path and every NaN test is exact; the properties that state a value do so for text
  whose value is a double (blank text is 0, a hexadecimal literal below \<open>2^53\<close>).
  Strings are lists of 8-bit characters: UTF-16 code units above 255 are outside the model,
  and so are characters outside Latin-1 in \<^verbatim>\<open>Number\<close>'s white space. The V8 wording of
  the \<open>TypeError\<close> message is fixed to one string. The module headers (\<^verbatim>\<open>require\<close>,
  \<^verbatim>\<open>exports\<close>) of the compiled files, the \<^verbatim>\<open>.d.ts\<close> declarations, the JSDoc
  comments and the \<^verbatim>\<open>import\<close> lines hold no code. Jest itself is modelled only by the
  three matchers the tests call, after its documentation.
\<close>

subsection \<open>Inputs of the repository's tests\<close>

text \<open>The well-formed payload of \<^verbatim>\<open>src/test/portugal_invoice.test.ts\<close> line 223,
  which is also the end-to-end example of the specification.\<close>

definition validQrData :: string where
  "validQrData =
     ''A:123456789*B:999999990*C:PT*D:FS*E:N*F:20210420*G:FS12344567891234/123456*H:0*I1:PT*N:3.97*O:30.31*Q:zrVG*R:9999''"

text \<open>The payload of the test \<^verbatim>\<open>A, B and C missing\<close> (test file line 186).\<close>

definition missingABC :: string where
  "missingABC =
     ''D:FS*E:N*F:20210420*G:FS12344567891234/123456*H:0*I1:PT*N:3.97*O:30.31*Q:zrVG*R:9999''"

text \<open>The well-formed payload without a region marker.\<close>

definition noMarkerQrData :: string where
  "noMarkerQrData =
     ''A:123456789*B:999999990*C:PT*D:FS*E:N*F:20210420*G:FS12344567891234/123456*H:0*N:3.97*O:30.31*Q:zrVG*R:9999''"

text \<open>The invoice that the specification's end-to-end example describes, with the region
  list that the code actually produces: empty.\<close>

definition validInvoice :: IPortugalInvoice where
  "validInvoice = createEmptyInvoice
     \<lparr>remitentNif := ''123456789'', clientNif := ''999999990'', clientCountry := ''PT'',
      documentType := ''FS'', documentStatus := ''N'', documentDate := ''20210420'',
      documentId := ''FS12344567891234/123456'', ATCUD := ''0'',
      totalTaxes := Num (397 / 100), totalDocumentWithTaxes := Num (3031 / 100),
      hash := ''zrVG'', certificateNumber := ''9999''\<rparr>"

text \<open>A well-formed payload with a repeated \<^verbatim>\<open>A\<close> (the last value wins),
  optional fields \<^verbatim>\<open>L\<close>, \<^verbatim>\<open>P\<close>, \<^verbatim>\<open>S\<close>, and the keys \<^verbatim>\<open>01\<close>..\<^verbatim>\<open>03\<close>
  that the region extractor actually reads, with the invoice it parses to.\<close>

definition fullQrData :: string where
  "fullQrData = ''A:111111111*B:999999990*C:PT*D:FS*E:N*F:20210420*G:FS 1/2*H:ATCUD-1*I1:PT*01:PT*02:10.5*03:0x10*N:3.97*O:30.31*L:1.5*P:2*S:note*Q:zrVG*R:9999*A:123456789''"

definition fullInvoice :: IPortugalInvoice where
  "fullInvoice = createEmptyInvoice
     \<lparr>remitentNif := ''123456789'', clientNif := ''999999990'', clientCountry := ''PT'',
      documentType := ''FS'', documentStatus := ''N'', documentDate := ''20210420'',
      documentId := ''FS 1/2'', ATCUD := ''ATCUD-1'',
      taxCountryRegions := [createEmptyTaxCountryRegion
        \<lparr>taxCountryRegion := Some ''PT'', taxableBaseExemptOfVAT := Some (Num (21 / 2)),
         taxableBaseOfVATAtReducedRate := Some (Num 16)\<rparr>],
      notTaxableInVAT := Some (Num (3 / 2)),
      totalTaxes := Num (397 / 100), totalDocumentWithTaxes := Num (3031 / 100),
      withholdingTaxes := Num 2, hash := ''zrVG'', certificateNumber := ''9999'',
      otherInformation := Some ''note''\<rparr>"

text \<open>The payload of the test \<^verbatim>\<open>max length is exceeded\<close> (test file line 210).\<close>

definition exceedsQrData :: string where
  "exceedsQrData = ''A:123456789121234*B:999999990*C:PT*D:FS*E:N*F:20210420*G:FS12344567891234/123456124124*H:0*I1:PT*N:3.97*O:30.31*Q:zrVG*R:9999''"

section \<open>Properties of the parser\<close>

subsection \<open>Tokenizer errors\<close>

text \<open>C1: a non-empty payload without the \<^verbatim>\<open>*\<close> separator is rejected with the
  format error \<^verbatim>\<open>Missing * separator\<close>.\<close>

theorem parseData_missing_separator:
  "qrData \<noteq> [] \<Longrightarrow> CHR ''*'' \<notin> set qrData \<Longrightarrow>
     parseData qrData = Inl (InvalidParamFormatException ''Missing * separator in the qr data string'')"
  by (simp add: parseData_def extractDataDictionary_def)

theorem parseData_missing_separator_witness:
  "''Abcd'' \<noteq> [] \<and> CHR ''*'' \<notin> set ''Abcd''
   \<and> parseData ''Abcd'' = Inl (InvalidParamFormatException ''Missing * separator in the qr data string'')"
  using parseData_missing_separator [of "''Abcd''"] by simp

text \<open>C2: when the first section that does not contain exactly one colon is non-empty,
  the payload is rejected with the format error \<^verbatim>\<open>Not all sections ...\<close>.\<close>

theorem parseData_invalid_section:
  assumes "CHR ''*'' \<in> set qrData"
    and "js_split CHR ''*'' qrData = pre @ sec # post"
    and "\<forall>p\<in>set pre. count_list p CHR '':'' = 1"
    and "count_list sec CHR '':'' \<noteq> 1" and "sec \<noteq> []"
  shows "parseData qrData =
           Inl (InvalidParamFormatException ''Not all sections of the qr data has 1 separator (:)'')"
proof -
  from assms(2-4) have "find is_invalid_section (js_split CHR ''*'' qrData) = Some sec"
    by (rule first_invalid_section)
  with assms(1,5) show ?thesis
    by (auto simp: parseData_def extractDataDictionary_def js_truthy_def)
qed

theorem parseData_invalid_section_witness:
  "CHR ''*'' \<in> set ''A:B*C:D:E'' \<and> js_split CHR ''*'' ''A:B*C:D:E'' = [''A:B''] @ ''C:D:E'' # []
   \<and> count_list ''A:B'' CHR '':'' = 1 \<and> count_list ''C:D:E'' CHR '':'' \<noteq> 1
   \<and> ''C:D:E'' \<noteq> []
   \<and> parseData ''A:B*C:D:E'' =
       Inl (InvalidParamFormatException ''Not all sections of the qr data has 1 separator (:)'')"
  using parseData_invalid_section [of "''A:B*C:D:E''" "[''A:B'']" "''C:D:E''" "[]"] by simp

text \<open>C3: when the first section without exactly one colon is empty (two adjacent
  separators, or a separator at either end), the format error is not thrown, although the
  specification requires it for every such section: \<^verbatim>\<open>find\<close> returns the empty
  string, which is falsy, and parsing goes on.\<close>

theorem parseData_empty_section:
  assumes "CHR ''*'' \<in> set qrData"
    and "js_split CHR ''*'' qrData = pre @ [] # post"
    and "\<forall>p\<in>set pre. count_list p CHR '':'' = 1"
  shows "parseData qrData \<noteq>
           Inl (InvalidParamFormatException ''Not all sections of the qr data has 1 separator (:)'')"
proof -
  from assms(2,3) have "find is_invalid_section (js_split CHR ''*'' qrData) = Some []"
    by (rule first_invalid_section) simp
  with assms(1) have "extractDataDictionary qrData =
      bind_result (validateQrDataDictionary (build_dictionary (js_split CHR ''*'' qrData)))
        (\<lambda>_. Inr (build_dictionary (js_split CHR ''*'' qrData)))"
    by (simp add: extractDataDictionary_def js_truthy_def Let_def)
  then show ?thesis
    using assms(1)
    by (auto simp: parseData_def bind_result_def check_and_assemble_def Let_def validation_error_def
                   type_error_length_def detail_error_def
             split: sum.splits if_splits option.splits
             dest!: validateQrDataDictionary_Inl assemble_invoice_Inl)
qed

theorem parseData_empty_section_witness:
  "CHR ''*'' \<in> set ''A:1**B:2:3'' \<and> js_split CHR ''*'' ''A:1**B:2:3'' = [''A:1''] @ [] # [''B:2:3'']
   \<and> count_list ''A:1'' CHR '':'' = 1
   \<and> parseData ''A:1**B:2:3'' \<noteq>
       Inl (InvalidParamFormatException ''Not all sections of the qr data has 1 separator (:)'')"
  using parseData_empty_section [of "''A:1**B:2:3''" "[''A:1'']" "[''B:2:3'']"] by simp

text \<open>C4: every payload \<^verbatim>\<open>KEY1:VALUE1*...*KEYn:VALUEn\<close> that passes the validator
  (and has no empty key) makes the parser throw a \<open>TypeError\<close> once a separator is
  appended: the last section is empty, escapes the format check because it is falsy, is
  stored as the empty key with the value \<^verbatim>\<open>undefined\<close> (there is no colon), and comes
  last in property order, where the validator reads its \<^verbatim>\<open>length\<close>.\<close>

theorem parseData_trailing_separator:
  assumes "list_all plain_entry kvs" and "kvs \<noteq> []" and "[] \<notin> set (map fst kvs)"
    and "validateQrDataDictionary (payload_dictionary (payload_of kvs)) = Inr ()"
  shows "parseData (payload_of kvs @ ''*'') = Inl type_error_length"
proof -
  let ?secs = "map (\<lambda>(k, v). k @ CHR '':'' # v) kvs"
  let ?d = "payload_dictionary (payload_of kvs)"
  let ?d' = "?d @ [([], JsUndefined)]"
  have secs: "js_split CHR ''*'' (payload_of kvs) = ?secs"
    using assms(2,1) by (rule payload_of_sections(1))
  have split: "js_split CHR ''*'' (payload_of kvs @ ''*'') = ?secs @ [[]]"
    using assms(2,1) by (rule payload_of_trailing_sections)
  have "\<forall>x\<in>set ?secs. \<not> is_invalid_section x"
    using assms(1) by (auto simp: list_all_iff plain_entry_def is_invalid_section_iff count_list_0_iff)
  then have find: "find is_invalid_section (?secs @ [[]]) = Some []"
    by (simp add: find_append_skip is_invalid_section_def)
  have entry: "section_entry [] = ([], JsUndefined)"
    by (simp add: section_entry_def)
  have "set (map fst ?d) = set (map fst (filter not_proto (map section_entry (js_split CHR ''*'' (payload_of kvs)))))"
    by (simp only: payload_dictionary_def keys_build_dictionary)
  also have "\<dots> = set (map fst (filter not_proto (map (\<lambda>(k, v). (k, JsString v)) kvs)))"
    by (simp only: payload_of_sections(2) [OF assms(2,1)])
  finally have "[] \<notin> set (map fst ?d)"
    using assms(3) by (force simp: image_iff)
  then have dict: "build_dictionary (?secs @ [[]]) = ?d'"
    by (simp add: build_dictionary_def store_section_def entry obj_set_def obj_put_new
                  payload_dictionary_def secs [symmetric])
  have "\<forall>k\<in>set (own_keys ?d). validate_entry ?d k = Inr ()"
    using assms(4) by (simp add: validateQrDataDictionary_def)
  moreover have "validate_entry ?d' k = validate_entry ?d k" if "k \<in> set (own_keys ?d)" for k
  proof -
    from that have "k \<in> set (map fst ?d)" by (simp only: set_own_keys)
    with \<open>[] \<notin> set (map fst ?d)\<close> have "k \<noteq> []" by blast
    then show ?thesis
      by (intro validate_entry_obj_get) (simp add: obj_get_def map_of_append map_add_def split: option.split)
  qed
  ultimately have pre: "for_each_check (validate_entry ?d') (own_keys ?d) = Inr ()" by simp
  have "map_of ?d [] = None"
    using \<open>[] \<notin> set (map fst ?d)\<close> by (simp add: map_of_eq_None_iff)
  then have last: "validate_entry ?d' [] = Inl type_error_length"
    by (simp add: validate_entry_def entry_max_length_def is_region_key_def starts_with_def
                  obj_get_def map_of_append map_add_def maxElementLength_def check_length_def)
  have idx: "\<not> is_array_index []" by (simp add: is_array_index_def)
  have "validateQrDataDictionary ?d' =
               bind_result (for_each_check (validate_entry ?d') (own_keys ?d))
                 (\<lambda>_. for_each_check (validate_entry ?d') [[]])"
    by (simp only: validateQrDataDictionary_def own_keys_snoc [OF idx] for_each_check_append)
  then have "validateQrDataDictionary ?d' = Inl type_error_length"
    by (simp only: pre) (simp add: last)
  then show ?thesis
    by (simp add: parseData_def extractDataDictionary_def split find dict js_truthy_def)
qed

theorem parseData_trailing_separator_witness:
  "parseData (payload_of test_entries @ ''*'') = Inl type_error_length"
proof (rule parseData_trailing_separator)
  show "list_all plain_entry test_entries" by code_simp
  show "test_entries \<noteq> []" by (simp add: test_entries_def)
  show "[] \<notin> set (map fst test_entries)" by (simp add: test_entries_def)
  show "validateQrDataDictionary (payload_dictionary (payload_of test_entries)) = Inr ()"
    by code_simp
qed

subsection \<open>Required fields and the region marker\<close>

text \<open>C5: after a successful tokenization, the missing required codes are exactly those of
  the schema list that no section names, in schema order, and the error message joins them
  with a comma and a space.\<close>

theorem parseData_missing_params:
  assumes "extractDataDictionary qrData = Inr d"
    and "missing = filter (\<lambda>k. k \<notin> section_keys qrData) requiredElements"
    and "missing \<noteq> []"
  shows "parseData qrData =
           Inl (MissingRequiredParamException (''Missing the required params: '' @ js_join '', '' missing))"
proof -
  have "missing_keys d = missing"
    unfolding missing_keys_def assms(2)
  proof (rule filter_cong [OF refl])
    fix k
    assume "k \<in> set requiredElements"
    then show "(k \<notin> set (own_keys d)) = (k \<notin> section_keys qrData)"
      using keys_extracted [OF assms(1) required_not_proto] by simp
  qed
  moreover from assms(1) have "qrData \<noteq> []"
    by (auto simp: extractDataDictionary_def)
  ultimately show ?thesis
    using assms(1,3) by (simp add: parseData_def check_and_assemble_def)
qed

theorem parseData_missing_params_witness:
  "extractDataDictionary missingABC = Inr (build_dictionary (js_split CHR ''*'' missingABC))
   \<and> [''A'', ''B'', ''C''] = filter (\<lambda>k. k \<notin> section_keys missingABC) requiredElements
   \<and> [''A'', ''B'', ''C''] \<noteq> []
   \<and> parseData missingABC = Inl (MissingRequiredParamException ''Missing the required params: A, B, C'')"
proof -
  have e: "extractDataDictionary missingABC = Inr (build_dictionary (js_split CHR ''*'' missingABC))"
    by code_simp
  have m: "[''A'', ''B'', ''C''] = filter (\<lambda>k. k \<notin> section_keys missingABC) requiredElements"
    by code_simp
  have n: "[''A'', ''B'', ''C''] \<noteq> []" by simp
  have "parseData missingABC =
          Inl (MissingRequiredParamException
                 (''Missing the required params: '' @ js_join '', '' [''A'', ''B'', ''C'']))"
    by (rule parseData_missing_params [OF e m n])
  then have p: "parseData missingABC =
                  Inl (MissingRequiredParamException ''Missing the required params: A, B, C'')"
    by simp
  from e m n p show ?thesis by blast
qed


text \<open>C6: with every required field present but none of \<^verbatim>\<open>I1\<close>, \<^verbatim>\<open>J1\<close>,
  \<^verbatim>\<open>K1\<close>, the parser throws a \<open>TypeError\<close> (reading \<^verbatim>\<open>length\<close> of the
  \<^verbatim>\<open>undefined\<close> that \<^verbatim>\<open>find\<close> returns), not the documented
  \<open>NoTaxCountryRegionException\<close>.\<close>

theorem parseData_no_region_marker:
  assumes "extractDataDictionary qrData = Inr d"
    and "\<forall>k\<in>set requiredElements. k \<in> section_keys qrData"
    and "''I1'' \<notin> section_keys qrData" and "''J1'' \<notin> section_keys qrData"
    and "''K1'' \<notin> section_keys qrData"
  shows "parseData qrData = Inl type_error_length"
proof -
  have "missing_keys d = []"
    using assms(2) keys_extracted [OF assms(1) required_not_proto]
    by (simp add: missing_keys_def filter_empty_conv)
  moreover have "tax_region_marker d = None"
  proof -
    have "''I1'' \<notin> set (own_keys d)" "''J1'' \<notin> set (own_keys d)" "''K1'' \<notin> set (own_keys d)"
      using assms(3-5) keys_extracted [OF assms(1)] by simp_all
    then show ?thesis by (force simp: tax_region_marker_def find_None_iff)
  qed
  moreover from assms(1) have "qrData \<noteq> []"
    by (auto simp: extractDataDictionary_def)
  ultimately show ?thesis
    using assms(1) by (simp add: parseData_def check_and_assemble_def)
qed

theorem parseData_no_region_marker_witness:
  "extractDataDictionary noMarkerQrData = Inr (build_dictionary (js_split CHR ''*'' noMarkerQrData))
   \<and> set requiredElements \<subseteq> section_keys noMarkerQrData
   \<and> ''I1'' \<notin> section_keys noMarkerQrData \<and> ''J1'' \<notin> section_keys noMarkerQrData
   \<and> ''K1'' \<notin> section_keys noMarkerQrData
   \<and> parseData noMarkerQrData = Inl type_error_length"
proof -
  have e: "extractDataDictionary noMarkerQrData = Inr (build_dictionary (js_split CHR ''*'' noMarkerQrData))"
    by code_simp
  have r: "set requiredElements \<subseteq> section_keys noMarkerQrData" by code_simp
  have i: "''I1'' \<notin> section_keys noMarkerQrData" and j: "''J1'' \<notin> section_keys noMarkerQrData"
    and k: "''K1'' \<notin> section_keys noMarkerQrData" by code_simp+
  from r have r': "\<forall>k\<in>set requiredElements. k \<in> section_keys noMarkerQrData" by blast
  from e r i j k parseData_no_region_marker [OF e r' i j k] show ?thesis by blast
qed

text \<open>C7: two of the six documented exceptions are never thrown: \<open>NoTaxCountryRegionException\<close>
  (the marker test cannot fail once \<^verbatim>\<open>find\<close> has found a marker) and
  \<open>InvalidTaxCountryRegionElement\<close> (the \<^verbatim>\<open>switch\<close> only sees indices 2 to 8).\<close>

theorem parseData_unreachable_exceptions:
  "parseData qrData \<noteq> Inl (NoTaxCountryRegionException m)
   \<and> parseData qrData \<noteq> Inl (InvalidTaxCountryRegionElement m')"
  by (auto simp: parseData_def bind_result_eq_Inl validation_error_def detail_error_def
                 type_error_length_def
           dest!: extractDataDictionary_Inl check_and_assemble_Inl)

subsection \<open>The invoice of a successful parse\<close>

text \<open>C8: every string field of a parsed invoice holds the value of the last section that
  names its code (A to H, Q, R), unchanged.\<close>

theorem parseData_string_fields:
  assumes "parseData qrData = Inr invoice" and "(k, field) \<in> set string_fields"
  shows "map_of (rev (map section_entry (js_split CHR ''*'' qrData))) k = Some (JsString (field invoice))"
proof -
  obtain d where e: "extractDataDictionary qrData = Inr d" and m: "missing_keys d = []"
    and a: "assemble_invoice d = Inr invoice"
    using parseData_Inr [OF assms(1)] by blast
  have req: "k \<in> set requiredElements" using assms(2) by (rule string_fields_required)
  obtain s where s: "obj_get d k = JsString s"
    using required_present [OF e m req] by blast
  have "field invoice = s"
    using assemble_string_field [OF a assms(2)] s by simp
  moreover have "map_of d k = Some (JsString s)"
    using s by (simp add: obj_get_def split: option.splits)
  moreover have "d = build_dictionary (js_split CHR ''*'' qrData)"
    using extractDataDictionary_Inr [OF e] by blast
  ultimately show ?thesis
    using required_not_proto [OF req]
    by (simp add: map_of_build_dictionary map_of_filter_not_proto rev_filter)
qed

theorem parseData_string_fields_witness:
  "parseData fullQrData = Inr fullInvoice \<and> (''A'', remitentNif) \<in> set string_fields
   \<and> map_of (rev (map section_entry (js_split CHR ''*'' fullQrData))) ''A''
       = Some (JsString ''123456789'')"
proof -
  have p: "parseData fullQrData = Inr fullInvoice" by code_simp
  have m: "(''A'', remitentNif) \<in> set string_fields" by (simp add: string_fields_def)
  from parseData_string_fields [OF p m] p m show ?thesis by (simp add: fullInvoice_def)
qed

text \<open>C9: every string field of a parsed invoice is non-empty and within the maximum length
  of its code.\<close>

theorem parseData_field_bounds:
  assumes "parseData qrData = Inr invoice" and "(k, field) \<in> set string_fields"
    and "map_of maxElementLength k = Some m"
  shows "0 < length (field invoice) \<and> length (field invoice) \<le> m"
proof -
  obtain d where e: "extractDataDictionary qrData = Inr d" and mk: "missing_keys d = []"
    and a: "assemble_invoice d = Inr invoice"
    using parseData_Inr [OF assms(1)] by blast
  have req: "k \<in> set requiredElements" using assms(2) by (rule string_fields_required)
  obtain s where s: "obj_get d k = JsString s" and ne: "s \<noteq> []"
    and le: "\<forall>m. map_of maxElementLength k = Some m \<longrightarrow> length s \<le> m"
    using required_present [OF e mk req] by blast
  have "field invoice = s"
    using assemble_string_field [OF a assms(2)] s by simp
  with ne le assms(3) show ?thesis by simp
qed


theorem parseData_field_bounds_witness:
  "parseData fullQrData = Inr fullInvoice \<and> (''H'', ATCUD) \<in> set string_fields
   \<and> map_of maxElementLength ''H'' = Some 70
   \<and> 0 < length (ATCUD fullInvoice) \<and> length (ATCUD fullInvoice) \<le> 70"
proof -
  have p: "parseData fullQrData = Inr fullInvoice" by code_simp
  have m: "(''H'', ATCUD) \<in> set string_fields" by (simp add: string_fields_def)
  have l: "map_of maxElementLength ''H'' = Some 70" by (simp add: maxElementLength_def)
  from parseData_field_bounds [OF p m l] p m l show ?thesis by blast
qed

text \<open>C10: the optional fields: \<^verbatim>\<open>notTaxableInVAT\<close> (L), \<^verbatim>\<open>stampDuty\<close> (M) and
  \<^verbatim>\<open>otherInformation\<close> (S) are unset when their code is absent and hold the converted
  value otherwise; \<^verbatim>\<open>withholdingTaxes\<close> (P) is 0 when its code is absent.\<close>

theorem parseData_optional_fields:
  assumes "parseData qrData = Inr invoice"
  shows "notTaxableInVAT invoice =
           (if ''L'' \<in> section_keys qrData then Some (to_number (payload_get qrData ''L'')) else None)
         \<and> stampDuty invoice =
           (if ''M'' \<in> section_keys qrData then Some (to_number (payload_get qrData ''M'')) else None)
         \<and> withholdingTaxes invoice =
           (if ''P'' \<in> section_keys qrData then to_number (payload_get qrData ''P'') else Num 0)
         \<and> otherInformation invoice =
           (if ''S'' \<in> section_keys qrData then Some (js_str (payload_get qrData ''S'')) else None)"
proof -
  obtain d where e: "extractDataDictionary qrData = Inr d" and a: "assemble_invoice d = Inr invoice"
    using parseData_Inr [OF assms(1)] by blast
  have opt: "opt_decimal (payload_get qrData k) =
               (if k \<in> section_keys qrData then Some (to_number (payload_get qrData k)) else None)"
    and str: "js_truthy (payload_get qrData k) \<longleftrightarrow> k \<in> section_keys qrData"
    if "k \<noteq> ''__proto__''" for k
    using extracted_value [OF e that]
    by (cases "k \<in> section_keys qrData"; auto simp: opt_decimal_def js_truthy_def)+
  have "''L'' \<noteq> ''__proto__''" "''M'' \<noteq> ''__proto__''" "''P'' \<noteq> ''__proto__''"
    "''S'' \<noteq> ''__proto__''" by simp_all
  with assemble_invoice_Inr [OF a] extracted_value(1) [OF e] show ?thesis
    by (auto simp: opt str createEmptyInvoice_def)
qed

theorem parseData_optional_fields_witness:
  "parseData fullQrData = Inr fullInvoice
   \<and> notTaxableInVAT fullInvoice = Some (to_number (payload_get fullQrData ''L''))
   \<and> stampDuty fullInvoice = None
   \<and> withholdingTaxes fullInvoice = to_number (payload_get fullQrData ''P'')
   \<and> otherInformation fullInvoice = Some (js_str (payload_get fullQrData ''S''))"
proof -
  have p: "parseData fullQrData = Inr fullInvoice" by code_simp
  have kL: "''L'' \<in> section_keys fullQrData" by code_simp
  have kM: "''M'' \<notin> section_keys fullQrData" by code_simp
  have kP: "''P'' \<in> section_keys fullQrData" by code_simp
  have kS: "''S'' \<in> section_keys fullQrData" by code_simp
  have "notTaxableInVAT fullInvoice = Some (to_number (payload_get fullQrData ''L''))
        \<and> stampDuty fullInvoice = None
        \<and> withholdingTaxes fullInvoice = to_number (payload_get fullQrData ''P'')
        \<and> otherInformation fullInvoice = Some (js_str (payload_get fullQrData ''S''))"
    using parseData_optional_fields [OF p] by (simp only: kL kM kP kS if_True if_False)
  with p show ?thesis by blast
qed
text \<open>C11: a payload none of whose keys starts with a digit, such as every payload that
  follows the specification, parses to an invoice without any tax country region: the
  extractor reads \<^verbatim>\<open>01\<close>, \<^verbatim>\<open>11\<close>, \<^verbatim>\<open>21\<close> instead of \<^verbatim>\<open>I1\<close>,
  \<^verbatim>\<open>J1\<close>, \<^verbatim>\<open>K1\<close>.\<close>

theorem parseData_regions_ignore_letters:
  assumes "parseData qrData = Inr invoice"
    and "{k \<in> section_keys qrData. starts_with_digit k} = {}"
  shows "taxCountryRegions invoice = []"
proof -
  obtain d where e: "extractDataDictionary qrData = Inr d" and a: "assemble_invoice d = Inr invoice"
    using parseData_Inr [OF assms(1)] by blast
  have "\<forall>k. starts_with_digit k \<longrightarrow> obj_get d k = obj_get [] k"
  proof (intro allI impI)
    fix k
    assume k: "starts_with_digit k"
    then have "k \<noteq> ''__proto__''" by (auto simp: starts_with_digit_def is_ascii_digit_def)
    moreover from k assms(2) have "k \<notin> section_keys qrData" by blast
    ultimately show "obj_get d k = obj_get [] k"
      using extracted_value(3) [OF e] by simp
  qed
  then have "getTaxCountryRegions d = Inr []"
    using getTaxCountryRegions_cong getTaxCountryRegions_Nil by metis
  with assemble_invoice_Inr [OF a] show ?thesis by auto
qed

theorem parseData_regions_ignore_letters_witness:
  "parseData validQrData = Inr validInvoice
   \<and> {k \<in> section_keys validQrData. starts_with_digit k} = {}
   \<and> taxCountryRegions validInvoice = []"
proof -
  have p: "parseData validQrData = Inr validInvoice" by code_simp
  have k: "{k \<in> section_keys validQrData. starts_with_digit k} = {}"
    by code_simp
  from parseData_regions_ignore_letters [OF p k] p k show ?thesis by blast
qed

subsection \<open>No NaN in a parsed invoice\<close>

text \<open>C12: every invoice that the parser returns is free of NaN: its required decimals, its
  optional decimals and the sub-fields of its regions, and every region has its code. The
  \<^verbatim>\<open>isNaN\<close> checks of \<^verbatim>\<open>tryToParseDecimal\<close> and of the detail loop are an
  invariant of the assembler's state.\<close>

theorem parseData_no_nan: "parseData qrData = Inr invoice \<Longrightarrow> invoice_ok invoice"
  by (auto dest!: parseData_Inr intro: assemble_invoice_ok)

theorem parseData_no_nan_witness: "parseData fullQrData = Inr fullInvoice \<and> invoice_ok fullInvoice"
proof -
  have p: "parseData fullQrData = Inr fullInvoice" by code_simp
  from p parseData_no_nan [OF p] show ?thesis by blast
qed

subsection \<open>Progress on well-formed payloads\<close>

text \<open>C13: a payload that has a separator, whose sections each have one colon, whose entries
  meet the validator's contract, that names every required code and one of the markers
  \<^verbatim>\<open>I1\<close>, \<^verbatim>\<open>J1\<close>, \<^verbatim>\<open>K1\<close>, whose region sub-fields read by the extractor are
  numbers and whose present numeric fields are numbers, is parsed to an invoice.\<close>

theorem parseData_succeeds:
  assumes "CHR ''*'' \<in> set qrData"
    and "list_all (\<lambda>x. \<not> is_invalid_section x) (js_split CHR ''*'' qrData)"
    and "list_all (valid_entry (payload_dictionary qrData)) (map fst (payload_dictionary qrData))"
    and "set requiredElements \<subseteq> section_keys qrData"
    and "{''I1'', ''J1'', ''K1''} \<inter> section_keys qrData \<noteq> {}"
    and "list_all (\<lambda>reg. payload_get qrData (reg @ ''1'') \<noteq> JsUndefined
                        \<longrightarrow> list_all (detail_ok (payload_dictionary qrData) reg) [2..<9])
           [''0'', ''1'', ''2'']"
    and "list_all (\<lambda>k. k \<in> section_keys qrData \<longrightarrow> decimal_ok (payload_get qrData k))
           [''L'', ''M'', ''N'', ''O'', ''P'']"
  shows "\<exists>invoice. parseData qrData = Inr invoice"
proof -
  let ?d = "payload_dictionary qrData"
  have e: "extractDataDictionary qrData = Inr ?d"
    using assms(1-3) by (rule extractDataDictionary_ok)
  have get: "\<And>k. k \<noteq> ''__proto__'' \<Longrightarrow> obj_get ?d k = payload_get qrData k"
    using extracted_value(1) [OF e] by blast
  have miss: "missing_keys ?d = []"
    using assms(4) keys_extracted [OF e required_not_proto]
    by (auto simp: missing_keys_def filter_empty_conv)
  obtain mk where "mk \<in> {''I1'', ''J1'', ''K1''}" and "mk \<in> section_keys qrData"
    using assms(5) by blast
  then have "mk \<in> set (own_keys ?d)" using keys_extracted [OF e] by auto
  then obtain m where mk: "tax_region_marker ?d = Some m"
    using \<open>mk \<in> {''I1'', ''J1'', ''K1''}\<close>
    by (cases "tax_region_marker ?d") (auto simp: tax_region_marker_def find_None_iff)
  obtain rs where rs: "getTaxCountryRegions ?d = Inr rs"
    using getTaxCountryRegions_Inr_ex assms(6) get by fastforce
  have present: "\<And>k. k \<noteq> ''__proto__'' \<Longrightarrow> js_truthy (obj_get ?d k) \<Longrightarrow> k \<in> section_keys qrData"
    using extracted_value(3) [OF e] by (fastforce simp: js_truthy_def)
  have NO: "''N'' \<in> section_keys qrData" "''O'' \<in> section_keys qrData"
    using assms(4) by (auto simp: requiredElements_def)
  have "decimal_ok (obj_get ?d ''N'')" "decimal_ok (obj_get ?d ''O'')"
    "\<forall>k\<in>{''L'', ''M'', ''P''}. js_truthy (obj_get ?d k) \<longrightarrow> decimal_ok (obj_get ?d k)"
    using assms(7) NO present get by auto
  then obtain invoice where "assemble_invoice ?d = Inr invoice"
    using assemble_invoice_Inr_ex [OF rs] by blast
  moreover have "qrData \<noteq> []" using assms(1) by auto
  ultimately show ?thesis
    using e miss mk tax_region_marker_length [OF mk]
    by (simp add: parseData_def check_and_assemble_def)
qed


theorem parseData_succeeds_witness: "\<exists>invoice. parseData fullQrData = Inr invoice"
proof -
  let ?d = "payload_dictionary fullQrData"
  have h1: "CHR ''*'' \<in> set fullQrData" by (simp add: fullQrData_def)
  have h2: "list_all (\<lambda>x. \<not> is_invalid_section x) (js_split CHR ''*'' fullQrData)" by code_simp
  have h3: "list_all (valid_entry ?d) (map fst ?d)" by code_simp
  have h4: "set requiredElements \<subseteq> section_keys fullQrData" by code_simp
  have h5: "{''I1'', ''J1'', ''K1''} \<inter> section_keys fullQrData \<noteq> {}" by code_simp
  have h6: "list_all (\<lambda>reg. payload_get fullQrData (reg @ ''1'') \<noteq> JsUndefined
                        \<longrightarrow> list_all (detail_ok ?d reg) [2..<9]) [''0'', ''1'', ''2'']" by code_simp
  have h7: "list_all (\<lambda>k. k \<in> section_keys fullQrData \<longrightarrow> decimal_ok (payload_get fullQrData k))
              [''L'', ''M'', ''N'', ''O'', ''P'']" by code_simp
  show ?thesis by (rule parseData_succeeds [OF h1 h2 h3 h4 h5 h6 h7])
qed

subsection \<open>Encoding and tokenizing\<close>

text \<open>C14: round trip of the tokenizer: encoding a non-empty list of entries whose keys and
  values contain neither separator as a payload, then tokenizing it, gives for every key
  other than \<^verbatim>\<open>__proto__\<close> the value of its last entry, and \<^verbatim>\<open>undefined\<close> for a
  key with no entry.\<close>

theorem payload_roundtrip:
  assumes "kvs \<noteq> []"
    and "\<forall>(k, v)\<in>set kvs. CHR '':'' \<notin> set k \<and> CHR '':'' \<notin> set v \<and> CHR ''*'' \<notin> set k \<and> CHR ''*'' \<notin> set v"
    and "key \<noteq> ''__proto__''"
  shows "payload_get (payload_of kvs) key = (case map_of (rev kvs) key of Some v \<Rightarrow> JsString v | None \<Rightarrow> JsUndefined)"
proof -
  have "list_all plain_entry kvs"
    using assms(2) by (auto simp: list_all_iff plain_entry_def)
  with assms(1) have entries:
    "map section_entry (js_split CHR ''*'' (payload_of kvs)) = map (\<lambda>(k, v). (k, JsString v)) kvs"
    by (rule payload_of_sections(2))
  have "map_of (rev (filter not_proto (map (\<lambda>(k, v). (k, JsString v)) kvs))) key
        = map_option JsString (map_of (rev kvs) key)"
    using assms(3) by (simp add: rev_filter map_of_filter_not_proto rev_map map_of_map)
  then show ?thesis
    by (simp add: payload_get_def payload_dictionary_def obj_get_def map_of_build_dictionary
                  entries split: option.split)
qed

theorem payload_roundtrip_witness:
  "payload_get (payload_of [(''A'', ''1''), (''B'', ''2''), (''A'', ''3'')]) ''A'' = JsString ''3''"
  using payload_roundtrip [of "[(''A'', ''1''), (''B'', ''2''), (''A'', ''3'')]" "''A''"] by simp

subsection \<open>Validation order\<close>

text \<open>C16: when every section has exactly one colon, the payload is rejected with the error of
  the first key, in property order, whose entry breaks the validator's contract, before the
  required fields are checked.\<close>

theorem parseData_first_invalid_key:
  assumes "CHR ''*'' \<in> set qrData"
    and "find is_invalid_section (js_split CHR ''*'' qrData) = None"
    and "own_keys (payload_dictionary qrData) = ks @ k # ks'"
    and "list_all (valid_entry (payload_dictionary qrData)) ks"
    and "validate_entry (payload_dictionary qrData) k = Inl e"
  shows "parseData qrData = Inl e"
proof -
  have "validateQrDataDictionary (payload_dictionary qrData) = Inl e"
    using assms(3-5)
    by (auto simp: validateQrDataDictionary_def for_each_check_Inl_iff validate_entry_ok_iff list_all_iff)
  then have "extractDataDictionary qrData = Inl e"
    using assms(1,2) by (simp add: extractDataDictionary_def payload_dictionary_def)
  moreover have "qrData \<noteq> []" using assms(1) by auto
  ultimately show ?thesis by (simp add: parseData_def)
qed

theorem parseData_first_invalid_key_witness:
  "parseData exceedsQrData = Inl (InvalidParamLengthException ''Param A exceeds the max length of 9'')"
proof -
  have h1: "CHR ''*'' \<in> set exceedsQrData" by (simp add: exceedsQrData_def)
  have h2: "find is_invalid_section (js_split CHR ''*'' exceedsQrData) = None" by code_simp
  have h3: "own_keys (payload_dictionary exceedsQrData) =
              [] @ ''A'' # tl (own_keys (payload_dictionary exceedsQrData))" by code_simp
  have h4: "list_all (valid_entry (payload_dictionary exceedsQrData)) []" by simp
  have h5: "validate_entry (payload_dictionary exceedsQrData) ''A'' =
              Inl (InvalidParamLengthException ''Param A exceeds the max length of 9'')" by code_simp
  show ?thesis by (rule parseData_first_invalid_key [OF h1 h2 h3 h4 h5])
qed

subsection \<open>Numeric fields\<close>

text \<open>C17: once the payload has passed the checks and the regions have been read, a present
  numeric field (\<^verbatim>\<open>L\<close>, \<^verbatim>\<open>M\<close>, \<^verbatim>\<open>N\<close>, \<^verbatim>\<open>O\<close>, \<^verbatim>\<open>P\<close>) whose
  value \<^verbatim>\<open>Number\<close> turns into NaN makes the parser throw
  \<^verbatim>\<open>InvalidParamFormatException('Expected decimal value')\<close>.\<close>

theorem parseData_decimal_error:
  assumes "extractDataDictionary qrData = Inr d"
    and "set requiredElements \<subseteq> section_keys qrData" and "''I1'' \<in> section_keys qrData"
    and "getTaxCountryRegions d = Inr regions"
    and "k \<in> {''L'', ''M'', ''N'', ''O'', ''P''}" and "k \<in> section_keys qrData"
    and "is_nan (to_number (payload_get qrData k))"
  shows "parseData qrData = Inl (InvalidParamFormatException ''Expected decimal value'')"
proof -
  have miss: "missing_keys d = []"
    using assms(2) keys_extracted [OF assms(1) required_not_proto]
    by (auto simp: missing_keys_def filter_empty_conv)
  have "''I1'' \<in> set (own_keys d)"
    using assms(3) keys_extracted [OF assms(1)] by simp
  then obtain m where mk: "tax_region_marker d = Some m"
    by (cases "tax_region_marker d") (auto simp: tax_region_marker_def find_None_iff)
  have kp: "k \<noteq> ''__proto__''" using assms(5) by auto
  have v: "obj_get d k = payload_get qrData k" and "\<exists>s. obj_get d k = JsString s \<and> s \<noteq> []"
    using extracted_value [OF assms(1) kp] assms(6) by blast+
  then have t: "js_truthy (obj_get d k)" by (auto simp: js_truthy_def)
  have "\<not> decimal_ok (obj_get d k)" using assms(7) v by (simp add: decimal_ok_def)
  then have "\<And>invoice. assemble_invoice d \<noteq> Inr invoice"
    using assms(5) t assemble_invoice_decimals by blast
  then obtain e where "assemble_invoice d = Inl e" by (cases "assemble_invoice d") auto
  moreover have "\<not> detail_error e" if "assemble_invoice d = Inl e"
    using that assms(4) unfolding assemble_invoice_def Let_def
    by (auto simp: bind_result_eq_Inl detail_error_def dest!: set_optional_decimal_Inl tryToParseDecimal_Inl)
  ultimately have "assemble_invoice d = Inl (InvalidParamFormatException ''Expected decimal value'')"
    using assemble_invoice_Inl by blast
  moreover have "qrData \<noteq> []" using assms(1) by (auto simp: extractDataDictionary_def)
  ultimately show ?thesis
    using assms(1) miss mk tax_region_marker_length [OF mk]
    by (simp add: parseData_def check_and_assemble_def)
qed

theorem parseData_decimal_error_witness:
  "parseData ''A:123456789*B:999999990*C:PT*D:FS*E:N*F:20210420*G:FS12344567891234/123456*H:0*I1:PT*N:3.a97*O:30.31*Q:zrVG*R:9999'' =
     Inl (InvalidParamFormatException ''Expected decimal value'')"
proof -
  let ?q = "''A:123456789*B:999999990*C:PT*D:FS*E:N*F:20210420*G:FS12344567891234/123456*H:0*I1:PT*N:3.a97*O:30.31*Q:zrVG*R:9999''"
  have e: "extractDataDictionary ?q = Inr (payload_dictionary ?q)" by code_simp
  have r: "set requiredElements \<subseteq> section_keys ?q" by code_simp
  have i: "''I1'' \<in> section_keys ?q" by code_simp
  have g: "getTaxCountryRegions (payload_dictionary ?q) = Inr []" by code_simp
  have k: "''N'' \<in> {''L'', ''M'', ''N'', ''O'', ''P''}" by simp
  have n: "''N'' \<in> section_keys ?q" by code_simp
  have nan: "is_nan (to_number (payload_get ?q ''N''))" by code_simp
  show ?thesis by (rule parseData_decimal_error [OF e r i g k n nan])
qed

end
